theory Spec2Isabelle
  imports Main
begin

unbundle bit_operations_syntax

section \<open>The field of signals\<close>

text \<open>
  Every signal of \<^verbatim>\<open>circuits/range_proof.circom\<close> holds an element of a prime field.
  A signal value is modelled as the natural number that represents it, below the modulus.
\<close>

text \<open>
  Modelled from the spec: the field modulus belongs to the circuit compiler, which is not
  in the repository. \<^verbatim>\<open>scripts/compile_circuits.js\<close> runs \<^verbatim>\<open>circom\<close> without choosing a
  prime, which selects the scalar field of the curve bn128; the spec (section 3) describes
  it as a prime field with a modulus of about \<open>2^254\<close>.
\<close>

definition field_p :: nat where
  "field_p = 21888242871839275222246405745257275088548364400416034343698204186575808495617"

text \<open>
  Modelled from the spec: the operators of the circuit language on field elements, which
  the compiler defines. By the spec (section 6) all arithmetic is modular over the field:
  sum, difference and product are reduced modulo the modulus.
\<close>

definition fadd :: "nat \<Rightarrow> nat \<Rightarrow> nat" where
  "fadd a b = (a + b) mod field_p"

definition fsub :: "nat \<Rightarrow> nat \<Rightarrow> nat" where
  "fsub a b = (a + (field_p - b mod field_p)) mod field_p"

definition fmul :: "nat \<Rightarrow> nat \<Rightarrow> nat" where
  "fmul a b = (a * b) mod field_p"

text \<open>
  Modelled from the spec: the shifts \<^verbatim>\<open><<\<close> and \<^verbatim>\<open>>>\<close> and the conjunction \<^verbatim>\<open>&\<close> of the
  circuit language, which the spec uses as \<open>(in >> i) & 1\<close> and \<open>2^n\<close>. For a shift amount
  up to half the modulus, a right shift is the integer division by the power of two and a
  left shift is the product, cut to the 254 bits of the modulus and reduced; a larger
  amount shifts the other way by its negation. \<^verbatim>\<open>&\<close> is the bitwise conjunction of the
  representatives, reduced.
\<close>

definition shl :: "nat \<Rightarrow> nat \<Rightarrow> nat" where
  "shl x k = (if k \<le> field_p div 2 then take_bit 254 (push_bit k x) mod field_p
              else drop_bit (field_p - k) x mod field_p)"

definition shr :: "nat \<Rightarrow> nat \<Rightarrow> nat" where
  "shr x k = (if k \<le> field_p div 2 then drop_bit k x mod field_p
              else take_bit 254 (push_bit (field_p - k) x) mod field_p)"

definition band :: "nat \<Rightarrow> nat \<Rightarrow> nat" where
  "band x y = (x AND y) mod field_p"

text \<open>
  The two ways the circuit can fail: an \<^verbatim>\<open>assert\<close> on a template parameter stops the
  construction of the circuit, and a constraint \<^verbatim>\<open>===\<close> that the computed signals do not
  meet stops the generation of the witness.
\<close>

datatype error = AssertFailed | ConstraintFailed

section \<open>Num2Bits\<close>

record Num2Bits_signals =
  Num2Bits_in :: nat
  Num2Bits_out :: "nat list"

text \<open>Construction: the template has no assertion; it declares \<open>n\<close> output signals.\<close>

definition Num2Bits_build :: "nat \<Rightarrow> error + unit" where
  "Num2Bits_build n = Inr ()"

text \<open>
  The loop of the template, read as the constraints it emits on a given assignment: at
  index \<open>i\<close> it checks \<^verbatim>\<open>out[i] * (out[i] - 1) === 0\<close> and adds \<^verbatim>\<open>out[i] * (1 << i)\<close>
  to \<^verbatim>\<open>lc\<close>. It returns whether every boolean constraint held and the final \<^verbatim>\<open>lc\<close>.
\<close>

function Num2Bits_loop :: "nat \<Rightarrow> nat list \<Rightarrow> nat \<Rightarrow> nat \<Rightarrow> bool \<Rightarrow> bool \<times> nat" where
  "Num2Bits_loop n out i lc ok =
     (if i < n
      then Num2Bits_loop n out (i + 1)
             (fadd lc (fmul (out ! i) (shl 1 i)))
             (ok \<and> fmul (out ! i) (fsub (out ! i) 1) = 0)
      else (ok, lc))"
  by pat_completeness auto
termination
  by (relation "measure (\<lambda>(n, out, i, lc, ok). n - i)") auto

declare Num2Bits_loop.simps [simp del]

text \<open>An assignment of the template's signals: \<open>n\<close> outputs, every signal in the field.\<close>

definition Num2Bits_signals_ok :: "nat \<Rightarrow> Num2Bits_signals \<Rightarrow> bool" where
  "Num2Bits_signals_ok n s \<longleftrightarrow>
     Num2Bits_in s < field_p \<and> length (Num2Bits_out s) = n \<and>
     list_all (\<lambda>b. b < field_p) (Num2Bits_out s)"

definition Num2Bits_constraints :: "nat \<Rightarrow> Num2Bits_signals \<Rightarrow> bool" where
  "Num2Bits_constraints n s \<longleftrightarrow>
     (case Num2Bits_loop n (Num2Bits_out s) 0 0 True of
        (ok, lc) \<Rightarrow> ok \<and> lc = Num2Bits_in s)"

text \<open>The hint \<^verbatim>\<open>out[i] <-- (in >> i) & 1\<close>, for every index of the loop.\<close>

definition Num2Bits_hint :: "nat \<Rightarrow> nat \<Rightarrow> nat list" where
  "Num2Bits_hint n inp = map (\<lambda>i. band (shr inp i) 1) [0..<n]"

text \<open>Witness generation: the hinted outputs, then the constraints checked on them.\<close>

definition Num2Bits_witness :: "nat \<Rightarrow> nat \<Rightarrow> error + Num2Bits_signals" where
  "Num2Bits_witness n inp =
     (let s = \<lparr>Num2Bits_in = inp, Num2Bits_out = Num2Bits_hint n inp\<rparr>
      in if Num2Bits_constraints n s then Inr s else Inl ConstraintFailed)"

section \<open>LessThan\<close>

record LessThan_signals =
  LessThan_in0 :: nat
  LessThan_in1 :: nat
  LessThan_out :: nat
  LessThan_n2b :: Num2Bits_signals

definition LessThan_build :: "nat \<Rightarrow> error + unit" where
  "LessThan_build n = (if n \<le> 252 then Num2Bits_build (n + 1) else Inl AssertFailed)"

text \<open>The expression \<^verbatim>\<open>in[0] + (1<<n) - in[1]\<close> wired into the decomposition.\<close>

definition LessThan_shifted :: "nat \<Rightarrow> nat \<Rightarrow> nat \<Rightarrow> nat" where
  "LessThan_shifted n a b = fsub (fadd a (shl 1 n)) b"

definition LessThan_signals_ok :: "nat \<Rightarrow> LessThan_signals \<Rightarrow> bool" where
  "LessThan_signals_ok n s \<longleftrightarrow>
     LessThan_in0 s < field_p \<and> LessThan_in1 s < field_p \<and> LessThan_out s < field_p \<and>
     Num2Bits_signals_ok (n + 1) (LessThan_n2b s)"

definition LessThan_constraints :: "nat \<Rightarrow> LessThan_signals \<Rightarrow> bool" where
  "LessThan_constraints n s \<longleftrightarrow>
     Num2Bits_constraints (n + 1) (LessThan_n2b s) \<and>
     Num2Bits_in (LessThan_n2b s) = LessThan_shifted n (LessThan_in0 s) (LessThan_in1 s) \<and>
     LessThan_out s = fsub 1 (Num2Bits_out (LessThan_n2b s) ! n)"

definition LessThan_witness :: "nat \<Rightarrow> nat \<Rightarrow> nat \<Rightarrow> error + LessThan_signals" where
  "LessThan_witness n a b =
     (case LessThan_build n of
        Inl e \<Rightarrow> Inl e
      | Inr u \<Rightarrow>
          (case Num2Bits_witness (n + 1) (LessThan_shifted n a b) of
             Inl e \<Rightarrow> Inl e
           | Inr nb \<Rightarrow>
               Inr \<lparr>LessThan_in0 = a, LessThan_in1 = b,
                    LessThan_out = fsub 1 (Num2Bits_out nb ! n),
                    LessThan_n2b = nb\<rparr>))"

section \<open>GreaterThan\<close>

record GreaterThan_signals =
  GreaterThan_in0 :: nat
  GreaterThan_in1 :: nat
  GreaterThan_out :: nat
  GreaterThan_lt :: LessThan_signals

definition GreaterThan_build :: "nat \<Rightarrow> error + unit" where
  "GreaterThan_build n = LessThan_build n"

definition GreaterThan_signals_ok :: "nat \<Rightarrow> GreaterThan_signals \<Rightarrow> bool" where
  "GreaterThan_signals_ok n s \<longleftrightarrow>
     GreaterThan_in0 s < field_p \<and> GreaterThan_in1 s < field_p \<and>
     GreaterThan_out s < field_p \<and> LessThan_signals_ok n (GreaterThan_lt s)"

definition GreaterThan_constraints :: "nat \<Rightarrow> GreaterThan_signals \<Rightarrow> bool" where
  "GreaterThan_constraints n s \<longleftrightarrow>
     LessThan_constraints n (GreaterThan_lt s) \<and>
     LessThan_in0 (GreaterThan_lt s) = GreaterThan_in1 s \<and>
     LessThan_in1 (GreaterThan_lt s) = GreaterThan_in0 s \<and>
     GreaterThan_out s = LessThan_out (GreaterThan_lt s)"

definition GreaterThan_witness :: "nat \<Rightarrow> nat \<Rightarrow> nat \<Rightarrow> error + GreaterThan_signals" where
  "GreaterThan_witness n a b =
     (case LessThan_witness n b a of
        Inl e \<Rightarrow> Inl e
      | Inr l \<Rightarrow>
          Inr \<lparr>GreaterThan_in0 = a, GreaterThan_in1 = b,
               GreaterThan_out = LessThan_out l, GreaterThan_lt = l\<rparr>)"

section \<open>GreaterEqThan and LessEqThan\<close>

record GreaterEqThan_signals =
  GreaterEqThan_in0 :: nat
  GreaterEqThan_in1 :: nat
  GreaterEqThan_out :: nat
  GreaterEqThan_lt :: LessThan_signals

definition GreaterEqThan_build :: "nat \<Rightarrow> error + unit" where
  "GreaterEqThan_build n = LessThan_build n"

definition GreaterEqThan_signals_ok :: "nat \<Rightarrow> GreaterEqThan_signals \<Rightarrow> bool" where
  "GreaterEqThan_signals_ok n s \<longleftrightarrow>
     GreaterEqThan_in0 s < field_p \<and> GreaterEqThan_in1 s < field_p \<and>
     GreaterEqThan_out s < field_p \<and> LessThan_signals_ok n (GreaterEqThan_lt s)"

definition GreaterEqThan_constraints :: "nat \<Rightarrow> GreaterEqThan_signals \<Rightarrow> bool" where
  "GreaterEqThan_constraints n s \<longleftrightarrow>
     LessThan_constraints n (GreaterEqThan_lt s) \<and>
     LessThan_in0 (GreaterEqThan_lt s) = GreaterEqThan_in0 s \<and>
     LessThan_in1 (GreaterEqThan_lt s) = GreaterEqThan_in1 s \<and>
     GreaterEqThan_out s = fsub 1 (LessThan_out (GreaterEqThan_lt s))"

definition GreaterEqThan_witness :: "nat \<Rightarrow> nat \<Rightarrow> nat \<Rightarrow> error + GreaterEqThan_signals" where
  "GreaterEqThan_witness n a b =
     (case LessThan_witness n a b of
        Inl e \<Rightarrow> Inl e
      | Inr l \<Rightarrow>
          Inr \<lparr>GreaterEqThan_in0 = a, GreaterEqThan_in1 = b,
               GreaterEqThan_out = fsub 1 (LessThan_out l), GreaterEqThan_lt = l\<rparr>)"

record LessEqThan_signals =
  LessEqThan_in0 :: nat
  LessEqThan_in1 :: nat
  LessEqThan_out :: nat
  LessEqThan_gt :: GreaterThan_signals

definition LessEqThan_build :: "nat \<Rightarrow> error + unit" where
  "LessEqThan_build n = GreaterThan_build n"

definition LessEqThan_signals_ok :: "nat \<Rightarrow> LessEqThan_signals \<Rightarrow> bool" where
  "LessEqThan_signals_ok n s \<longleftrightarrow>
     LessEqThan_in0 s < field_p \<and> LessEqThan_in1 s < field_p \<and>
     LessEqThan_out s < field_p \<and> GreaterThan_signals_ok n (LessEqThan_gt s)"

definition LessEqThan_constraints :: "nat \<Rightarrow> LessEqThan_signals \<Rightarrow> bool" where
  "LessEqThan_constraints n s \<longleftrightarrow>
     GreaterThan_constraints n (LessEqThan_gt s) \<and>
     GreaterThan_in0 (LessEqThan_gt s) = LessEqThan_in0 s \<and>
     GreaterThan_in1 (LessEqThan_gt s) = LessEqThan_in1 s \<and>
     LessEqThan_out s = fsub 1 (GreaterThan_out (LessEqThan_gt s))"

definition LessEqThan_witness :: "nat \<Rightarrow> nat \<Rightarrow> nat \<Rightarrow> error + LessEqThan_signals" where
  "LessEqThan_witness n a b =
     (case GreaterThan_witness n a b of
        Inl e \<Rightarrow> Inl e
      | Inr g \<Rightarrow>
          Inr \<lparr>LessEqThan_in0 = a, LessEqThan_in1 = b,
               LessEqThan_out = fsub 1 (GreaterThan_out g), LessEqThan_gt = g\<rparr>)"

section \<open>RangeProof\<close>

record RangeProof_signals =
  RangeProof_value :: nat
  RangeProof_minValue :: nat
  RangeProof_maxValue :: nat
  RangeProof_valid :: nat
  RangeProof_aboveMin :: nat
  RangeProof_belowMax :: nat
  RangeProof_gtMin :: GreaterEqThan_signals
  RangeProof_ltMax :: LessEqThan_signals

definition RangeProof_build :: "nat \<Rightarrow> error + unit" where
  "RangeProof_build n =
     (case GreaterEqThan_build n of Inl e \<Rightarrow> Inl e | Inr u \<Rightarrow> LessEqThan_build n)"

definition RangeProof_signals_ok :: "nat \<Rightarrow> RangeProof_signals \<Rightarrow> bool" where
  "RangeProof_signals_ok n s \<longleftrightarrow>
     RangeProof_value s < field_p \<and> RangeProof_minValue s < field_p \<and>
     RangeProof_maxValue s < field_p \<and> RangeProof_valid s < field_p \<and>
     RangeProof_aboveMin s < field_p \<and> RangeProof_belowMax s < field_p \<and>
     GreaterEqThan_signals_ok n (RangeProof_gtMin s) \<and>
     LessEqThan_signals_ok n (RangeProof_ltMax s)"

definition RangeProof_constraints :: "nat \<Rightarrow> RangeProof_signals \<Rightarrow> bool" where
  "RangeProof_constraints n s \<longleftrightarrow>
     GreaterEqThan_constraints n (RangeProof_gtMin s) \<and>
     GreaterEqThan_in0 (RangeProof_gtMin s) = RangeProof_value s \<and>
     GreaterEqThan_in1 (RangeProof_gtMin s) = RangeProof_minValue s \<and>
     RangeProof_aboveMin s = GreaterEqThan_out (RangeProof_gtMin s) \<and>
     LessEqThan_constraints n (RangeProof_ltMax s) \<and>
     LessEqThan_in0 (RangeProof_ltMax s) = RangeProof_value s \<and>
     LessEqThan_in1 (RangeProof_ltMax s) = RangeProof_maxValue s \<and>
     RangeProof_belowMax s = LessEqThan_out (RangeProof_ltMax s) \<and>
     RangeProof_valid s = fmul (RangeProof_aboveMin s) (RangeProof_belowMax s) \<and>
     RangeProof_valid s = 1"

definition RangeProof_witness :: "nat \<Rightarrow> nat \<Rightarrow> nat \<Rightarrow> nat \<Rightarrow> error + RangeProof_signals" where
  "RangeProof_witness n v lo hi =
     (case GreaterEqThan_witness n v lo of
        Inl e \<Rightarrow> Inl e
      | Inr g \<Rightarrow>
          (case LessEqThan_witness n v hi of
             Inl e \<Rightarrow> Inl e
           | Inr l \<Rightarrow>
               (let aboveMin = GreaterEqThan_out g;
                    belowMax = LessEqThan_out l;
                    valid = fmul aboveMin belowMax
                in if valid = 1
                   then Inr \<lparr>RangeProof_value = v, RangeProof_minValue = lo,
                             RangeProof_maxValue = hi, RangeProof_valid = valid,
                             RangeProof_aboveMin = aboveMin, RangeProof_belowMax = belowMax,
                             RangeProof_gtMin = g, RangeProof_ltMax = l\<rparr>
                   else Inl ConstraintFailed)))"

text \<open>The main component: \<^verbatim>\<open>component main {public [minValue, maxValue]} = RangeProof(32)\<close>.\<close>

definition main_build :: "error + unit" where
  "main_build = RangeProof_build 32"

definition main_signals_ok :: "RangeProof_signals \<Rightarrow> bool" where
  "main_signals_ok s = RangeProof_signals_ok 32 s"

definition main_constraints :: "RangeProof_signals \<Rightarrow> bool" where
  "main_constraints s = RangeProof_constraints 32 s"

definition main_witness :: "nat \<Rightarrow> nat \<Rightarrow> nat \<Rightarrow> error + RangeProof_signals" where
  "main_witness v lo hi = RangeProof_witness 32 v lo hi"

section \<open>An assignment for Num2Bits(254)\<close>

text \<open>
  The 254 bits of the field modulus itself, least significant first. As the outputs of
  Num2Bits(254) they are boolean and their weighted sum is the modulus, which is zero in
  the field.
\<close>

definition modulus_bits :: "nat list" where
  "modulus_bits =
    [1, 0, 0, 0, 0, 0, 0, 0, 0, 0, 0, 0, 0, 0, 0, 0, 0, 0, 0, 0, 0, 0, 0, 0, 0, 0, 0, 0, 1, 1, 1, 1,
     1, 1, 0, 0, 1, 0, 0, 1, 1, 0, 1, 0, 1, 1, 1, 1, 1, 0, 0, 0, 0, 1, 1, 1, 1, 1, 0, 0, 0, 0, 1, 0,
     1, 0, 0, 0, 1, 0, 0, 1, 0, 0, 0, 0, 1, 1, 1, 0, 1, 0, 0, 1, 1, 1, 0, 1, 1, 0, 0, 1, 1, 1, 1, 0,
     0, 0, 0, 1, 0, 0, 1, 0, 0, 0, 0, 1, 0, 1, 1, 1, 1, 1, 0, 0, 1, 1, 0, 0, 0, 0, 0, 1, 0, 1, 0, 0,
     1, 0, 1, 1, 1, 0, 1, 0, 0, 0, 0, 1, 1, 0, 1, 0, 1, 0, 0, 0, 0, 0, 0, 1, 1, 0, 0, 0, 0, 0, 0, 1,
     0, 1, 1, 0, 1, 1, 0, 1, 1, 0, 1, 0, 0, 0, 1, 0, 0, 0, 0, 0, 1, 0, 1, 0, 0, 0, 0, 1, 1, 1, 0, 1,
     1, 0, 0, 1, 0, 1, 0, 0, 0, 0, 0, 0, 0, 1, 0, 1, 1, 0, 0, 0, 1, 1, 0, 0, 1, 0, 0, 0, 0, 1, 1, 1,
     0, 1, 0, 0, 1, 1, 1, 0, 0, 1, 1, 1, 0, 0, 1, 0, 0, 0, 1, 0, 0, 1, 1, 0, 0, 0, 0, 0, 1, 1]"

section \<open>Primality\<close>

text \<open>
  The boolean constraint \<^verbatim>\<open>out[i] * (out[i] - 1) === 0\<close> forces a bit only because the
  modulus is prime. Primality is stated here from first principles; it is established for
  the modulus by a certificate in the style of Pocklington: a factored part of \<open>n - 1\<close>
  above the square root of \<open>n\<close> and, for each of its primes, a base whose powers are checked.
\<close>

definition is_prime :: "nat \<Rightarrow> bool" where
  "is_prime p \<longleftrightarrow> 1 < p \<and> (\<forall>m. m dvd p \<longrightarrow> m = 1 \<or> m = p)"

text \<open>A product of powers of distinct primes.\<close>

fun pp_prod :: "(nat \<times> nat) list \<Rightarrow> nat" where
  "pp_prod [] = 1"
| "pp_prod ((q, e) # qs) = q ^ e * pp_prod qs"

definition pw :: "nat \<Rightarrow> nat \<Rightarrow> nat \<Rightarrow> nat" where
  "pw n a k = a ^ k mod n"

definition pock_ok :: "nat \<Rightarrow> nat \<Rightarrow> bool" where
  "pock_ok n q \<longleftrightarrow>
     is_prime q \<and>
     (\<exists>a k u t. n = q * k + 1 \<and> pw n a (q * k) = 1 \<and> (pw n a k + q * k) * u = t * n + 1)"

section \<open>Facts on the field operators\<close>

lemma field_p_gt: "2 ^ 253 < field_p"
  by (simp add: field_p_def)

lemma field_p_lt: "field_p < 2 ^ 254"
  by (simp add: field_p_def)

lemma field_p_pos: "0 < field_p"
  by (simp add: field_p_def)

lemma pow_lt_field_p: "k \<le> 253 \<Longrightarrow> (2::nat) ^ k < field_p"
proof -
  assume "k \<le> 253"
  then have "(2::nat) ^ k \<le> 2 ^ 253" by (intro power_increasing) simp_all
  with field_p_gt show ?thesis by linarith
qed

lemma half_field_p: "253 \<le> field_p div 2"
  by (simp add: field_p_def)

lemma shl_one: "k \<le> 253 \<Longrightarrow> shl 1 k = 2 ^ k"
proof -
  assume k: "k \<le> 253"
  then have "k \<le> field_p div 2" using half_field_p by linarith
  moreover have "take_bit 254 (push_bit k (1::nat)) = 2 ^ k"
    using k by (simp add: push_bit_eq_mult take_bit_nat_eq_self_iff)
  ultimately show ?thesis using pow_lt_field_p [OF k] by (simp add: shl_def)
qed

lemma shr_div: "k \<le> 253 \<Longrightarrow> x < field_p \<Longrightarrow> shr x k = x div 2 ^ k"
proof -
  assume k: "k \<le> 253" and x: "x < field_p"
  then have "k \<le> field_p div 2" using half_field_p by linarith
  moreover have "x div 2 ^ k \<le> x" by (rule div_le_dividend)
  then have "x div 2 ^ k < field_p" using x by linarith
  ultimately show ?thesis by (simp add: shr_def drop_bit_eq_div)
qed

lemma band_one: "band x 1 = x mod 2"
proof -
  have "x mod 2 < 2" by simp
  moreover have "(2::nat) < field_p" by (simp add: field_p_def)
  ultimately have "x mod 2 < field_p" by linarith
  then show ?thesis by (simp add: band_def and_one_eq)
qed

lemma fsub_self1: "fsub 1 1 = 0" by (simp add: fsub_def field_p_def)
lemma fsub_0_1: "fsub 1 0 = 1" by (simp add: fsub_def field_p_def)

lemma fmul_bool0: "fmul 0 (fsub 0 1) = 0" by (simp add: fmul_def)
lemma fmul_bool1: "fmul 1 (fsub 1 1) = 0" unfolding fsub_self1 by (simp add: fmul_def)

lemma Num2Bits_loop_eq:
  "lc < field_p \<Longrightarrow>
   Num2Bits_loop n out i lc ok =
     (ok \<and> (\<forall>j. i \<le> j \<and> j < n \<longrightarrow> fmul (out ! j) (fsub (out ! j) 1) = 0),
      (lc + (\<Sum>j = i..<n. out ! j * shl 1 j)) mod field_p)"
proof (induction n out i lc ok rule: Num2Bits_loop.induct)
  case (1 n out i lc ok)
  show ?case
  proof (cases "i < n")
    case False
    then show ?thesis using "1.prems" by (simp add: Num2Bits_loop.simps [of n out i])
  next
    case True
    have lt: "fadd lc (fmul (out ! i) (shl 1 i)) < field_p"
      using field_p_pos by (simp add: fadd_def)
    have all: "(\<forall>j. i \<le> j \<and> j < n \<longrightarrow> fmul (out ! j) (fsub (out ! j) 1) = 0) \<longleftrightarrow>
          fmul (out ! i) (fsub (out ! i) 1) = 0 \<and>
          (\<forall>j. i + 1 \<le> j \<and> j < n \<longrightarrow> fmul (out ! j) (fsub (out ! j) 1) = 0)"
    proof -
      have "\<And>j. i \<le> j \<longleftrightarrow> j = i \<or> i + 1 \<le> j" by auto
      then show ?thesis using True by auto
    qed
    have sm: "(\<Sum>j = i..<n. out ! j * shl 1 j) = out ! i * shl 1 i + (\<Sum>j = i + 1..<n. out ! j * shl 1 j)"
      using True by (simp add: sum.atLeast_Suc_lessThan)
    have md: "(fadd lc (fmul (out ! i) (shl 1 i)) + (\<Sum>j = i + 1..<n. out ! j * shl 1 j)) mod field_p
        = (lc + (\<Sum>j = i..<n. out ! j * shl 1 j)) mod field_p"
      unfolding sm fadd_def fmul_def by (simp add: mod_simps add.assoc)
    show ?thesis
      using True "1.IH" [OF True lt] all md
      by (simp add: Num2Bits_loop.simps [of n out i] conj_ac)
  qed
qed


lemma Num2Bits_constraints_iff:
  "Num2Bits_constraints n s \<longleftrightarrow>
     (\<forall>j < n. fmul (Num2Bits_out s ! j) (fsub (Num2Bits_out s ! j) 1) = 0) \<and>
     (\<Sum>j = 0..<n. Num2Bits_out s ! j * shl 1 j) mod field_p = Num2Bits_in s"
proof -
  have "Num2Bits_loop n (Num2Bits_out s) 0 0 True =
     (True \<and> (\<forall>j. 0 \<le> j \<and> j < n \<longrightarrow> fmul (Num2Bits_out s ! j) (fsub (Num2Bits_out s ! j) 1) = 0),
      (0 + (\<Sum>j = 0..<n. Num2Bits_out s ! j * shl 1 j)) mod field_p)"
    by (rule Num2Bits_loop_eq) (rule field_p_pos)
  then show ?thesis by (simp add: Num2Bits_constraints_def)
qed

lemma bits_sum: "(\<Sum>j = 0..<m. (x div 2 ^ j mod 2) * 2 ^ j) = (x::nat) mod 2 ^ m"
proof (induction m)
  case 0
  show ?case by simp
next
  case (Suc m)
  have "x mod (2 ^ m * 2) = 2 ^ m * (x div 2 ^ m mod 2) + x mod 2 ^ m"
    by (rule mod_mult2_eq)
  then show ?case using Suc by (simp add: mult.commute)
qed

lemma Num2Bits_hint_nth:
  "i < n \<Longrightarrow> n \<le> 254 \<Longrightarrow> x < field_p \<Longrightarrow> Num2Bits_hint n x ! i = x div 2 ^ i mod 2"
proof -
  assume i: "i < n" and n: "n \<le> 254" and x: "x < field_p"
  have "shr x i = x div 2 ^ i" using i n x by (intro shr_div) simp_all
  then have "band (shr x i) 1 = x div 2 ^ i mod 2" by (simp only: band_one)
  then show ?thesis using i by (simp add: Num2Bits_hint_def del: One_nat_def)
qed

lemma Num2Bits_hint_length: "length (Num2Bits_hint n x) = n"
  by (simp add: Num2Bits_hint_def)

lemma Num2Bits_witness_ok:
  assumes n: "n \<le> 253" and x: "x < 2 ^ n"
  shows "Num2Bits_witness n x = Inr \<lparr>Num2Bits_in = x, Num2Bits_out = Num2Bits_hint n x\<rparr>"
proof -
  let ?s = "\<lparr>Num2Bits_in = x, Num2Bits_out = Num2Bits_hint n x\<rparr>"
  have xp: "x < field_p" using x pow_lt_field_p [OF n] by linarith
  have nth: "\<And>j. j < n \<Longrightarrow> Num2Bits_hint n x ! j = x div 2 ^ j mod 2"
    using n xp by (simp add: Num2Bits_hint_nth)
  have b: "\<forall>j < n. fmul (Num2Bits_hint n x ! j) (fsub (Num2Bits_hint n x ! j) 1) = 0"
  proof (intro allI impI)
    fix j assume j: "j < n"
    have "x div 2 ^ j mod 2 = 0 \<or> x div 2 ^ j mod 2 = 1" by linarith
    then show "fmul (Num2Bits_hint n x ! j) (fsub (Num2Bits_hint n x ! j) 1) = 0"
      using nth [OF j] fmul_bool0 fmul_bool1 by auto
  qed
  have "(\<Sum>j = 0..<n. Num2Bits_hint n x ! j * shl 1 j) = (\<Sum>j = 0..<n. (x div 2 ^ j mod 2) * 2 ^ j)"
  proof (rule sum.cong)
    fix j assume "j \<in> {0..<n}"
    then have j: "j < n" by simp
    then have "shl 1 j = 2 ^ j" using n by (intro shl_one) simp
    then show "Num2Bits_hint n x ! j * shl 1 j = x div 2 ^ j mod 2 * 2 ^ j"
      using nth [OF j] by simp
  qed simp
  then have "(\<Sum>j = 0..<n. Num2Bits_hint n x ! j * shl 1 j) mod field_p = x"
    using x xp by (simp add: bits_sum)
  then have "Num2Bits_constraints n ?s" using b by (simp add: Num2Bits_constraints_iff)
  then show ?thesis by (simp add: Num2Bits_witness_def)
qed



lemma LessThan_shifted_eq:
  assumes n: "n \<le> 252" and a: "a < 2 ^ n" and b: "b < 2 ^ n"
  shows "LessThan_shifted n a b = a + 2 ^ n - b"
proof -
  have p1: "(2::nat) ^ (n + 1) < field_p" using n by (intro pow_lt_field_p) simp
  have s: "shl 1 n = 2 ^ n" using n by (intro shl_one) simp
  have bp: "b < field_p" using b p1 by simp
  have x: "a + 2 ^ n < field_p" using a p1 by simp
  have f: "fadd a (2 ^ n) = a + 2 ^ n" using x by (simp add: fadd_def)
  have "a + 2 ^ n + (field_p - b) = (a + 2 ^ n - b) + field_p" using b bp by simp
  then have "(a + 2 ^ n + (field_p - b)) mod field_p = (a + 2 ^ n - b) mod field_p"
    by (simp only: mod_add_self2)
  moreover have "a + 2 ^ n - b < field_p" using x by simp
  ultimately have "(a + 2 ^ n + (field_p - b mod field_p)) mod field_p = a + 2 ^ n - b"
    using bp by simp
  then show ?thesis unfolding LessThan_shifted_def s f fsub_def .
qed

lemma shifted_top_bit:
  assumes a: "a < 2 ^ n" and b: "b < 2 ^ n"
  shows "(a + 2 ^ n - b) div 2 ^ n mod 2 = (if b \<le> a then 1 else (0::nat))"
proof (cases "b \<le> a")
  case True
  then have e: "a + 2 ^ n - b = (a - b) + 2 ^ n" by simp
  have "a - b < 2 ^ n" using a by simp
  then have "(a - b) div 2 ^ n = 0" by simp
  moreover have "((a - b) + 2 ^ n) div 2 ^ n = (a - b) div 2 ^ n + 1"
    by (rule div_add_self2) simp
  ultimately have "(a + 2 ^ n - b) div 2 ^ n = 1" unfolding e by simp
  then show ?thesis using True by simp
next
  case False
  then have "a + 2 ^ n - b < 2 ^ n" using b by simp
  then show ?thesis using False by simp
qed


section \<open>Primes and the criterion of Pocklington\<close>

lemma is_prime_coprime:
  assumes "is_prime p" and "\<not> p dvd a"
  shows "coprime p a"
proof -
  have "gcd p a dvd p" by simp
  then have "gcd p a = 1 \<or> gcd p a = p" using assms(1) by (simp add: is_prime_def)
  moreover have "gcd p a \<noteq> p" using assms(2) by (metis gcd_dvd2)
  ultimately show ?thesis by (simp add: coprime_iff_gcd_eq_1)
qed

lemma is_prime_dvd_mult:
  assumes "is_prime p" and "p dvd a * b"
  shows "p dvd a \<or> p dvd b"
proof (cases "p dvd a")
  case False
  then have "coprime p a" using assms(1) by (rule is_prime_coprime [rotated])
  then show ?thesis using assms(2) by (simp add: coprime_dvd_mult_right_iff)
qed simp

lemma is_prime_dvd_power:
  "is_prime p \<Longrightarrow> p dvd a ^ k \<Longrightarrow> p dvd a"
  by (induction k) (auto dest: is_prime_dvd_mult)

lemma prime_factor:
  "1 < n \<Longrightarrow> \<exists>p. is_prime p \<and> p dvd n"
proof (induction n rule: less_induct)
  case (less n)
  show ?case
  proof (cases "is_prime n")
    case True
    then show ?thesis by auto
  next
    case False
    then obtain m where m: "m dvd n" "m \<noteq> 1" "m \<noteq> n"
      using less.prems by (auto simp: is_prime_def)
    then have "m \<le> n" using less.prems by (intro dvd_imp_le) simp_all
    moreover have "m \<noteq> 0" using m(1) less.prems by (intro notI) simp
    ultimately have "1 < m" "m < n" using m by simp_all
    then obtain p where "is_prime p" "p dvd m" using less.IH by blast
    then show ?thesis using m(1) by (meson dvd_trans)
  qed
qed

lemma small_prime_factor:
  assumes "1 < n" and "\<not> is_prime n"
  shows "\<exists>p. is_prime p \<and> p dvd n \<and> p * p \<le> n"
proof -
  obtain m where m: "m dvd n" "m \<noteq> 1" "m \<noteq> n"
    using assms by (auto simp: is_prime_def)
  then obtain k where k: "n = m * k" by (auto simp: dvd_def)
  have "0 < n" using assms(1) by simp
  then have "0 < m * k" unfolding k .
  then have m0: "m \<noteq> 0" and k0: "k \<noteq> 0" by simp_all
  have k1: "k \<noteq> 1" using k m(3) by simp
  define d where "d = min m k"
  have d1: "1 < d" using m0 k0 m(2) k1 by (simp add: d_def min_def)
  have dn: "d dvd n" using k by (auto simp: d_def min_def)
  have "d * d \<le> m * k" by (intro mult_mono) (simp_all add: d_def)
  then have dd: "d * d \<le> n" using k by simp
  obtain p where p: "is_prime p" "p dvd d" using prime_factor [OF d1] by blast
  have "p \<le> d" using p(2) d1 by (intro dvd_imp_le) simp_all
  then have "p * p \<le> d * d" by (intro mult_mono) simp_all
  then show ?thesis using p dn dd by (meson dvd_trans le_trans)
qed

lemma power_mod_gcd:
  fixes a p :: nat
  assumes "1 < p"
  shows "a ^ m mod p = 1 \<Longrightarrow> a ^ n mod p = 1 \<Longrightarrow> a ^ gcd m n mod p = 1"
proof (induction m n rule: gcd_nat_induct)
  case (base m)
  then show ?case by simp
next
  case (step m n)
  have "a ^ m = (a ^ n) ^ (m div n) * a ^ (m mod n)"
    by (simp add: power_mult [symmetric] power_add [symmetric])
  then have "a ^ m mod p = ((a ^ n mod p) ^ (m div n) mod p) * (a ^ (m mod n) mod p) mod p"
    by (simp add: mod_mult_eq power_mod)
  then have "a ^ (m mod n) mod p = 1" using step.prems assms by simp
  then have "a ^ gcd n (m mod n) mod p = 1" using step.IH step.prems by simp
  then show ?case by (simp add: gcd_red_nat [symmetric] gcd.commute)
qed

lemma power_mod_dvd:
  fixes a p :: nat
  assumes "1 < p" and "a ^ g mod p = 1" and "g dvd k"
  shows "a ^ k mod p = 1"
proof -
  obtain h where "k = g * h" using assms(3) by (auto simp: dvd_def)
  then have "a ^ k mod p = (a ^ g mod p) ^ h mod p" by (simp add: power_mult power_mod)
  then show ?thesis using assms by simp
qed

lemma dvd_div_prime:
  assumes q: "is_prime q" and g: "g dvd M" and qe: "q ^ e dvd M" and n: "\<not> q ^ e dvd g"
  shows "g dvd M div q"
proof -
  obtain h where h: "M = g * h" using g by (auto simp: dvd_def)
  have "q dvd h"
  proof (rule ccontr)
    assume "\<not> q dvd h"
    then have "coprime q h" using q by (rule is_prime_coprime [rotated])
    then have "coprime (q ^ e) h" by simp
    then have "q ^ e dvd g" using qe h by (simp add: coprime_dvd_mult_left_iff)
    then show False using n by simp
  qed
  then obtain h' where "h = q * h'" by (auto simp: dvd_def)
  then have "M = q * (g * h')" using h by simp
  moreover have "0 < q" using q by (simp add: is_prime_def)
  ultimately have "M div q = g * h'" by simp
  then show ?thesis by simp
qed

lemma is_prime_dvd_choose:
  assumes p: "is_prime p" and k: "0 < k" "k < p"
  shows "p dvd p choose k"
proof -
  obtain j where j: "k = Suc j" using k by (cases k) simp_all
  have "Suc j * (p choose Suc j) = p * ((p - 1) choose j)" by (rule binomial_absorption)
  then have "p dvd k * (p choose k)" unfolding j by simp
  moreover have "\<not> p dvd k" using k by (auto dest: dvd_imp_le)
  ultimately show ?thesis using is_prime_dvd_mult [OF p] by blast
qed

lemma fermat_step:
  assumes p: "is_prime p"
  shows "(a + 1) ^ p mod p = (a ^ p + 1) mod p"
proof -
  let ?f = "\<lambda>k. (p choose k) * a ^ k"
  have p1: "1 < p" using p by (simp add: is_prime_def)
  have "(a + 1) ^ p = (\<Sum>k\<le>p. ?f k)" using binomial [of a 1 p] by simp
  also have "\<dots> = ?f 0 + sum ?f ({..p} - {0})" by (rule sum.remove) simp_all
  also have "sum ?f ({..p} - {0}) = ?f p + sum ?f ({..p} - {0} - {p})"
    using p1 by (intro sum.remove) auto
  finally have e: "(a + 1) ^ p = (a ^ p + 1) + sum ?f ({..p} - {0} - {p})" by simp
  have "p dvd sum ?f ({..p} - {0} - {p})"
  proof (rule dvd_sum)
    fix k assume "k \<in> {..p} - {0} - {p}"
    then have "0 < k" "k < p" by auto
    then have "p dvd p choose k" using p by (intro is_prime_dvd_choose)
    then show "p dvd ?f k" by simp
  qed
  then obtain c where "sum ?f ({..p} - {0} - {p}) = p * c" by (auto simp: dvd_def)
  then show ?thesis unfolding e by simp
qed

lemma fermat_power:
  assumes p: "is_prime p"
  shows "a ^ p mod p = a mod p"
proof (induction a)
  case 0
  have "0 < p" using p by (simp add: is_prime_def)
  then show ?case by (simp add: power_0_left)
next
  case (Suc a)
  have "Suc a ^ p mod p = (a ^ p + 1) mod p" using fermat_step [OF p, of a] by simp
  also have "\<dots> = (a ^ p mod p + 1) mod p" by (simp add: mod_simps)
  also have "\<dots> = (a + 1) mod p" unfolding Suc.IH by (simp add: mod_simps)
  finally show ?case by simp
qed

lemma fermat_little:
  assumes p: "is_prime p" and a: "\<not> p dvd a"
  shows "a ^ (p - 1) mod p = 1"
proof -
  have p1: "1 < p" using p by (simp add: is_prime_def)
  have a0: "0 < a" using a by (cases a) simp_all
  then have ge: "1 \<le> a ^ (p - 1)" by simp
  have "a ^ p = a * a ^ (p - 1)" using p1 by (cases p) simp_all
  then have "(a * a ^ (p - 1)) mod p = (a * 1) mod p" using fermat_power [OF p, of a] by simp
  moreover have "a * 1 \<le> a * a ^ (p - 1)" using ge by (intro mult_le_mono2)
  ultimately have "p dvd a * a ^ (p - 1) - a * 1" by (simp only: mod_eq_dvd_iff_nat)
  then have "p dvd a * (a ^ (p - 1) - 1)" by (simp add: diff_mult_distrib2)
  then have "p dvd a ^ (p - 1) - 1" using is_prime_dvd_mult [OF p] a by blast
  then have "a ^ (p - 1) mod p = 1 mod p" using ge by (simp only: mod_eq_dvd_iff_nat)
  then show ?thesis using p1 by simp
qed

text \<open>One prime power of the factored part of \<open>n - 1\<close> divides \<open>p - 1\<close>, for every prime
  divisor \<open>p\<close> of \<open>n\<close>.\<close>

lemma pocklington_step:
  assumes n: "1 < n" and p: "is_prime p" and pn: "p dvd n"
    and q: "is_prime q" and qe: "q ^ e dvd n - 1"
    and a1: "a ^ (n - 1) mod n = 1"
    and inv: "(a ^ ((n - 1) div q) mod n + (n - 1)) * u mod n = 1"
  shows "q ^ e dvd p - 1"
proof (rule ccontr)
  assume neg: "\<not> q ^ e dvd p - 1"
  have p1: "1 < p" using p by (simp add: is_prime_def)
  have m: "\<And>x. x mod n mod p = x mod p" using pn by (rule mod_mod_cancel)
  have "a ^ (n - 1) mod n mod p = a ^ (n - 1) mod p" by (rule m)
  then have "a ^ (n - 1) mod p = 1 mod p" unfolding a1 by simp
  then have ap: "a ^ (n - 1) mod p = 1" using p1 by simp
  have pa: "\<not> p dvd a"
  proof
    assume "p dvd a"
    obtain k where k: "n - 1 = Suc k" using n by (cases "n - 1") simp_all
    have "p dvd a * a ^ k" using \<open>p dvd a\<close> by (rule dvd_mult2)
    then have "a ^ (n - 1) mod p = 0" unfolding k by simp
    then show False using ap by simp
  qed
  have "a ^ (p - 1) mod p = 1" using p pa by (rule fermat_little)
  then have g: "a ^ gcd (n - 1) (p - 1) mod p = 1" using power_mod_gcd [OF p1 ap] by simp
  have "\<not> q ^ e dvd gcd (n - 1) (p - 1)"
  proof
    assume "q ^ e dvd gcd (n - 1) (p - 1)"
    moreover have "gcd (n - 1) (p - 1) dvd p - 1" by (rule gcd_dvd2)
    ultimately have "q ^ e dvd p - 1" by (rule dvd_trans)
    then show False using neg by simp
  qed
  then have "gcd (n - 1) (p - 1) dvd (n - 1) div q"
    using q gcd_dvd1 qe by (rule dvd_div_prime [rotated 3])
  then have "a ^ ((n - 1) div q) mod p = 1" using p1 g by (rule power_mod_dvd [rotated 2])
  then have x: "(a ^ ((n - 1) div q) mod n) mod p = 1" by (simp only: m)
  have "(a ^ ((n - 1) div q) mod n + (n - 1)) mod p = (1 + (n - 1)) mod p"
    by (subst mod_add_left_eq [symmetric]) (simp only: x)
  also have "1 + (n - 1) = n" using n by simp
  also have "n mod p = 0" using pn by simp
  finally have "p dvd a ^ ((n - 1) div q) mod n + (n - 1)" by (simp only: dvd_eq_mod_eq_0)
  then have "p dvd (a ^ ((n - 1) div q) mod n + (n - 1)) * u" by simp
  then have "(a ^ ((n - 1) div q) mod n + (n - 1)) * u mod p = 0" by (simp only: dvd_eq_mod_eq_0)
  moreover have "(a ^ ((n - 1) div q) mod n + (n - 1)) * u mod n mod p = 1 mod p"
    by (simp only: inv)
  then have "(a ^ ((n - 1) div q) mod n + (n - 1)) * u mod p = 1 mod p"
    by (simp only: m)
  ultimately show False using p1 by simp
qed

lemma is_prime_coprime_distinct:
  assumes "is_prime q" and "is_prime r" and "q \<noteq> r"
  shows "coprime q r"
proof -
  have "\<not> q dvd r" using assms by (auto simp: is_prime_def)
  then show ?thesis using assms(1) by (rule is_prime_coprime [rotated])
qed

lemma coprime_pp_prod:
  "is_prime q \<Longrightarrow> \<forall>(r, e) \<in> set qs. is_prime r \<and> r \<noteq> q \<Longrightarrow> coprime q (pp_prod qs)"
proof (induction qs)
  case Nil
  show ?case by simp
next
  case (Cons x qs)
  obtain r e where x: "x = (r, e)" by (cases x)
  have "is_prime r" "q \<noteq> r" using Cons.prems(2) x by auto
  then have "coprime q r" using Cons.prems(1) by (intro is_prime_coprime_distinct)
  moreover have "coprime q (pp_prod qs)" using Cons by auto
  ultimately show ?case by (simp add: x)
qed

lemma pp_prod_dvd:
  "distinct (map fst qs) \<Longrightarrow> \<forall>(q, e) \<in> set qs. is_prime q \<and> q ^ e dvd m \<Longrightarrow> pp_prod qs dvd m"
proof (induction qs)
  case Nil
  show ?case by simp
next
  case (Cons x qs)
  obtain q e where x: "x = (q, e)" by (cases x)
  have q: "is_prime q" "q ^ e dvd m" using Cons.prems x by auto
  have "\<forall>(r, e) \<in> set qs. is_prime r \<and> r \<noteq> q"
    using Cons.prems x by (auto simp: image_iff) 
  then have "coprime q (pp_prod qs)" using q(1) by (rule coprime_pp_prod [rotated])
  then have "coprime (q ^ e) (pp_prod qs)" by simp
  moreover have "pp_prod qs dvd m" using Cons by auto
  ultimately show ?case using q(2) by (simp add: x divides_mult)
qed

lemma pw_one: "a < n \<Longrightarrow> pw n a 1 = a"
  by (simp add: pw_def)

lemma pw_mul:
  assumes "pw n a i = x" and "pw n a j = y" and "x * y = q * n + z" and "z < n" and "i + j = k"
  shows "pw n a k = z"
proof -
  have "a ^ k mod n = (a ^ i mod n) * (a ^ j mod n) mod n"
    unfolding assms(5) [symmetric] by (simp add: power_add mod_mult_eq)
  also have "\<dots> = (q * n + z) mod n" using assms(1,2,3) by (simp add: pw_def)
  also have "\<dots> = z" using assms(4) by simp
  finally show ?thesis by (simp add: pw_def)
qed

lemma pock_okI:
  assumes "is_prime q" and "pw n a m = 1" and "pw n a k = x" and "q * k = m" and "m + 1 = n"
    and "(x + m) * u = t * n + 1"
  shows "pock_ok n q"
  unfolding pock_ok_def using assms by blast

lemma pocklington:
  assumes n: "1 < n" and f: "n = pp_prod qs * r + 1" and big: "n \<le> pp_prod qs * pp_prod qs"
    and d: "distinct (map fst qs)"
    and c: "list_all (\<lambda>(q, e). pock_ok n q) qs"
  shows "is_prime n"
proof (rule ccontr)
  assume "\<not> is_prime n"
  then obtain p where p: "is_prime p" "p dvd n" "p * p \<le> n"
    using small_prime_factor [OF n] by blast
  have fd: "pp_prod qs dvd n - 1" unfolding f by simp
  have "\<forall>(q, e) \<in> set qs. is_prime q \<and> q ^ e dvd p - 1"
  proof (intro ballI, clarify)
    fix q e assume m: "(q, e) \<in> set qs"
    then have "pock_ok n q" using c by (auto simp: list_all_iff)
    then obtain a k u t where q: "is_prime q" and k: "n = q * k + 1"
      and a: "pw n a (q * k) = 1" "(pw n a k + q * k) * u = t * n + 1"
      unfolding pock_ok_def by blast
    have n1: "n - 1 = q * k" using k by simp
    have q0: "0 < q" using q by (simp add: is_prime_def)
    have dv: "(n - 1) div q = k" unfolding n1 using q0 by simp
    have a1: "a ^ (n - 1) mod n = 1" using a(1) unfolding n1 pw_def .
    have "(a ^ k mod n + q * k) * u mod n = (t * n + 1) mod n"
      using a(2) unfolding pw_def by (rule arg_cong)
    then have "(a ^ ((n - 1) div q) mod n + (n - 1)) * u mod n = (t * n + 1) mod n"
      unfolding dv unfolding n1 .
    moreover have "(t * n + 1) mod n = 1 mod n" by (rule mod_mult_self3)
    moreover have "1 mod n = 1" using n by simp
    ultimately have inv: "(a ^ ((n - 1) div q) mod n + (n - 1)) * u mod n = 1" by (simp only:)
    have "q ^ e dvd pp_prod qs" using m
    proof (induction qs)
      case Nil
      then show ?case by simp
    next
      case (Cons x qs)
      then show ?case by (cases x) (auto intro: dvd_mult)
    qed
    then have "q ^ e dvd n - 1" using fd by (rule dvd_trans)
    then have "q ^ e dvd p - 1"
      by (rule pocklington_step [OF n p(1) p(2) q _ a1 inv])
    then show "is_prime q \<and> q ^ e dvd p - 1" using q by simp
  qed
  then have "pp_prod qs dvd p - 1" using d by (rule pp_prod_dvd [rotated])
  moreover have p1: "1 < p" using p(1) by (simp add: is_prime_def)
  then have "0 < p - 1" by simp
  ultimately have "pp_prod qs \<le> p - 1" by (intro dvd_imp_le)
  then have "pp_prod qs < p" using p1 by linarith
  then have "pp_prod qs * pp_prod qs < p * p" by (intro mult_strict_mono) simp_all
  then show False using big p(3) by linarith
qed

lemma trial_prime:
  assumes n: "1 < n" and k: "n < k * k" and t: "list_all (\<lambda>d. n mod d \<noteq> 0) [2..<k]"
  shows "is_prime n"
proof (rule ccontr)
  assume "\<not> is_prime n"
  then obtain p where p: "is_prime p" "p dvd n" "p * p \<le> n"
    using small_prime_factor [OF n] by blast
  have "2 \<le> p" using p(1) by (simp add: is_prime_def)
  moreover have "p < k"
  proof (rule ccontr)
    assume "\<not> p < k"
    then have "k * k \<le> p * p" by (intro mult_mono) simp_all
    then show False using k p(3) by linarith
  qed
  ultimately have "n mod p \<noteq> 0" using t by (simp add: list_all_iff)
  then show False using p(2) by simp
qed

lemma is_prime_2: "is_prime 2"
  by (rule trial_prime [where k = 2]) simp_all

lemma is_prime_3: "is_prime 3"
  by (rule trial_prime [where k = 2]) simp_all

lemma is_prime_13: "is_prime 13"
  by (rule trial_prime [where k = 4]) (simp_all add: upt_rec_numeral)

lemma is_prime_853: "is_prime 853"
  by (rule trial_prime [where k = 30]) (simp_all add: upt_rec_numeral)

lemma is_prime_1637: "is_prime 1637"
  by (rule trial_prime [where k = 41]) (simp_all add: upt_rec_numeral)

section \<open>The certificate of the modulus\<close>

text \<open>
  The modulus minus one is \<open>2^28 * 3^2 * 13 * 29 * 983 * 11003 * 237073 * 405928799 *
  1670836401704629 * 13818364434197438864469338081\<close>. The factored part used is
  \<open>2^28 * 3^2 * 13 * 13818364434197438864469338081\<close>, with base 5; the large prime is
  certified in turn through \<open>65865678001877903\<close> and \<open>639533339\<close>. Each line checks one
  modular product by its quotient and remainder.
\<close>

lemmas cert_simps = field_p_def arith_simps rel_simps simp_thms

lemma q30_pw0: "pw 639533339 2 1 = 2"
  by (rule pw_one) (simp_all only: cert_simps)

lemma q30_pw1: "pw 639533339 2 2 = 4"
  by (rule pw_mul [where q = 0, OF q30_pw0 q30_pw0]) (simp_all only: cert_simps)

lemma q30_pw2: "pw 639533339 2 3 = 8"
  by (rule pw_mul [where q = 0, OF q30_pw1 q30_pw0]) (simp_all only: cert_simps)

lemma q30_pw3: "pw 639533339 2 6 = 64"
  by (rule pw_mul [where q = 0, OF q30_pw2 q30_pw2]) (simp_all only: cert_simps)

lemma q30_pw4: "pw 639533339 2 7 = 128"
  by (rule pw_mul [where q = 0, OF q30_pw3 q30_pw0]) (simp_all only: cert_simps)

lemma q30_pw5: "pw 639533339 2 14 = 16384"
  by (rule pw_mul [where q = 0, OF q30_pw4 q30_pw4]) (simp_all only: cert_simps)

lemma q30_pw6: "pw 639533339 2 28 = 268435456"
  by (rule pw_mul [where q = 0, OF q30_pw5 q30_pw5]) (simp_all only: cert_simps)

lemma q30_pw7: "pw 639533339 2 56 = 294252442"
  by (rule pw_mul [where q = 112672146, OF q30_pw6 q30_pw6]) (simp_all only: cert_simps)

lemma q30_pw8: "pw 639533339 2 57 = 588504884"
  by (rule pw_mul [where q = 0, OF q30_pw7 q30_pw0]) (simp_all only: cert_simps)

lemma q30_pw9: "pw 639533339 2 114 = 381214812"
  by (rule pw_mul [where q = 541547996, OF q30_pw8 q30_pw8]) (simp_all only: cert_simps)

lemma q30_pw10: "pw 639533339 2 228 = 473527029"
  by (rule pw_mul [where q = 227235585, OF q30_pw9 q30_pw9]) (simp_all only: cert_simps)

lemma q30_pw11: "pw 639533339 2 229 = 307520719"
  by (rule pw_mul [where q = 1, OF q30_pw10 q30_pw0]) (simp_all only: cert_simps)

lemma q30_pw12: "pw 639533339 2 458 = 569936353"
  by (rule pw_mul [where q = 147871872, OF q30_pw11 q30_pw11]) (simp_all only: cert_simps)

lemma q30_pw13: "pw 639533339 2 916 = 8632283"
  by (rule pw_mul [where q = 507913234, OF q30_pw12 q30_pw12]) (simp_all only: cert_simps)

lemma q30_pw14: "pw 639533339 2 1374 = 576757596"
  by (rule pw_mul [where q = 7692877, OF q30_pw13 q30_pw12]) (simp_all only: cert_simps)

lemma q30_pw15: "pw 639533339 2 2748 = 346350812"
  by (rule pw_mul [where q = 520143836, OF q30_pw14 q30_pw14]) (simp_all only: cert_simps)

lemma q30_pw16: "pw 639533339 2 5496 = 476081691"
  by (rule pw_mul [where q = 187572527, OF q30_pw15 q30_pw15]) (simp_all only: cert_simps)

lemma q30_pw17: "pw 639533339 2 5954 = 580870054"
  by (rule pw_mul [where q = 424272271, OF q30_pw16 q30_pw12]) (simp_all only: cert_simps)

lemma q30_pw18: "pw 639533339 2 11908 = 307631766"
  by (rule pw_mul [where q = 527587850, OF q30_pw17 q30_pw17]) (simp_all only: cert_simps)

lemma q30_pw19: "pw 639533339 2 23816 = 293866202"
  by (rule pw_mul [where q = 147978686, OF q30_pw18 q30_pw18]) (simp_all only: cert_simps)

lemma q30_pw20: "pw 639533339 2 24274 = 48885504"
  by (rule pw_mul [where q = 261886318, OF q30_pw19 q30_pw12]) (simp_all only: cert_simps)

lemma q30_pw21: "pw 639533339 2 48548 = 308492291"
  by (rule pw_mul [where q = 3736775, OF q30_pw20 q30_pw20]) (simp_all only: cert_simps)

lemma q30_pw22: "pw 639533339 2 97096 = 42584974"
  by (rule pw_mul [where q = 148807713, OF q30_pw21 q30_pw21]) (simp_all only: cert_simps)

lemma q30_pw23: "pw 639533339 2 97554 = 315972641"
  by (rule pw_mul [where q = 37950679, OF q30_pw22 q30_pw12]) (simp_all only: cert_simps)

lemma q30_pw24: "pw 639533339 2 195108 = 195747935"
  by (rule pw_mul [where q = 156111814, OF q30_pw23 q30_pw23]) (simp_all only: cert_simps)

lemma q30_pw25: "pw 639533339 2 390216 = 328715981"
  by (rule pw_mul [where q = 59914396, OF q30_pw24 q30_pw24]) (simp_all only: cert_simps)

lemma q30_pw26: "pw 639533339 2 390674 = 248876995"
  by (rule pw_mul [where q = 292943582, OF q30_pw25 q30_pw12]) (simp_all only: cert_simps)

lemma q30_pw27: "pw 639533339 2 10992 = 590058143"
  by (rule pw_mul [where q = 354404942, OF q30_pw16 q30_pw16]) (simp_all only: cert_simps)

lemma q30_pw28: "pw 639533339 2 11450 = 282182576"
  by (rule pw_mul [where q = 525845277, OF q30_pw27 q30_pw12]) (simp_all only: cert_simps)

lemma q30_pw29: "pw 639533339 2 22900 = 97850539"
  by (rule pw_mul [where q = 124507983, OF q30_pw28 q30_pw28]) (simp_all only: cert_simps)

lemma q30_pw30: "pw 639533339 2 23358 = 144132996"
  by (rule pw_mul [where q = 87201989, OF q30_pw29 q30_pw12]) (simp_all only: cert_simps)

lemma q30_pw31: "pw 639533339 2 46716 = 306995837"
  by (rule pw_mul [where q = 32483561, OF q30_pw30 q30_pw30]) (simp_all only: cert_simps)

lemma q30_pw32: "pw 639533339 2 93432 = 530514611"
  by (rule pw_mul [where q = 147367522, OF q30_pw31 q30_pw31]) (simp_all only: cert_simps)

lemma q30_pw33: "pw 639533339 2 186864 = 599028696"
  by (rule pw_mul [where q = 440079875, OF q30_pw32 q30_pw32]) (simp_all only: cert_simps)

lemma q30_pw34: "pw 639533339 2 187322 = 148227881"
  by (rule pw_mul [where q = 533839613, OF q30_pw33 q30_pw12]) (simp_all only: cert_simps)

lemma q30_pw35: "pw 639533339 2 374644 = 449868847"
  by (rule pw_mul [where q = 34355526, OF q30_pw34 q30_pw34]) (simp_all only: cert_simps)

lemma q30_pw36: "pw 639533339 2 749288 = 541344755"
  by (rule pw_mul [where q = 316452586, OF q30_pw35 q30_pw35]) (simp_all only: cert_simps)

lemma q30_pw37: "pw 639533339 2 749746 = 256057581"
  by (rule pw_mul [where q = 482433106, OF q30_pw36 q30_pw12]) (simp_all only: cert_simps)

lemma q30_pw38: "pw 639533339 2 781348 = 574338237"
  by (rule pw_mul [where q = 96851492, OF q30_pw26 q30_pw26]) (simp_all only: cert_simps)

lemma q30_pw39: "pw 639533339 2 1172022 = 257756831"
  by (rule pw_mul [where q = 223506056, OF q30_pw38 q30_pw26]) (simp_all only: cert_simps)

lemma q30_pw40: "pw 639533339 2 2344044 = 448608357"
  by (rule pw_mul [where q = 103886036, OF q30_pw39 q30_pw39]) (simp_all only: cert_simps)

lemma q30_pw41: "pw 639533339 2 4688088 = 461042979"
  by (rule pw_mul [where q = 314681730, OF q30_pw40 q30_pw40]) (simp_all only: cert_simps)

lemma q30_pw42: "pw 639533339 2 9376176 = 622440571"
  by (rule pw_mul [where q = 332368330, OF q30_pw41 q30_pw41]) (simp_all only: cert_simps)

lemma q30_pw43: "pw 639533339 2 9766850 = 605154259"
  by (rule pw_mul [where q = 242225274, OF q30_pw42 q30_pw26]) (simp_all only: cert_simps)

lemma q30_pw44: "pw 639533339 2 19533700 = 217373839"
  by (rule pw_mul [where q = 572623278, OF q30_pw43 q30_pw43]) (simp_all only: cert_simps)

lemma q30_pw45: "pw 639533339 2 19924374 = 547712976"
  by (rule pw_mul [where q = 84591911, OF q30_pw44 q30_pw26]) (simp_all only: cert_simps)

lemma q30_pw46: "pw 639533339 2 39848748 = 181348006"
  by (rule pw_mul [where q = 469075630, OF q30_pw45 q30_pw45]) (simp_all only: cert_simps)

lemma q30_pw47: "pw 639533339 2 79697496 = 343175704"
  by (rule pw_mul [where q = 51423588, OF q30_pw46 q30_pw46]) (simp_all only: cert_simps)

lemma q30_pw48: "pw 639533339 2 159394992 = 193650053"
  by (rule pw_mul [where q = 184149217, OF q30_pw47 q30_pw47]) (simp_all only: cert_simps)

lemma q30_pw49: "pw 639533339 2 159785666 = 147059079"
  by (rule pw_mul [where q = 75359704, OF q30_pw48 q30_pw26]) (simp_all only: cert_simps)

lemma q30_pw50: "pw 639533339 2 319571332 = 301238345"
  by (rule pw_mul [where q = 33815864, OF q30_pw49 q30_pw49]) (simp_all only: cert_simps)

lemma q30_pw51: "pw 639533339 2 639142664 = 30418791"
  by (rule pw_mul [where q = 141891806, OF q30_pw50 q30_pw50]) (simp_all only: cert_simps)

lemma q30_pw52: "pw 639533339 2 639533338 = 1"
  by (rule pw_mul [where q = 11837596, OF q30_pw51 q30_pw26]) (simp_all only: cert_simps)

lemma q30_ok_853: "pock_ok 639533339 853"
  by (rule pock_okI [where u = 303978671 and t = 425686232, OF is_prime_853 q30_pw52 q30_pw37])
    (simp_all only: cert_simps)

lemma q30_ok_1637: "pock_ok 639533339 1637"
  by (rule pock_okI [where u = 296391531 and t = 411733498, OF is_prime_1637 q30_pw52 q30_pw26])
    (simp_all only: cert_simps)

lemma is_prime_q30: "is_prime 639533339"
  by (rule pocklington [where qs = "[(853, 1), (1637, 1)]" and r = 458])
    (simp_all add: q30_ok_853 q30_ok_1637)

lemma q56_pw0: "pw 65865678001877903 2 1 = 2"
  by (rule pw_one) (simp_all only: cert_simps)

lemma q56_pw1: "pw 65865678001877903 2 2 = 4"
  by (rule pw_mul [where q = 0, OF q56_pw0 q56_pw0]) (simp_all only: cert_simps)

lemma q56_pw2: "pw 65865678001877903 2 3 = 8"
  by (rule pw_mul [where q = 0, OF q56_pw1 q56_pw0]) (simp_all only: cert_simps)

lemma q56_pw3: "pw 65865678001877903 2 6 = 64"
  by (rule pw_mul [where q = 0, OF q56_pw2 q56_pw2]) (simp_all only: cert_simps)

lemma q56_pw4: "pw 65865678001877903 2 12 = 4096"
  by (rule pw_mul [where q = 0, OF q56_pw3 q56_pw3]) (simp_all only: cert_simps)

lemma q56_pw5: "pw 65865678001877903 2 24 = 16777216"
  by (rule pw_mul [where q = 0, OF q56_pw4 q56_pw4]) (simp_all only: cert_simps)

lemma q56_pw6: "pw 65865678001877903 2 48 = 281474976710656"
  by (rule pw_mul [where q = 0, OF q56_pw5 q56_pw5]) (simp_all only: cert_simps)

lemma q56_pw7: "pw 65865678001877903 2 49 = 562949953421312"
  by (rule pw_mul [where q = 0, OF q56_pw6 q56_pw0]) (simp_all only: cert_simps)

lemma q56_pw8: "pw 65865678001877903 2 98 = 33669438334804592"
  by (rule pw_mul [where q = 4811499094384, OF q56_pw7 q56_pw7]) (simp_all only: cert_simps)

lemma q56_pw9: "pw 65865678001877903 2 196 = 29183889115278499"
  by (rule pw_mul [where q = 17211256487011155, OF q56_pw8 q56_pw8]) (simp_all only: cert_simps)

lemma q56_pw10: "pw 65865678001877903 2 392 = 29525774262854301"
  by (rule pw_mul [where q = 12930852755642900, OF q56_pw9 q56_pw9]) (simp_all only: cert_simps)

lemma q56_pw11: "pw 65865678001877903 2 784 = 19443771364146949"
  by (rule pw_mul [where q = 13235593593922684, OF q56_pw10 q56_pw10]) (simp_all only: cert_simps)

lemma q56_pw12: "pw 65865678001877903 2 785 = 38887542728293898"
  by (rule pw_mul [where q = 0, OF q56_pw11 q56_pw0]) (simp_all only: cert_simps)

lemma q56_pw13: "pw 65865678001877903 2 1570 = 29618204593659698"
  by (rule pw_mul [where q = 22959468805616302, OF q56_pw12 q56_pw12]) (simp_all only: cert_simps)

lemma q56_pw14: "pw 65865678001877903 2 1571 = 59236409187319396"
  by (rule pw_mul [where q = 0, OF q56_pw13 q56_pw0]) (simp_all only: cert_simps)

lemma q56_pw15: "pw 65865678001877903 2 3142 = 36010106492446758"
  by (rule pw_mul [where q = 53274365038912886, OF q56_pw14 q56_pw14]) (simp_all only: cert_simps)

lemma q56_pw16: "pw 65865678001877903 2 3143 = 6154534983015613"
  by (rule pw_mul [where q = 1, OF q56_pw15 q56_pw0]) (simp_all only: cert_simps)

lemma q56_pw17: "pw 65865678001877903 2 6286 = 36599328655427822"
  by (rule pw_mul [where q = 575084049936949, OF q56_pw16 q56_pw16]) (simp_all only: cert_simps)

lemma q56_pw18: "pw 65865678001877903 2 12572 = 34345934146059857"
  by (rule pw_mul [where q = 20337008570530909, OF q56_pw17 q56_pw17]) (simp_all only: cert_simps)

lemma q56_pw19: "pw 65865678001877903 2 25144 = 24290170823953961"
  by (rule pw_mul [where q = 17909831465362696, OF q56_pw18 q56_pw18]) (simp_all only: cert_simps)

lemma q56_pw20: "pw 65865678001877903 2 50288 = 36278529593780522"
  by (rule pw_mul [where q = 8957812574859433, OF q56_pw19 q56_pw19]) (simp_all only: cert_simps)

lemma q56_pw21: "pw 65865678001877903 2 100576 = 3469598488387767"
  by (rule pw_mul [where q = 19982056655505539, OF q56_pw20 q56_pw20]) (simp_all only: cert_simps)

lemma q56_pw22: "pw 65865678001877903 2 201152 = 2511672767434082"
  by (rule pw_mul [where q = 182767627022369, OF q56_pw21 q56_pw21]) (simp_all only: cert_simps)

lemma q56_pw23: "pw 65865678001877903 2 402304 = 51961345793203582"
  by (rule pw_mul [where q = 95778260879514, OF q56_pw22 q56_pw22]) (simp_all only: cert_simps)

lemma q56_pw24: "pw 65865678001877903 2 402305 = 38057013584529261"
  by (rule pw_mul [where q = 1, OF q56_pw23 q56_pw0]) (simp_all only: cert_simps)

lemma q56_pw25: "pw 65865678001877903 2 804610 = 10339504436316854"
  by (rule pw_mul [where q = 21989241239295389, OF q56_pw24 q56_pw24]) (simp_all only: cert_simps)

lemma q56_pw26: "pw 65865678001877903 2 804611 = 20679008872633708"
  by (rule pw_mul [where q = 0, OF q56_pw25 q56_pw0]) (simp_all only: cert_simps)

lemma q56_pw27: "pw 65865678001877903 2 1609222 = 54636828819129795"
  by (rule pw_mul [where q = 6492325303965923, OF q56_pw26 q56_pw26]) (simp_all only: cert_simps)

lemma q56_pw28: "pw 65865678001877903 2 3218444 = 64564281277289374"
  by (rule pw_mul [where q = 45322285505446117, OF q56_pw27 q56_pw27]) (simp_all only: cert_simps)

lemma q56_pw29: "pw 65865678001877903 2 6436888 = 44900285821727216"
  by (rule pw_mul [where q = 63288597996882220, OF q56_pw28 q56_pw28]) (simp_all only: cert_simps)

lemma q56_pw30: "pw 65865678001877903 2 12873776 = 18846363367546969"
  by (rule pw_mul [where q = 30608288383751529, OF q56_pw29 q56_pw29]) (simp_all only: cert_simps)

lemma q56_pw31: "pw 65865678001877903 2 12873777 = 37692726735093938"
  by (rule pw_mul [where q = 0, OF q56_pw30 q56_pw0]) (simp_all only: cert_simps)

lemma q56_pw32: "pw 65865678001877903 2 25747554 = 11626112380210856"
  by (rule pw_mul [where q = 21570288074556196, OF q56_pw31 q56_pw31]) (simp_all only: cert_simps)

lemma q56_pw33: "pw 65865678001877903 2 51495108 = 47928537812222275"
  by (rule pw_mul [where q = 2052153612894387, OF q56_pw32 q56_pw32]) (simp_all only: cert_simps)

lemma q56_pw34: "pw 65865678001877903 2 51495109 = 29991397622566647"
  by (rule pw_mul [where q = 1, OF q56_pw33 q56_pw0]) (simp_all only: cert_simps)

lemma q56_pw35: "pw 65865678001877903 2 102990218 = 8595199928015311"
  by (rule pw_mul [where q = 13656337543951966, OF q56_pw34 q56_pw34]) (simp_all only: cert_simps)

lemma q56_pw36: "pw 65865678001877903 2 205980436 = 19226070235069677"
  by (rule pw_mul [where q = 1121638219535948, OF q56_pw35 q56_pw35]) (simp_all only: cert_simps)

lemma q56_pw37: "pw 65865678001877903 2 411960872 = 56968334197042590"
  by (rule pw_mul [where q = 5612054531243013, OF q56_pw36 q56_pw36]) (simp_all only: cert_simps)

lemma q56_pw38: "pw 65865678001877903 2 823921744 = 3268076130238717"
  by (rule pw_mul [where q = 49272871693409161, OF q56_pw37 q56_pw37]) (simp_all only: cert_simps)

lemma q56_pw39: "pw 65865678001877903 2 926911962 = 18611656393288241"
  by (rule pw_mul [where q = 426470486169982, OF q56_pw38 q56_pw35]) (simp_all only: cert_simps)

lemma q56_pw40: "pw 65865678001877903 2 1853823924 = 27479267257976935"
  by (rule pw_mul [where q = 5259093418759782, OF q56_pw39 q56_pw39]) (simp_all only: cert_simps)

lemma q56_pw41: "pw 65865678001877903 2 1956814142 = 43734149829486000"
  by (rule pw_mul [where q = 3585931294155095, OF q56_pw40 q56_pw35]) (simp_all only: cert_simps)

lemma q56_pw42: "pw 65865678001877903 2 3913628284 = 48447415136911303"
  by (rule pw_mul [where q = 29039037011862199, OF q56_pw41 q56_pw41]) (simp_all only: cert_simps)

lemma q56_pw43: "pw 65865678001877903 2 7827256568 = 64820389105270256"
  by (rule pw_mul [where q = 35635434184421551, OF q56_pw42 q56_pw42]) (simp_all only: cert_simps)

lemma q56_pw44: "pw 65865678001877903 2 15654513136 = 51329992322973469"
  by (rule pw_mul [where q = 63791688952762989, OF q56_pw43 q56_pw43]) (simp_all only: cert_simps)

lemma q56_pw45: "pw 65865678001877903 2 31309026272 = 61286237417813760"
  by (rule pw_mul [where q = 40002140595916967, OF q56_pw44 q56_pw44]) (simp_all only: cert_simps)

lemma q56_pw46: "pw 65865678001877903 2 62618052544 = 32725522517796593"
  by (rule pw_mul [where q = 57025191431651969, OF q56_pw45 q56_pw45]) (simp_all only: cert_simps)

lemma q56_pw47: "pw 65865678001877903 2 62721042762 = 58465146411114843"
  by (rule pw_mul [where q = 4270546016108860, OF q56_pw46 q56_pw35]) (simp_all only: cert_simps)

lemma q56_pw48: "pw 65865678001877903 2 125442085524 = 42036321954867756"
  by (rule pw_mul [where q = 51896123270387331, OF q56_pw47 q56_pw47]) (simp_all only: cert_simps)

lemma q56_pw49: "pw 65865678001877903 2 125545075742 = 25160803760737125"
  by (rule pw_mul [where q = 5485567026732897, OF q56_pw48 q56_pw35]) (simp_all only: cert_simps)

lemma q56_pw50: "pw 65865678001877903 2 251090151484 = 40998948362715937"
  by (rule pw_mul [where q = 9611470876657096, OF q56_pw49 q56_pw49]) (simp_all only: cert_simps)

lemma q56_pw51: "pw 65865678001877903 2 251193141702 = 43282835694537230"
  by (rule pw_mul [where q = 5350194041969359, OF q56_pw50 q56_pw35]) (simp_all only: cert_simps)

lemma q56_pw52: "pw 65865678001877903 2 502386283404 = 3118169928583163"
  by (rule pw_mul [where q = 28442793311971879, OF q56_pw51 q56_pw51]) (simp_all only: cert_simps)

lemma q56_pw53: "pw 65865678001877903 2 502489273622 = 17564606142202988"
  by (rule pw_mul [where q = 406908343749735, OF q56_pw52 q56_pw35]) (simp_all only: cert_simps)

lemma q56_pw54: "pw 65865678001877903 2 1004978547244 = 55317398354378580"
  by (rule pw_mul [where q = 4684008398454788, OF q56_pw53 q56_pw53]) (simp_all only: cert_simps)

lemma q56_pw55: "pw 65865678001877903 2 2009957094488 = 13529503851359270"
  by (rule pw_mul [where q = 46458408286782710, OF q56_pw54 q56_pw54]) (simp_all only: cert_simps)

lemma q56_pw56: "pw 65865678001877903 2 2010060084706 = 1018752242786798"
  by (rule pw_mul [where q = 1765544575825524, OF q56_pw55 q56_pw35]) (simp_all only: cert_simps)

lemma q56_pw57: "pw 65865678001877903 2 4020120169412 = 12272844760177368"
  by (rule pw_mul [where q = 15757161600212, OF q56_pw56 q56_pw56]) (simp_all only: cert_simps)

lemma q56_pw58: "pw 65865678001877903 2 8040240338824 = 60491326033384519"
  by (rule pw_mul [where q = 2286816488902135, OF q56_pw57 q56_pw57]) (simp_all only: cert_simps)

lemma q56_pw59: "pw 65865678001877903 2 16080480677648 = 51365274646233044"
  by (rule pw_mul [where q = 55555497738486739, OF q56_pw58 q56_pw58]) (simp_all only: cert_simps)

lemma q56_pw60: "pw 65865678001877903 2 32160961355296 = 35194706668242559"
  by (rule pw_mul [where q = 40057151456145759, OF q56_pw59 q56_pw59]) (simp_all only: cert_simps)

lemma q56_pw61: "pw 65865678001877903 2 64321922710592 = 41777112883480135"
  by (rule pw_mul [where q = 18805961086870182, OF q56_pw60 q56_pw60]) (simp_all only: cert_simps)

lemma q56_pw62: "pw 65865678001877903 2 128643845421184 = 38459179869673960"
  by (rule pw_mul [where q = 26498279738793255, OF q56_pw61 q56_pw61]) (simp_all only: cert_simps)

lemma q56_pw63: "pw 65865678001877903 2 257287690842368 = 28700056142429432"
  by (rule pw_mul [where q = 22456438028403256, OF q56_pw62 q56_pw62]) (simp_all only: cert_simps)

lemma q56_pw64: "pw 65865678001877903 2 257287793832586 = 34048583907657784"
  by (rule pw_mul [where q = 3745239219771056, OF q56_pw63 q56_pw35]) (simp_all only: cert_simps)

lemma q56_pw65: "pw 65865678001877903 2 514575587665172 = 64143099883154873"
  by (rule pw_mul [where q = 17601064792557961, OF q56_pw64 q56_pw64]) (simp_all only: cert_simps)

lemma q56_pw66: "pw 65865678001877903 2 1029151175330344 = 7159896889705541"
  by (rule pw_mul [where q = 62465572167997396, OF q56_pw65 q56_pw65]) (simp_all only: cert_simps)

lemma q56_pw67: "pw 65865678001877903 2 2058302350660688 = 33061215984632264"
  by (rule pw_mul [where q = 778313152257439, OF q56_pw66 q56_pw66]) (simp_all only: cert_simps)

lemma q56_pw68: "pw 65865678001877903 2 4116604701321376 = 44006274996778655"
  by (rule pw_mul [where q = 16595046700215247, OF q56_pw67 q56_pw67]) (simp_all only: cert_simps)

lemma q56_pw69: "pw 65865678001877903 2 4116604804311594 = 45545585862734603"
  by (rule pw_mul [where q = 5742637791927834, OF q56_pw68 q56_pw35]) (simp_all only: cert_simps)

lemma q56_pw70: "pw 65865678001877903 2 8233209608623188 = 54603917576856036"
  by (rule pw_mul [where q = 31494405804500891, OF q56_pw69 q56_pw69]) (simp_all only: cert_simps)

lemma q56_pw71: "pw 65865678001877903 2 8233209711613406 = 60626625102889057"
  by (rule pw_mul [where q = 7125586537081813, OF q56_pw70 q56_pw35]) (simp_all only: cert_simps)

lemma q56_pw72: "pw 65865678001877903 2 16466419423226812 = 57018535114983506"
  by (rule pw_mul [where q = 55804294176725281, OF q56_pw71 q56_pw71]) (simp_all only: cert_simps)

lemma q56_pw73: "pw 65865678001877903 2 32932838846453624 = 22822025749429200"
  by (rule pw_mul [where q = 49359749193896012, OF q56_pw72 q56_pw72]) (simp_all only: cert_simps)

lemma q56_pw74: "pw 65865678001877903 2 32932838949443842 = 51349957123922359"
  by (rule pw_mul [where q = 2978180442825847, OF q56_pw73 q56_pw35]) (simp_all only: cert_simps)

lemma q56_pw75: "pw 65865678001877903 2 65865677898887684 = 16886017849676097"
  by (rule pw_mul [where q = 40033264313372528, OF q56_pw74 q56_pw74]) (simp_all only: cert_simps)

lemma q56_pw76: "pw 65865678001877903 2 65865678001877902 = 1"
  by (rule pw_mul [where q = 2203555839839122, OF q56_pw75 q56_pw35]) (simp_all only: cert_simps)

lemma q56_ok_639533339: "pock_ok 65865678001877903 639533339"
  by (rule pock_okI [where u = 39033286818209505 and t = 44126970117734788, OF is_prime_q30 q56_pw76 q56_pw35])
    (simp_all only: cert_simps)

lemma is_prime_q56: "is_prime 65865678001877903"
  by (rule pocklington [where qs = "[(639533339, 1)]" and r = 102990218])
    (simp_all add: q56_ok_639533339)

lemma q95_pw0: "pw 13818364434197438864469338081 2 1 = 2"
  by (rule pw_one) (simp_all only: cert_simps)

lemma q95_pw1: "pw 13818364434197438864469338081 2 2 = 4"
  by (rule pw_mul [where q = 0, OF q95_pw0 q95_pw0]) (simp_all only: cert_simps)

lemma q95_pw2: "pw 13818364434197438864469338081 2 3 = 8"
  by (rule pw_mul [where q = 0, OF q95_pw1 q95_pw0]) (simp_all only: cert_simps)

lemma q95_pw3: "pw 13818364434197438864469338081 2 6 = 64"
  by (rule pw_mul [where q = 0, OF q95_pw2 q95_pw2]) (simp_all only: cert_simps)

lemma q95_pw4: "pw 13818364434197438864469338081 2 12 = 4096"
  by (rule pw_mul [where q = 0, OF q95_pw3 q95_pw3]) (simp_all only: cert_simps)

lemma q95_pw5: "pw 13818364434197438864469338081 2 24 = 16777216"
  by (rule pw_mul [where q = 0, OF q95_pw4 q95_pw4]) (simp_all only: cert_simps)

lemma q95_pw6: "pw 13818364434197438864469338081 2 48 = 281474976710656"
  by (rule pw_mul [where q = 0, OF q95_pw5 q95_pw5]) (simp_all only: cert_simps)

lemma q95_pw7: "pw 13818364434197438864469338081 2 96 = 10136340343277143271197259931"
  by (rule pw_mul [where q = 5, OF q95_pw6 q95_pw6]) (simp_all only: cert_simps)

lemma q95_pw8: "pw 13818364434197438864469338081 2 97 = 6454316252356847677925181781"
  by (rule pw_mul [where q = 1, OF q95_pw7 q95_pw0]) (simp_all only: cert_simps)

lemma q95_pw9: "pw 13818364434197438864469338081 2 194 = 1747888688665667015605538165"
  by (rule pw_mul [where q = 3014698192670529509244424516, OF q95_pw8 q95_pw8]) (simp_all only: cert_simps)

lemma q95_pw10: "pw 13818364434197438864469338081 2 195 = 3495777377331334031211076330"
  by (rule pw_mul [where q = 0, OF q95_pw9 q95_pw0]) (simp_all only: cert_simps)

lemma q95_pw11: "pw 13818364434197438864469338081 2 390 = 5951512278320042950352511356"
  by (rule pw_mul [where q = 884363669090863434061195624, OF q95_pw10 q95_pw10]) (simp_all only: cert_simps)

lemma q95_pw12: "pw 13818364434197438864469338081 2 780 = 1516988436286549504936358019"
  by (rule pw_mul [where q = 2563291666511285396685562157, OF q95_pw11 q95_pw11]) (simp_all only: cert_simps)

lemma q95_pw13: "pw 13818364434197438864469338081 2 781 = 3033976872573099009872716038"
  by (rule pw_mul [where q = 0, OF q95_pw12 q95_pw0]) (simp_all only: cert_simps)

lemma q95_pw14: "pw 13818364434197438864469338081 2 1562 = 2732861396444056971395374379"
  by (rule pw_mul [where q = 666143645808619438670563865, OF q95_pw13 q95_pw13]) (simp_all only: cert_simps)

lemma q95_pw15: "pw 13818364434197438864469338081 2 1563 = 5465722792888113942790748758"
  by (rule pw_mul [where q = 0, OF q95_pw14 q95_pw0]) (simp_all only: cert_simps)

lemma q95_pw16: "pw 13818364434197438864469338081 2 3126 = 2529445442512532155623637994"
  by (rule pw_mul [where q = 2161914732453046151362086970, OF q95_pw15 q95_pw15]) (simp_all only: cert_simps)

lemma q95_pw17: "pw 13818364434197438864469338081 2 6252 = 440353389748771911165647087"
  by (rule pw_mul [where q = 463013859354695514139124629, OF q95_pw16 q95_pw16]) (simp_all only: cert_simps)

lemma q95_pw18: "pw 13818364434197438864469338081 2 12504 = 3112286383224838334422801731"
  by (rule pw_mul [where q = 14032855247567947294659998, OF q95_pw17 q95_pw17]) (simp_all only: cert_simps)

lemma q95_pw19: "pw 13818364434197438864469338081 2 25008 = 12350866193980406962591578514"
  by (rule pw_mul [where q = 700974893036921157766940887, OF q95_pw18 q95_pw18]) (simp_all only: cert_simps)

lemma q95_pw20: "pw 13818364434197438864469338081 2 25009 = 10883367953763375060713818947"
  by (rule pw_mul [where q = 1, OF q95_pw19 q95_pw0]) (simp_all only: cert_simps)

lemma q95_pw21: "pw 13818364434197438864469338081 2 50018 = 782937966646541517698871546"
  by (rule pw_mul [where q = 8571759601582902866370189423, OF q95_pw20 q95_pw20]) (simp_all only: cert_simps)

lemma q95_pw22: "pw 13818364434197438864469338081 2 50019 = 1565875933293083035397743092"
  by (rule pw_mul [where q = 0, OF q95_pw21 q95_pw0]) (simp_all only: cert_simps)

lemma q95_pw23: "pw 13818364434197438864469338081 2 100038 = 490821471181962507738633853"
  by (rule pw_mul [where q = 177442666977171268995158131, OF q95_pw22 q95_pw22]) (simp_all only: cert_simps)

lemma q95_pw24: "pw 13818364434197438864469338081 2 200076 = 8716655573987122053462681598"
  by (rule pw_mul [where q = 17433735933106304079783531, OF q95_pw23 q95_pw23]) (simp_all only: cert_simps)

lemma q95_pw25: "pw 13818364434197438864469338081 2 200077 = 3614946713776805242456025115"
  by (rule pw_mul [where q = 1, OF q95_pw24 q95_pw0]) (simp_all only: cert_simps)

lemma q95_pw26: "pw 13818364434197438864469338081 2 400154 = 6928623037275597399094225425"
  by (rule pw_mul [where q = 945686430957463357797433800, OF q95_pw25 q95_pw25]) (simp_all only: cert_simps)

lemma q95_pw27: "pw 13818364434197438864469338081 2 800308 = 6696758088301655987143847572"
  by (rule pw_mul [where q = 3474059279683071211899348013, OF q95_pw26 q95_pw26]) (simp_all only: cert_simps)

lemma q95_pw28: "pw 13818364434197438864469338081 2 1600616 = 10818866157758759267509497626"
  by (rule pw_mul [where q = 3245432489987611769912184118, OF q95_pw27 q95_pw27]) (simp_all only: cert_simps)

lemma q95_pw29: "pw 13818364434197438864469338081 2 1600617 = 7819367881320079670549657171"
  by (rule pw_mul [where q = 1, OF q95_pw28 q95_pw0]) (simp_all only: cert_simps)

lemma q95_pw30: "pw 13818364434197438864469338081 2 3201234 = 10070268653200299995843475387"
  by (rule pw_mul [where q = 4424728726368345116139345134, OF q95_pw29 q95_pw29]) (simp_all only: cert_simps)

lemma q95_pw31: "pw 13818364434197438864469338081 2 6402468 = 1908353894238205021059163007"
  by (rule pw_mul [where q = 7338807080283696779741952602, OF q95_pw30 q95_pw30]) (simp_all only: cert_simps)

lemma q95_pw32: "pw 13818364434197438864469338081 2 6402469 = 3816707788476410042118326014"
  by (rule pw_mul [where q = 0, OF q95_pw31 q95_pw0]) (simp_all only: cert_simps)

lemma q95_pw33: "pw 13818364434197438864469338081 2 12804938 = 12201070946186156213298978489"
  by (rule pw_mul [where q = 1054195553459691712114827947, OF q95_pw32 q95_pw32]) (simp_all only: cert_simps)

lemma q95_pw34: "pw 13818364434197438864469338081 2 12804939 = 10583777458174873562128618897"
  by (rule pw_mul [where q = 1, OF q95_pw33 q95_pw0]) (simp_all only: cert_simps)

lemma q95_pw35: "pw 13818364434197438864469338081 2 25609878 = 30805770904398526089390029"
  by (rule pw_mul [where q = 8106338909904167689167892180, OF q95_pw34 q95_pw34]) (simp_all only: cert_simps)

lemma q95_pw36: "pw 13818364434197438864469338081 2 25609879 = 61611541808797052178780058"
  by (rule pw_mul [where q = 0, OF q95_pw35 q95_pw0]) (simp_all only: cert_simps)

lemma q95_pw37: "pw 13818364434197438864469338081 2 51219758 = 13703444609288914443892883008"
  by (rule pw_mul [where q = 274705599358989201090276, OF q95_pw36 q95_pw36]) (simp_all only: cert_simps)

lemma q95_pw38: "pw 13818364434197438864469338081 2 102439516 = 5944537754036414013630528843"
  by (rule pw_mul [where q = 13589480510090179710026265941, OF q95_pw37 q95_pw37]) (simp_all only: cert_simps)

lemma q95_pw39: "pw 13818364434197438864469338081 2 102439517 = 11889075508072828027261057686"
  by (rule pw_mul [where q = 0, OF q95_pw38 q95_pw0]) (simp_all only: cert_simps)

lemma q95_pw40: "pw 13818364434197438864469338081 2 204879034 = 6696750377520025105869736712"
  by (rule pw_mul [where q = 10229149557443025403805724764, OF q95_pw39 q95_pw39]) (simp_all only: cert_simps)

lemma q95_pw41: "pw 13818364434197438864469338081 2 409758068 = 4551237409289769362166890630"
  by (rule pw_mul [where q = 3245425016279739676961324794, OF q95_pw40 q95_pw40]) (simp_all only: cert_simps)

lemma q95_pw42: "pw 13818364434197438864469338081 2 409758069 = 9102474818579538724333781260"
  by (rule pw_mul [where q = 0, OF q95_pw41 q95_pw0]) (simp_all only: cert_simps)

lemma q95_pw43: "pw 13818364434197438864469338081 2 819516138 = 7993853100498013929712605736"
  by (rule pw_mul [where q = 5996009746119188294764522344, OF q95_pw42 q95_pw42]) (simp_all only: cert_simps)

lemma q95_pw44: "pw 13818364434197438864469338081 2 1639032276 = 13077241212351534571391395675"
  by (rule pw_mul [where q = 4624403104769690972397348741, OF q95_pw43 q95_pw43]) (simp_all only: cert_simps)

lemma q95_pw45: "pw 13818364434197438864469338081 2 3278064552 = 776611901396362500027549364"
  by (rule pw_mul [where q = 12375866806841661028364915781, OF q95_pw44 q95_pw44]) (simp_all only: cert_simps)

lemma q95_pw46: "pw 13818364434197438864469338081 2 6556129104 = 346156715412730924517150760"
  by (rule pw_mul [where q = 43646702781833428882705256, OF q95_pw45 q95_pw45]) (simp_all only: cert_simps)

lemma q95_pw47: "pw 13818364434197438864469338081 2 6556129105 = 692313430825461849034301520"
  by (rule pw_mul [where q = 0, OF q95_pw46 q95_pw0]) (simp_all only: cert_simps)

lemma q95_pw48: "pw 13818364434197438864469338081 2 13112258210 = 9108418817094604941133376915"
  by (rule pw_mul [where q = 34685572868172718843708685, OF q95_pw47 q95_pw47]) (simp_all only: cert_simps)

lemma q95_pw49: "pw 13818364434197438864469338081 2 26224516420 = 13554696113211819504756156809"
  by (rule pw_mul [where q = 6003843200305748308873229536, OF q95_pw48 q95_pw48]) (simp_all only: cert_simps)

lemma q95_pw50: "pw 13818364434197438864469338081 2 52449032840 = 9851413725777882755728564398"
  by (rule pw_mul [where q = 13296058849542891426351952643, OF q95_pw49 q95_pw49]) (simp_all only: cert_simps)

lemma q95_pw51: "pw 13818364434197438864469338081 2 104898065680 = 11475781924502439791542453899"
  by (rule pw_mul [where q = 7023287948338256667858150105, OF q95_pw50 q95_pw50]) (simp_all only: cert_simps)

lemma q95_pw52: "pw 13818364434197438864469338081 2 209796131360 = 7935281130018080704632618576"
  by (rule pw_mul [where q = 9530329830701529986281943625, OF q95_pw51 q95_pw51]) (simp_all only: cert_simps)

lemma q95_pw53: "pw 13818364434197438864469338081 2 419592262720 = 8737664600113107555932973207"
  by (rule pw_mul [where q = 4556884203790953644048480649, OF q95_pw52 q95_pw52]) (simp_all only: cert_simps)

lemma q95_pw54: "pw 13818364434197438864469338081 2 629388394080 = 6024626098376368604520791548"
  by (rule pw_mul [where q = 5017657867678860257462704564, OF q95_pw53 q95_pw52]) (simp_all only: cert_simps)

lemma q95_pw55: "pw 13818364434197438864469338081 2 1258776788160 = 10858316662900553865761844595"
  by (rule pw_mul [where q = 2626658154666458512022102589, OF q95_pw54 q95_pw54]) (simp_all only: cert_simps)

lemma q95_pw56: "pw 13818364434197438864469338081 2 1468572919520 = 12956526157738010221657952029"
  by (rule pw_mul [where q = 6235455413640637301026581811, OF q95_pw55 q95_pw52]) (simp_all only: cert_simps)

lemma q95_pw57: "pw 13818364434197438864469338081 2 2937145839040 = 13033178315209579486208481915"
  by (rule pw_mul [where q = 12148439916717187945993007246, OF q95_pw56 q95_pw56]) (simp_all only: cert_simps)

lemma q95_pw58: "pw 13818364434197438864469338081 2 5874291678080 = 5621062163834556471109875244"
  by (rule pw_mul [where q = 12292607985911379118920501901, OF q95_pw57 q95_pw57]) (simp_all only: cert_simps)

lemma q95_pw59: "pw 13818364434197438864469338081 2 6084087809440 = 9317283377009505927246043607"
  by (rule pw_mul [where q = 3227929667924232023739200777, OF q95_pw58 q95_pw52]) (simp_all only: cert_simps)

lemma q95_pw60: "pw 13818364434197438864469338081 2 12168175618880 = 3487141057479528001213568715"
  by (rule pw_mul [where q = 6282347664290678482172820614, OF q95_pw59 q95_pw59]) (simp_all only: cert_simps)

lemma q95_pw61: "pw 13818364434197438864469338081 2 24336351237760 = 3827346866853743770505767108"
  by (rule pw_mul [where q = 879999424871565427703033557, OF q95_pw60 q95_pw60]) (simp_all only: cert_simps)

lemma q95_pw62: "pw 13818364434197438864469338081 2 24546147369120 = 8970463893610592358603246707"
  by (rule pw_mul [where q = 2197877579159553238824627821, OF q95_pw61 q95_pw52]) (simp_all only: cert_simps)

lemma q95_pw63: "pw 13818364434197438864469338081 2 49092294738240 = 13047074007182443388793947416"
  by (rule pw_mul [where q = 5823353613936214452629922993, OF q95_pw62 q95_pw62]) (simp_all only: cert_simps)

lemma q95_pw64: "pw 13818364434197438864469338081 2 98184589476480 = 1735893499133178782183529707"
  by (rule pw_mul [where q = 12318834183271586178204503029, OF q95_pw63 q95_pw63]) (simp_all only: cert_simps)

lemma q95_pw65: "pw 13818364434197438864469338081 2 196369178952960 = 2277860932176299701036661121"
  by (rule pw_mul [where q = 218066780238875881708645688, OF q95_pw64 q95_pw64]) (simp_all only: cert_simps)

lemma q95_pw66: "pw 13818364434197438864469338081 2 392738357905920 = 10456841577218911324352461447"
  by (rule pw_mul [where q = 375489476416926927519801274, OF q95_pw65 q95_pw65]) (simp_all only: cert_simps)

lemma q95_pw67: "pw 13818364434197438864469338081 2 785476715811840 = 11582084072275290222046741408"
  by (rule pw_mul [where q = 7913059196821277262825356721, OF q95_pw66 q95_pw66]) (simp_all only: cert_simps)

lemma q95_pw68: "pw 13818364434197438864469338081 2 1570953431623680 = 4440869139873206848644823141"
  by (rule pw_mul [where q = 9707709772458610131767890683, OF q95_pw67 q95_pw67]) (simp_all only: cert_simps)

lemma q95_pw69: "pw 13818364434197438864469338081 2 3141906863247360 = 8368951715619670804580817870"
  by (rule pw_mul [where q = 1427181835548658164227207531, OF q95_pw68 q95_pw68]) (simp_all only: cert_simps)

lemma q95_pw70: "pw 13818364434197438864469338081 2 6283813726494720 = 9262168650417991593144528480"
  by (rule pw_mul [where q = 5068570390649222222447822820, OF q95_pw69 q95_pw69]) (simp_all only: cert_simps)

lemma q95_pw71: "pw 13818364434197438864469338081 2 12567627452989440 = 10413093752592839881829586129"
  by (rule pw_mul [where q = 6208243277799203197439006991, OF q95_pw70 q95_pw70]) (simp_all only: cert_simps)

lemma q95_pw72: "pw 13818364434197438864469338081 2 25135254905978880 = 11541844625233648289585365274"
  by (rule pw_mul [where q = 7846986668837679889618568807, OF q95_pw71 q95_pw71]) (simp_all only: cert_simps)

lemma q95_pw73: "pw 13818364434197438864469338081 2 50270509811957760 = 7370261739600282849502094594"
  by (rule pw_mul [where q = 9640372273245219505906826722, OF q95_pw72 q95_pw72]) (simp_all only: cert_simps)

lemma q95_pw74: "pw 13818364434197438864469338081 2 50270719608089120 = 4089172793395676412059969189"
  by (rule pw_mul [where q = 4232418328815130299746654555, OF q95_pw73 q95_pw52]) (simp_all only: cert_simps)

lemma q95_pw75: "pw 13818364434197438864469338081 2 100541439216178240 = 5171473324818621618623942445"
  by (rule pw_mul [where q = 1210080557208763680525159596, OF q95_pw74 q95_pw74]) (simp_all only: cert_simps)

lemma q95_pw76: "pw 13818364434197438864469338081 2 100541649012309600 = 123795530186511610780831045"
  by (rule pw_mul [where q = 2969750500085756279170655275, OF q95_pw75 q95_pw52]) (simp_all only: cert_simps)

lemma q95_pw77: "pw 13818364434197438864469338081 2 201083298024619200 = 860834511362378394843966920"
  by (rule pw_mul [where q = 1109055515733298309438705, OF q95_pw76 q95_pw76]) (simp_all only: cert_simps)

lemma q95_pw78: "pw 13818364434197438864469338081 2 201083507820750560 = 3995911146589813549241500956"
  by (rule pw_mul [where q = 494339535377795531552937444, OF q95_pw77 q95_pw52]) (simp_all only: cert_simps)

lemma q95_pw79: "pw 13818364434197438864469338081 2 402167015641501120 = 12938755124550705220164169611"
  by (rule pw_mul [where q = 1155513444986667017935628325, OF q95_pw78 q95_pw78]) (simp_all only: cert_simps)

lemma q95_pw80: "pw 13818364434197438864469338081 2 402167225437632480 = 7213163208392189156475395815"
  by (rule pw_mul [where q = 7430160050756767463919612841, OF q95_pw79 q95_pw52]) (simp_all only: cert_simps)

lemma q95_pw81: "pw 13818364434197438864469338081 2 804334450875264960 = 9014099797620607050401944390"
  by (rule pw_mul [where q = 3765259175111960399778577035, OF q95_pw80 q95_pw80]) (simp_all only: cert_simps)

lemma q95_pw82: "pw 13818364434197438864469338081 2 804334660671396320 = 3274665168306567780251474939"
  by (rule pw_mul [where q = 5176402487340607091201894021, OF q95_pw81 q95_pw52]) (simp_all only: cert_simps)

lemma q95_pw83: "pw 13818364434197438864469338081 2 1608669321342792640 = 7783209883449169180516943092"
  by (rule pw_mul [where q = 776027583842131564554195909, OF q95_pw82 q95_pw82]) (simp_all only: cert_simps)

lemma q95_pw84: "pw 13818364434197438864469338081 2 3217338642685585280 = 12137052172119357729802499609"
  by (rule pw_mul [where q = 4383902044145152776301274455, OF q95_pw83 q95_pw83]) (simp_all only: cert_simps)

lemma q95_pw85: "pw 13818364434197438864469338081 2 6434677285371170560 = 753190004820108438227960086"
  by (rule pw_mul [where q = 10660309049614580476033707195, OF q95_pw84 q95_pw84]) (simp_all only: cert_simps)

lemma q95_pw86: "pw 13818364434197438864469338081 2 12869354570742341120 = 9480013504884722808418395875"
  by (rule pw_mul [where q = 41053714139785103145534241, OF q95_pw85 q95_pw85]) (simp_all only: cert_simps)

lemma q95_pw87: "pw 13818364434197438864469338081 2 25738709141484682240 = 10028815540989260895362069621"
  by (rule pw_mul [where q = 6503711526842239666776851284, OF q95_pw86 q95_pw86]) (simp_all only: cert_simps)

lemma q95_pw88: "pw 13818364434197438864469338081 2 25738709351280813600 = 10310184326597100927003724519"
  by (rule pw_mul [where q = 5759109270696129881246703817, OF q95_pw87 q95_pw52]) (simp_all only: cert_simps)

lemma q95_pw89: "pw 13818364434197438864469338081 2 51477418702561627200 = 7990899437904117954595094713"
  by (rule pw_mul [where q = 7692654319156573966798222008, OF q95_pw88 q95_pw88]) (simp_all only: cert_simps)

lemma q95_pw90: "pw 13818364434197438864469338081 2 51477418912357758560 = 3138503201478530464709256003"
  by (rule pw_mul [where q = 4588823360639311893639651885, OF q95_pw89 q95_pw52]) (simp_all only: cert_simps)

lemma q95_pw91: "pw 13818364434197438864469338081 2 102954837824715517120 = 12483562629543047011950850809"
  by (rule pw_mul [where q = 712834170252007700279149200, OF q95_pw90 q95_pw90]) (simp_all only: cert_simps)

lemma q95_pw92: "pw 13818364434197438864469338081 2 205909675649431034240 = 12006506795127311564669325617"
  by (rule pw_mul [where q = 11277697636925491626123609344, OF q95_pw91 q95_pw91]) (simp_all only: cert_simps)

lemma q95_pw93: "pw 13818364434197438864469338081 2 205909675859227165600 = 2281409498763660828057122321"
  by (rule pw_mul [where q = 6894810689246460346796757791, OF q95_pw92 q95_pw52]) (simp_all only: cert_simps)

lemma q95_pw94: "pw 13818364434197438864469338081 2 411819351718454331200 = 8432267785655359550494713763"
  by (rule pw_mul [where q = 376660300561203939319250238, OF q95_pw93 q95_pw93]) (simp_all only: cert_simps)

lemma q95_pw95: "pw 13818364434197438864469338081 2 823638703436908662400 = 9286782187083334098797683226"
  by (rule pw_mul [where q = 5145553972584220841260386703, OF q95_pw94 q95_pw94]) (simp_all only: cert_simps)

lemma q95_pw96: "pw 13818364434197438864469338081 2 1647277406873817324800 = 7349931621413274043139007121"
  by (rule pw_mul [where q = 6241283026006494625360125555, OF q95_pw95 q95_pw95]) (simp_all only: cert_simps)

lemma q95_pw97: "pw 13818364434197438864469338081 2 3294554813747634649600 = 11241010701785258861774228018"
  by (rule pw_mul [where q = 3909398619257669835214187983, OF q95_pw96 q95_pw96]) (simp_all only: cert_simps)

lemma q95_pw98: "pw 13818364434197438864469338081 2 6589109627495269299200 = 7175543025635722158034263075"
  by (rule pw_mul [where q = 9144376109008709814932628929, OF q95_pw97 q95_pw97]) (simp_all only: cert_simps)

lemma q95_pw99: "pw 13818364434197438864469338081 2 6589109627705065430560 = 10495543114326162342869356054"
  by (rule pw_mul [where q = 4120599904576697068930787866, OF q95_pw98 q95_pw52]) (simp_all only: cert_simps)

lemma q95_pw100: "pw 13818364434197438864469338081 2 13178219255410130861120 = 7872015098463333180123611745"
  by (rule pw_mul [where q = 7971741213603122672321489891, OF q95_pw99 q95_pw99]) (simp_all only: cert_simps)

lemma q95_pw101: "pw 13818364434197438864469338081 2 13178219255619926992480 = 1878424754868214010089219927"
  by (rule pw_mul [where q = 4520553294387153840190844953, OF q95_pw100 q95_pw52]) (simp_all only: cert_simps)

lemma q95_pw102: "pw 13818364434197438864469338081 2 26356438511239853984960 = 7214738950431482892676211854"
  by (rule pw_mul [where q = 255347119878347713289285475, OF q95_pw101 q95_pw101]) (simp_all only: cert_simps)

lemma q95_pw103: "pw 13818364434197438864469338081 2 52712877022479707969920 = 8378849114816027470545259614"
  by (rule pw_mul [where q = 3766904424235236668690114342, OF q95_pw102 q95_pw102]) (simp_all only: cert_simps)

lemma q95_pw104: "pw 13818364434197438864469338081 2 105425754044959415939840 = 12903809095485579282294832217"
  by (rule pw_mul [where q = 5080565997746519261641650059, OF q95_pw103 q95_pw103]) (simp_all only: cert_simps)

lemma q95_pw105: "pw 13818364434197438864469338081 2 210851508089918831879680 = 6551789205294103496359819825"
  by (rule pw_mul [where q = 12049782734103079186712343744, OF q95_pw104 q95_pw104]) (simp_all only: cert_simps)

lemma q95_pw106: "pw 13818364434197438864469338081 2 210851508090128628011040 = 10620567016425678254099014230"
  by (rule pw_mul [where q = 3762405420424563936962765370, OF q95_pw105 q95_pw52]) (simp_all only: cert_simps)

lemma q95_pw107: "pw 13818364434197438864469338081 2 421703016180257256022080 = 2552326705477704630885573290"
  by (rule pw_mul [where q = 8162792658097975055380754810, OF q95_pw106 q95_pw106]) (simp_all only: cert_simps)

lemma q95_pw108: "pw 13818364434197438864469338081 2 843406032360514512044160 = 93879213923488799007543223"
  by (rule pw_mul [where q = 471428557447292700283853517, OF q95_pw107 q95_pw107]) (simp_all only: cert_simps)

lemma q95_pw109: "pw 13818364434197438864469338081 2 1686812064721029024088320 = 9571304684961031895341961391"
  by (rule pw_mul [where q = 637796668980676221542498, OF q95_pw108 q95_pw108]) (simp_all only: cert_simps)

lemma q95_pw110: "pw 13818364434197438864469338081 2 1686812064721238820219680 = 5861745727356882287855134263"
  by (rule pw_mul [where q = 5496380835655396344463637913, OF q95_pw109 q95_pw52]) (simp_all only: cert_simps)

lemma q95_pw111: "pw 13818364434197438864469338081 2 3373624129442477640439360 = 7033083702272804773706088375"
  by (rule pw_mul [where q = 2486550643226126051195222874, OF q95_pw110 q95_pw110]) (simp_all only: cert_simps)

lemma q95_pw112: "pw 13818364434197438864469338081 2 3373624129442687436570720 = 5715998367833451257024545553"
  by (rule pw_mul [where q = 4038791758188599709026623487, OF q95_pw111 q95_pw52]) (simp_all only: cert_simps)

lemma q95_pw113: "pw 13818364434197438864469338081 2 6747248258885374873141440 = 9315829236175563345934962545"
  by (rule pw_mul [where q = 2364435928482029727391501744, OF q95_pw112 q95_pw112]) (simp_all only: cert_simps)

lemma q95_pw114: "pw 13818364434197438864469338081 2 13494496517770749746282880 = 6932638189365131593329946845"
  by (rule pw_mul [where q = 6280386855539157330383867780, OF q95_pw113 q95_pw113]) (simp_all only: cert_simps)

lemma q95_pw115: "pw 13818364434197438864469338081 2 26988993035541499492565760 = 11671882327502556405475081550"
  by (rule pw_mul [where q = 3478086896138170026909664475, OF q95_pw114 q95_pw114]) (simp_all only: cert_simps)

lemma q95_pw116: "pw 13818364434197438864469338081 2 26988993035541709288697120 = 3083762274448825405925025177"
  by (rule pw_mul [where q = 6702650521794682898868994983, OF q95_pw115 q95_pw52]) (simp_all only: cert_simps)

lemma q95_pw117: "pw 13818364434197438864469338081 2 53977986071083418577394240 = 11426914785624813902969267960"
  by (rule pw_mul [where q = 688184901375131755302615449, OF q95_pw116 q95_pw116]) (simp_all only: cert_simps)

lemma q95_pw118: "pw 13818364434197438864469338081 2 53977986071083628373525600 = 3124199797785987746960266099"
  by (rule pw_mul [where q = 6561976397748665609295550381, OF q95_pw117 q95_pw52]) (simp_all only: cert_simps)

lemma q95_pw119: "pw 13818364434197438864469338081 2 107955972142167256747051200 = 6960506881159780353770725195"
  by (rule pw_mul [where q = 706351639730284556117162526, OF q95_pw118 q95_pw118]) (simp_all only: cert_simps)

lemma q95_pw120: "pw 13818364434197438864469338081 2 107955972142167466543182560 = 3057894684126085342478126306"
  by (rule pw_mul [where q = 3997114070369800377347964494, OF q95_pw119 q95_pw52]) (simp_all only: cert_simps)

lemma q95_pw121: "pw 13818364434197438864469338081 2 215911944284334933086365120 = 3859583265371772333019919582"
  by (rule pw_mul [where q = 676687891952362932159807334, OF q95_pw120 q95_pw120]) (simp_all only: cert_simps)

lemma q95_pw122: "pw 13818364434197438864469338081 2 431823888568669866172730240 = 6246147404744190337875264163"
  by (rule pw_mul [where q = 1078013469197015318761326081, OF q95_pw121 q95_pw121]) (simp_all only: cert_simps)

lemma q95_pw123: "pw 13818364434197438864469338081 2 863647777137339732345460480 = 7624688656232388209735739235"
  by (rule pw_mul [where q = 2823370130928126115010642214, OF q95_pw122 q95_pw122]) (simp_all only: cert_simps)

lemma q95_pw124: "pw 13818364434197438864469338081 2 1727295554274679464690920960 = 11741887193342201391162951123"
  by (rule pw_mul [where q = 4207146032464250442699538742, OF q95_pw123 q95_pw123]) (simp_all only: cert_simps)

lemma q95_pw125: "pw 13818364434197438864469338081 2 1727295554274679674487052320 = 5751857602344423908298335459"
  by (rule pw_mul [where q = 6742851248411215048459293869, OF q95_pw124 q95_pw52]) (simp_all only: cert_simps)

lemma q95_pw126: "pw 13818364434197438864469338081 2 3454591108549359348974104640 = 4650776760185159860128621071"
  by (rule pw_mul [where q = 2394195495074076269275954810, OF q95_pw125 q95_pw125]) (simp_all only: cert_simps)

lemma q95_pw127: "pw 13818364434197438864469338081 2 3454591108549359558770236000 = 9228697715789270620358885072"
  by (rule pw_mul [where q = 2670737281591122951914177504, OF q95_pw126 q95_pw52]) (simp_all only: cert_simps)

lemma q95_pw128: "pw 13818364434197438864469338081 2 6909182217098719117540472000 = 9529286644102868787309791450"
  by (rule pw_mul [where q = 6163454577781994231476112614, OF q95_pw127 q95_pw127]) (simp_all only: cert_simps)

lemma q95_pw129: "pw 13818364434197438864469338081 2 6909182217098719327336603360 = 7213377970993644489293477400"
  by (rule pw_mul [where q = 5472251716154324542910593800, OF q95_pw128 q95_pw52]) (simp_all only: cert_simps)

lemma q95_pw130: "pw 13818364434197438864469338081 2 13818364434197438654673206720 = 11146709082772323365815564263"
  by (rule pw_mul [where q = 3765483389889942359474483577, OF q95_pw129 q95_pw129]) (simp_all only: cert_simps)

lemma q95_pw131: "pw 13818364434197438864469338081 2 13818364434197438864469338080 = 1"
  by (rule pw_mul [where q = 6401066542102789263873037327, OF q95_pw130 q95_pw52]) (simp_all only: cert_simps)

lemma q95_ok_65865678001877903: "pock_ok 13818364434197438864469338081 65865678001877903"
  by (rule pock_okI [where u = 12281824895882260584345986666 and t = 19334738705080199550160015295, OF is_prime_q56 q95_pw131 q95_pw52])
    (simp_all only: cert_simps)

lemma is_prime_q95: "is_prime 13818364434197438864469338081"
  by (rule pocklington [where qs = "[(65865678001877903, 1)]" and r = 209796131360])
    (simp_all add: q95_ok_65865678001877903)

lemma fp_pw0: "pw field_p 5 1 = 5"
  by (rule pw_one) (simp_all only: cert_simps)

lemma fp_pw1: "pw field_p 5 2 = 25"
  by (rule pw_mul [where q = 0, OF fp_pw0 fp_pw0]) (simp_all only: cert_simps)

lemma fp_pw2: "pw field_p 5 3 = 125"
  by (rule pw_mul [where q = 0, OF fp_pw1 fp_pw0]) (simp_all only: cert_simps)

lemma fp_pw3: "pw field_p 5 6 = 15625"
  by (rule pw_mul [where q = 0, OF fp_pw2 fp_pw2]) (simp_all only: cert_simps)

lemma fp_pw4: "pw field_p 5 7 = 78125"
  by (rule pw_mul [where q = 0, OF fp_pw3 fp_pw0]) (simp_all only: cert_simps)

lemma fp_pw5: "pw field_p 5 14 = 6103515625"
  by (rule pw_mul [where q = 0, OF fp_pw4 fp_pw4]) (simp_all only: cert_simps)

lemma fp_pw6: "pw field_p 5 28 = 37252902984619140625"
  by (rule pw_mul [where q = 0, OF fp_pw5 fp_pw5]) (simp_all only: cert_simps)

lemma fp_pw7: "pw field_p 5 56 = 1387778780781445675529539585113525390625"
  by (rule pw_mul [where q = 0, OF fp_pw6 fp_pw6]) (simp_all only: cert_simps)

lemma fp_pw8: "pw field_p 5 112 = 21652814537218908720540642747544385834393945379193207338195031334463498771946"
  by (rule pw_mul [where q = 87, OF fp_pw7 fp_pw7]) (simp_all only: cert_simps)

lemma fp_pw9: "pw field_p 5 113 = 20711101198737442713717590756692828817776269294301899316182339926014259877262"
  by (rule pw_mul [where q = 4, OF fp_pw8 fp_pw0]) (simp_all only: cert_simps)

lemma fp_pw10: "pw field_p 5 226 = 21297248526670454050420736638270509660822823634059239185333184080958156554141"
  by (rule pw_mul [where q = 19597265773042784735304529416431286393773854929916647905332861097903539608359, OF fp_pw9 fp_pw9]) (simp_all only: cert_simps)

lemma fp_pw11: "pw field_p 5 227 = 18933271145995169363118060210323447949920660568632058551873103658487548788237"
  by (rule pw_mul [where q = 4, OF fp_pw10 fp_pw0]) (simp_all only: cert_simps)

lemma fp_pw12: "pw field_p 5 454 = 21374016644988675058662514424412690012355867033960423923453361084643879443943"
  by (rule pw_mul [where q = 16377228559948403163018881128373465951195498063381085038672634229682939293378, OF fp_pw11 fp_pw11]) (simp_all only: cert_simps)

lemma fp_pw13: "pw field_p 5 455 = 19317111737586274404326949141034349707585877568137982242473988676916163237247"
  by (rule pw_mul [where q = 4, OF fp_pw12 fp_pw0]) (simp_all only: cert_simps)

lemma fp_pw14: "pw field_p 5 910 = 21695023430728354470012492389701940003855340562171711852915558402448741137318"
  by (rule pw_mul [where q = 17048001891576116546225599152026592922870308733348687298497047691891989682523, OF fp_pw13 fp_pw13]) (simp_all only: cert_simps)

lemma fp_pw15: "pw field_p 5 1820 = 8424630852465689488698435729120968859786308197050264137224795875274164047446"
  by (rule pw_mul [where q = 21503509642859761771622483483617514309366044411178022602602960951889086669134, OF fp_pw14 fp_pw14]) (simp_all only: cert_simps)

lemma fp_pw16: "pw field_p 5 1821 = 20234911390489172221245772900347569210383176584835286342425775189795011741613"
  by (rule pw_mul [where q = 1, OF fp_pw15 fp_pw0]) (simp_all only: cert_simps)

lemma fp_pw17: "pw field_p 5 3642 = 2133990150979126430218327591936770637650909059319042976521249464587451463691"
  by (rule pw_mul [where q = 18706464533420178944259117825740899742930420710777607553641208788611862426334, OF fp_pw16 fp_pw16]) (simp_all only: cert_simps)

lemma fp_pw18: "pw field_p 5 7284 = 13631215004752064391569047085964341862974976559176586126882849366589127490439"
  by (rule pw_mul [where q = 208052971229355156613489192413131410309789521682485151374618187674274551026, OF fp_pw17 fp_pw17]) (simp_all only: cert_simps)

lemma fp_pw19: "pw field_p 5 7285 = 2491346408242496291106018194049884049229789594634827603319634273218211965344"
  by (rule pw_mul [where q = 3, OF fp_pw18 fp_pw0]) (simp_all only: cert_simps)

lemma fp_pw20: "pw field_p 5 14570 = 3878345430303261972016305639783635665591438216328946533245264987968741760960"
  by (rule pw_mul [where q = 283568076350627009239121292499437480825276442677677937808029544756080395328, OF fp_pw19 fp_pw19]) (simp_all only: cert_simps)

lemma fp_pw21: "pw field_p 5 29140 = 2711362149097793669631864458318431365945008547408868576878910019812191780864"
  by (rule pw_mul [where q = 687198299325625468167008223095927615811395016581380994722807175649537937408, OF fp_pw20 fp_pw20]) (simp_all only: cert_simps)

lemma fp_pw22: "pw field_p 5 58280 = 9968897975976404005005598951965048912648718574759570252100503225043794552043"
  by (rule pw_mul [where q = 335864543655004636575339380700735506701151125373113775762669797077247826709, OF fp_pw21 fp_pw21]) (simp_all only: cert_simps)

lemma fp_pw23: "pw field_p 5 116560 = 357727185525127485566568957302855592501530842497151150446293279018483865892"
  by (rule pw_mul [where q = 4540288018426743872673559785513840586031798515054689059981040305303459600021, OF fp_pw22 fp_pw22]) (simp_all only: cert_simps)

lemma fp_pw24: "pw field_p 5 233120 = 6291064848715638414740315361035151440491643339386522504822506841664218970178"
  by (rule pw_mul [where q = 5846460129897842748886674683605358021807508132368756088960764539851134158, OF fp_pw23 fp_pw23]) (simp_all only: cert_simps)

lemma fp_pw25: "pw field_p 5 466240 = 19139425033630855250393449150344708399200681809901438263046858155129865375790"
  by (rule pw_mul [where q = 1808162361980398211107091096499928373957925192349419198272674458515831840982, OF fp_pw24 fp_pw24]) (simp_all only: cert_simps)

lemma fp_pw26: "pw field_p 5 932480 = 9027867947234490521169728263012245394946087833584674655361788072424992805409"
  by (rule pw_mul [where q = 16735815330762258403732485109152031727483391500226044743974758708256342783523, OF fp_pw25 fp_pw25]) (simp_all only: cert_simps)

lemma fp_pw27: "pw field_p 5 932481 = 1362853992493902161355829824546676797633710367091304589412531988973347035811"
  by (rule pw_mul [where q = 2, OF fp_pw26 fp_pw0]) (simp_all only: cert_simps)

lemma fp_pw28: "pw field_p 5 1864962 = 1070875018179091175108651366309278460076081087255898796204679195278545879487"
  by (rule pw_mul [where q = 84857017337202715319849259924990716771922325384534767763740261276556821002, OF fp_pw27 fp_pw27]) (simp_all only: cert_simps)

lemma fp_pw29: "pw field_p 5 1864963 = 5354375090895455875543256831546392300380405436279493981023395976392729397435"
  by (rule pw_mul [where q = 0, OF fp_pw28 fp_pw0]) (simp_all only: cert_simps)

lemma fp_pw30: "pw field_p 5 3729926 = 10846405315109298596351165334413584627080119247999566332573703587651983904907"
  by (rule pw_mul [where q = 1309805121492268477523320620723274768460820732540568696604474315589332183054, OF fp_pw29 fp_pw29]) (simp_all only: cert_simps)

lemma fp_pw31: "pw field_p 5 7459852 = 10761562598942697308012117792844939888627436014202904597800676808877554305441"
  by (rule pw_mul [where q = 5374780833183689073635673396470014406900961128677846369523949126517626315224, OF fp_pw30 fp_pw30]) (simp_all only: cert_simps)

lemma fp_pw32: "pw field_p 5 14919704 = 15601803097458950163045384641109500142804644636580582502062391542054850130855"
  by (rule pw_mul [where q = 5291024512523176854761545170444489916715861189037970708925710237302678471578, OF fp_pw31 fp_pw31]) (simp_all only: cert_simps)

lemma fp_pw33: "pw field_p 5 29839408 = 1850338989818550227412653885775763434867605933678187093174320388172341972722"
  by (rule pw_mul [where q = 11120868007411019493299649367858887918568978109172337719470169910787324405759, OF fp_pw32 fp_pw32]) (simp_all only: cert_simps)

lemma fp_pw34: "pw field_p 5 59678816 = 3212821725026120730785148430179352862842889608984486287499213511888236911321"
  by (rule pw_mul [where q = 156419791085543353902410601312415955157775394309797470470440189601678901739, OF fp_pw33 fp_pw33]) (simp_all only: cert_simps)

lemma fp_pw35: "pw field_p 5 59678817 = 16064108625130603653925742150896764314214448044922431437496067559441184556605"
  by (rule pw_mul [where q = 0, OF fp_pw34 fp_pw0]) (simp_all only: cert_simps)

lemma fp_pw36: "pw field_p 5 119357634 = 16280772947670790974086693661178753120724827703289887238708328269714521235617"
  by (rule pw_mul [where q = 11789689443367866354491916347940402000874258665612956106751119874210171406824, OF fp_pw35 fp_pw35]) (simp_all only: cert_simps)

lemma fp_pw37: "pw field_p 5 238715268 = 21518506135707390792139275838105238712945721855706826032757471475636576450246"
  by (rule pw_mul [where q = 12109860500252009929131456822793895290108995061345709043412357498874096365179, OF fp_pw36 fp_pw36]) (simp_all only: cert_simps)

lemma fp_pw38: "pw field_p 5 238715269 = 20039559191179853071710756209497093210535151676869992788994540631879648268762"
  by (rule pw_mul [where q = 4, OF fp_pw37 fp_pw0]) (simp_all only: cert_simps)

lemma fp_pw39: "pw field_p 5 477430538 = 9108674205819595523870048013978583228327012388980627082237611716268854299038"
  by (rule pw_mul [where q = 18347015561192725193368756980224358953754158895774444359434989273032978752518, OF fp_pw38 fp_pw38]) (simp_all only: cert_simps)

lemma fp_pw40: "pw field_p 5 477430539 = 1766885285419427174857428579378365964538333144071066723791650208192654503956"
  by (rule pw_mul [where q = 2, OF fp_pw39 fp_pw0]) (simp_all only: cert_simps)

lemma fp_pw41: "pw field_p 5 954861078 = 1976891763441246707190722543424508528068560085505298930686699892033276289832"
  by (rule pw_mul [where q = 142628333855350622372498813649293881262923989744922803165725424704065003112, OF fp_pw40 fp_pw40]) (simp_all only: cert_simps)

lemma fp_pw42: "pw field_p 5 954861079 = 9884458817206233535953612717122542640342800427526494653433499460166381449160"
  by (rule pw_mul [where q = 0, OF fp_pw41 fp_pw0]) (simp_all only: cert_simps)

lemma fp_pw43: "pw field_p 5 1909722158 = 15415212643197770104097979436014180328454491762316975015266016041776647414847"
  by (rule pw_mul [where q = 4463698921887743218744810971374913090068262227201195731036498170500477380609, OF fp_pw42 fp_pw42]) (simp_all only: cert_simps)

lemma fp_pw44: "pw field_p 5 1909722159 = 11411334600471024853750679944299076376627365610336772045235467649155811587384"
  by (rule pw_mul [where q = 3, OF fp_pw43 fp_pw0]) (simp_all only: cert_simps)

lemma fp_pw45: "pw field_p 5 3819444318 = 10836027217917969750344781066715508192483661167647154887480405204060741789052"
  by (rule pw_mul [where q = 5949246731515497950888971545480788653719109172527783166153537542899375331012, OF fp_pw44 fp_pw44]) (simp_all only: cert_simps)

lemma fp_pw46: "pw field_p 5 7638888636 = 9813210458740148870297067083427521037000501335856330178203385187768956121774"
  by (rule pw_mul [where q = 5364500318960151549692842327204948733884311797285263503467068035760237224290, OF fp_pw45 fp_pw45]) (simp_all only: cert_simps)

lemma fp_pw47: "pw field_p 5 15277777272 = 8707653147871162324895665287411183974661393980857005168860913349158778859881"
  by (rule pw_mul [where q = 4399581093438177960973774562254071081195788040745021651389006261295996271835, OF fp_pw46 fp_pw46]) (simp_all only: cert_simps)

lemma fp_pw48: "pw field_p 5 15277777273 = 21650022867516536402231920691798644784758605503868991500606362559218085803788"
  by (rule pw_mul [where q = 1, OF fp_pw47 fp_pw0]) (simp_all only: cert_simps)

lemma fp_pw49: "pw field_p 5 30555554546 = 8677765644070666747359320578953696517171796584113938021801751084028332920749"
  by (rule pw_mul [where q = 21414395523134195853524888778885224805745535258126242289007517176243021764835, OF fp_pw48 fp_pw48]) (simp_all only: cert_simps)

lemma fp_pw50: "pw field_p 5 30555554547 = 21500585348514058514550197149511207497310618520153655765310551233565856108128"
  by (rule pw_mul [where q = 1, OF fp_pw49 fp_pw0]) (simp_all only: cert_simps)

lemma fp_pw51: "pw field_p 5 61111109094 = 4506444420430947123282422883975906548037339928415182279418561837390558948552"
  by (rule pw_mul [where q = 21119793536441707350519382216620723788991622532777661607801637544534763779896, OF fp_pw50 fp_pw50]) (simp_all only: cert_simps)

lemma fp_pw52: "pw field_p 5 61111109095 = 643979230315460394165708674622257651638335241659877053394605000376986247143"
  by (rule pw_mul [where q = 1, OF fp_pw51 fp_pw0]) (simp_all only: cert_simps)

lemma fp_pw53: "pw field_p 5 122222218190 = 13004540342440786515586586072251138087552745387106873605892710367639223016696"
  by (rule pw_mul [where q = 18946667007758976332514070607150682192518895944038500227965673204825695609, OF fp_pw52 fp_pw52]) (simp_all only: cert_simps)

lemma fp_pw54: "pw field_p 5 122222218191 = 21246215968525382133440118870741140260666998134702299342067143465044498092246"
  by (rule pw_mul [where q = 2, OF fp_pw53 fp_pw0]) (simp_all only: cert_simps)

lemma fp_pw55: "pw field_p 5 244444436382 = 11278290446865427111834531817423543872412830480049149021117254426052968930972"
  by (rule pw_mul [where q = 20623021026597898398949124904555633225485590167890835700728050207000778511432, OF fp_pw54 fp_pw54]) (simp_all only: cert_simps)

lemma fp_pw56: "pw field_p 5 488888872764 = 21778606312797051465554422971436334905991145165914523001981127127911334350636"
  by (rule pw_mul [where q = 5811331505623380243697996262587246407038021236670132889059071480088816771044, OF fp_pw55 fp_pw55]) (simp_all only: cert_simps)

lemma fp_pw57: "pw field_p 5 977777745528 = 14184393624431797796551564116435513271449258217352842189153094207453866207719"
  by (rule pw_mul [where q = 21669518915016834893319594381833341112199310093942398174975070007231982765481, OF fp_pw56 fp_pw56]) (simp_all only: cert_simps)

lemma fp_pw58: "pw field_p 5 1955555491056 = 15421553337042226170561612204588873000680072830525497493268141913369601264617"
  by (rule pw_mul [where q = 9192013432548082405834120690427546506568864445026226742361356325581108445832, OF fp_pw57 fp_pw57]) (simp_all only: cert_simps)

lemma fp_pw59: "pw field_p 5 1955555491057 = 11443038069693305186068843787172539737755270951379384435246097007120580836234"
  by (rule pw_mul [where q = 3, OF fp_pw58 fp_pw0]) (simp_all only: cert_simps)

lemma fp_pw60: "pw field_p 5 3911110982114 = 15105862943173083646107185017355532302716562361007496201912258952367103893687"
  by (rule pw_mul [where q = 5982349566895458004734536976929055866045957494872849033463595908672479331757, OF fp_pw59 fp_pw59]) (simp_all only: cert_simps)

lemma fp_pw61: "pw field_p 5 7822221964228 = 19454644920190845399555141383784218877048550858880594740418802702882820020643"
  by (rule pw_mul [where q = 10425098834749687284712803720146371243190914793194665896399770343719444965678, OF fp_pw60 fp_pw60]) (simp_all only: cert_simps)

lemma fp_pw62: "pw field_p 5 7822221964229 = 9720253113597126108790083937891994031049296692738836327301196768110866120747"
  by (rule pw_mul [where q = 4, OF fp_pw61 fp_pw0]) (simp_all only: cert_simps)

lemma fp_pw63: "pw field_p 5 15644443928458 = 7863074168596352727433491228911303638696494903360154881230467145408936387824"
  by (rule pw_mul [where q = 4316624278413590379078425879913311217284469656268239697164623937591988511305, OF fp_pw62 fp_pw62]) (simp_all only: cert_simps)

lemma fp_pw64: "pw field_p 5 15644443928459 = 17427127971142488414921050399299243104934110116384740062454131540468873443503"
  by (rule pw_mul [where q = 1, OF fp_pw63 fp_pw0]) (simp_all only: cert_simps)

lemma fp_pw65: "pw field_p 5 31288887856918 = 21024223277579259319505180831540724002016063211185533429862895967217021646816"
  by (rule pw_mul [where q = 13875247597572755981334693000206713442616509186983949411045129125066666708929, OF fp_pw64 fp_pw64]) (simp_all only: cert_simps)

lemma fp_pw66: "pw field_p 5 31288887856919 = 17568144900539195708540281176674519655886858454263529774521663089781874251612"
  by (rule pw_mul [where q = 4, OF fp_pw65 fp_pw0]) (simp_all only: cert_simps)

lemma fp_pw67: "pw field_p 5 62577775713838 = 17309715890048370971674174928430351550976552496106774547150661421736699022713"
  by (rule pw_mul [where q = 14100707720281535068165385205256429095024132956542877931838193266629250177943, OF fp_pw66 fp_pw66]) (simp_all only: cert_simps)

lemma fp_pw68: "pw field_p 5 125155551427676 = 4721254948434949379950854968512102968943792328856427791426652218643619554647"
  by (rule pw_mul [where q = 13688913539043501492460033282513073000106031717387713853855649918876378095066, OF fp_pw67 fp_pw67]) (simp_all only: cert_simps)

lemma fp_pw69: "pw field_p 5 125155551427677 = 1718031870335471677507869097303239756170597243866104613435056906642289277618"
  by (rule pw_mul [where q = 1, OF fp_pw68 fp_pw0]) (simp_all only: cert_simps)

lemma fp_pw70: "pw field_p 5 250311102855354 = 20393609162207358961917552899707628815515783526353689567546075026670997451175"
  by (rule pw_mul [where q = 134850180746389551133120270867882376167505610297757504431820379554229088797, OF fp_pw69 fp_pw69]) (simp_all only: cert_simps)

lemma fp_pw71: "pw field_p 5 250311102855355 = 14415074323679693920602141517509043723385460030104310462937558387051753273407"
  by (rule pw_mul [where q = 4, OF fp_pw70 fp_pw0]) (simp_all only: cert_simps)

lemma fp_pw72: "pw field_p 5 500622205710710 = 1403135366998810889700038316514513169105564483056709170081624317962165437909"
  by (rule pw_mul [where q = 9493423888518309636326252725178436043303260653600402671293186706512379042220, OF fp_pw71 fp_pw71]) (simp_all only: cert_simps)

lemma fp_pw73: "pw field_p 5 500622205710711 = 7015676834994054448500191582572565845527822415283545850408121589810827189545"
  by (rule pw_mul [where q = 0, OF fp_pw72 fp_pw0]) (simp_all only: cert_simps)

lemma fp_pw74: "pw field_p 5 1001244411421422 = 6580905066128233942135405577878807930889105657177042445209966171275610466725"
  by (rule pw_mul [where q = 2248683082569260892557371117020734812395449319433118127945929743843133105900, OF fp_pw73 fp_pw73]) (simp_all only: cert_simps)

lemma fp_pw75: "pw field_p 5 1001244411421423 = 11016282458801894488430622144136764565897163885469177882351626669802243838008"
  by (rule pw_mul [where q = 1, OF fp_pw74 fp_pw0]) (simp_all only: cert_simps)

lemma fp_pw76: "pw field_p 5 2002488822842846 = 21197748947219814006283243039169516010167151704752863832410829879331558209003"
  by (rule pw_mul [where q = 5544459640853232496072297645564797653312440693806473189398770493060631746133, OF fp_pw75 fp_pw75]) (simp_all only: cert_simps)

lemma fp_pw77: "pw field_p 5 2002488822842847 = 18435773248741969142430592214818479696642300922100181787261332650354557062547"
  by (rule pw_mul [where q = 4, OF fp_pw76 fp_pw0]) (simp_all only: cert_simps)

lemma fp_pw78: "pw field_p 5 4004977645685694 = 16674777252394712354739931376762356622228187104563045596464998811483108073130"
  by (rule pw_mul [where q = 15527867507186062088774006682100306023915969722813233629435341135620964836287, OF fp_pw77 fp_pw77]) (simp_all only: cert_simps)

lemma fp_pw79: "pw field_p 5 4004977645685695 = 17709157646455736106960439648039957845495842321567124951230381497688114878799"
  by (rule pw_mul [where q = 3, OF fp_pw78 fp_pw0]) (simp_all only: cert_simps)

lemma fp_pw80: "pw field_p 5 8009955291371390 = 11657183516380578416504415122392201853522309052528002917897302506428959334279"
  by (rule pw_mul [where q = 14327978101454087681894749592494861203213662575935469925632886806730843842266, OF fp_pw79 fp_pw79]) (simp_all only: cert_simps)

lemma fp_pw81: "pw field_p 5 16019910582742780 = 3268932914642741966108608251132193339552402182940375776904198193404523914017"
  by (rule pw_mul [where q = 6208352508250297855160360042063098742824732234638404138481930969312298784272, OF fp_pw80 fp_pw80]) (simp_all only: cert_simps)

lemma fp_pw82: "pw field_p 5 16019910582742781 = 16344664573213709830543041255660966697762010914701878884520990967022619570085"
  by (rule pw_mul [where q = 0, OF fp_pw81 fp_pw0]) (simp_all only: cert_simps)

lemma fp_pw83: "pw field_p 5 32039821165485562 = 13934816240962281087965602736919828460853400883274376612974939534418816515302"
  by (rule pw_mul [where q = 12205093920744620122528237214008230034709253345996017164698380630157384565619, OF fp_pw82 fp_pw82]) (simp_all only: cert_simps)

lemma fp_pw84: "pw field_p 5 32039821165485563 = 4009352589293579773088796448827317038621911215123780033780085112366657089659"
  by (rule pw_mul [where q = 3, OF fp_pw83 fp_pw0]) (simp_all only: cert_simps)

lemma fp_pw85: "pw field_p 5 64079642330971126 = 13924398086209104424022496144563503940875088855544128833178789408939074950179"
  by (rule pw_mul [where q = 734408343300896199296650792154334620133351750722220007991360719912432617206, OF fp_pw84 fp_pw84]) (simp_all only: cert_simps)

lemma fp_pw86: "pw field_p 5 128159284661942252 = 3615648331899352095819421851807142972583217535857694824639219543658181391562"
  by (rule pw_mul [where q = 8858128228861855374345205746246033129777612279214216632748929513231821375487, OF fp_pw85 fp_pw85]) (simp_all only: cert_simps)

lemma fp_pw87: "pw field_p 5 128159284661942253 = 18078241659496760479097109259035714862916087679288474123196097718290906957810"
  by (rule pw_mul [where q = 0, OF fp_pw86 fp_pw0]) (simp_all only: cert_simps)

lemma fp_pw88: "pw field_p 5 256318569323884506 = 3195421163598995448418579400347817285301826390907839111646384103502939989308"
  by (rule pw_mul [where q = 14931432523514445560591444897584961687047495394481852701470112489913247824776, OF fp_pw87 fp_pw87]) (simp_all only: cert_simps)

lemma fp_pw89: "pw field_p 5 256318569323884507 = 15977105817994977242092897001739086426509131954539195558231920517514699946540"
  by (rule pw_mul [where q = 0, OF fp_pw88 fp_pw0]) (simp_all only: cert_simps)

lemma fp_pw90: "pw field_p 5 512637138647769014 = 15347478795932642361155627541805155666736008000491202257088013996680377409328"
  by (rule pw_mul [where q = 11662329946449407080737194742756216597176699782213749411003296368730899077216, OF fp_pw89 fp_pw89]) (simp_all only: cert_simps)

lemma fp_pw91: "pw field_p 5 512637138647769015 = 11072665364145386139038920473253953068034946801207908254345457423674461559789"
  by (rule pw_mul [where q = 3, OF fp_pw90 fp_pw0]) (simp_all only: cert_simps)

lemma fp_pw92: "pw field_p 5 1025274277295538030 = 18356096696658970343377057891871084134706001231864735801330055486123868564513"
  by (rule pw_mul [where q = 5601359551071284087735744295530690499687373018051318391933473035064650935624, OF fp_pw91 fp_pw91]) (simp_all only: cert_simps)

lemma fp_pw93: "pw field_p 5 1025274277295538031 = 4227511995937750827899666478326320319336548557659541631857460684316108840097"
  by (rule pw_mul [where q = 4, OF fp_pw92 fp_pw0]) (simp_all only: cert_simps)

lemma fp_pw94: "pw field_p 5 2050548554591076062 = 10140759520764945283650473784278640691355346009758829252585855401703862025890"
  by (rule pw_mul [where q = 816504905416183758337417704203325996889273867916099386360047925953411112607, OF fp_pw93 fp_pw93]) (simp_all only: cert_simps)

lemma fp_pw95: "pw field_p 5 4101097109182152124 = 19592466506645999188809319206875378818816452068054202468544338398317111139895"
  by (rule pw_mul [where q = 4698184512119479619645560375849126178843247726883954894182279125326406156365, OF fp_pw94 fp_pw94]) (simp_all only: cert_simps)

lemma fp_pw96: "pw field_p 5 4101097109182152125 = 10409361045872895055060973053347793739888802738606874967928875245282321717007"
  by (rule pw_mul [where q = 4, OF fp_pw95 fp_pw0]) (simp_all only: cert_simps)

lemma fp_pw97: "pw field_p 5 8202194218364304250 = 17020906635117444954914527359334793223306867141466830035598471143243949206114"
  by (rule pw_mul [where q = 4950365272250424705036741169741096953617340542236309367766467537371987069055, OF fp_pw96 fp_pw96]) (simp_all only: cert_simps)

lemma fp_pw98: "pw field_p 5 16404388436728608500 = 9987027936008573610520241750413043374405459108670708593736092478413510000370"
  by (rule pw_mul [where q = 13235930557683936341099069106837244657073157462719957665737910538613925842578, OF fp_pw97 fp_pw97]) (simp_all only: cert_simps)

lemma fp_pw99: "pw field_p 5 16404388436728608501 = 6158653936364317608108397261550666694930566742521474281284054018915933010616"
  by (rule pw_mul [where q = 2, OF fp_pw98 fp_pw0]) (simp_all only: cert_simps)

lemma fp_pw100: "pw field_p 5 32808776873457217002 = 15549573759072008128162971948535454781025358400552831912683527742088212116895"
  by (rule pw_mul [where q = 1732848933099786923729796052994204957487265655361897300391237389803767721633, OF fp_pw99 fp_pw99]) (simp_all only: cert_simps)

lemma fp_pw101: "pw field_p 5 32808776873457217003 = 12083140179842214974075642506905448639481698801516056532323026150713635097624"
  by (rule pw_mul [where q = 3, OF fp_pw100 fp_pw0]) (simp_all only: cert_simps)

lemma fp_pw102: "pw field_p 5 65617553746914434006 = 7774511281766790995774972216689282193690660636323740187500109560866094291664"
  by (rule pw_mul [where q = 6670351634007099389555837898038147901841737667255065709214612640620108359536, OF fp_pw101 fp_pw101]) (simp_all only: cert_simps)

lemma fp_pw103: "pw field_p 5 131235107493828868012 = 6557535212842250936935903913977542155129220074804185134380350817536783918706"
  by (rule pw_mul [where q = 2761438002320561191753334981765766410717786119350527692366797146970913981070, OF fp_pw102 fp_pw102]) (simp_all only: cert_simps)

lemma fp_pw104: "pw field_p 5 262470214987657736024 = 10011634761516244875538865875034881739510251277252026741100429228142638221463"
  by (rule pw_mul [where q = 1964582918759099853353446154500237207545609558875507199985209780088124916269, OF fp_pw103 fp_pw103]) (simp_all only: cert_simps)

lemma fp_pw105: "pw field_p 5 524940429975315472048 = 12669021437634865582299366839715119648085301178824494975037917862015532349957"
  by (rule pw_mul [where q = 4579300000684698377391508292599952666587205350034101708897365087897615994636, OF fp_pw104 fp_pw104]) (simp_all only: cert_simps)

lemma fp_pw106: "pw field_p 5 1049880859950630944096 = 3742728495420986594758330506718070127507879067377491987356011111893038549979"
  by (rule pw_mul [where q = 7332891229645086223717381536971027740178368346625318359706658680880780802110, OF fp_pw105 fp_pw105]) (simp_all only: cert_simps)

lemma fp_pw107: "pw field_p 5 1049880859950630944097 = 18713642477104932973791652533590350637539395336887459936780055559465192749895"
  by (rule pw_mul [where q = 0, OF fp_pw106 fp_pw0]) (simp_all only: cert_simps)

lemma fp_pw108: "pw field_p 5 2099761719901261888194 = 5195545892805562624026917594907292692654100008071586200838382877902764062221"
  by (rule pw_mul [where q = 15999475920082323730696358592824986525004903876543152028217608197341499234212, OF fp_pw107 fp_pw107]) (simp_all only: cert_simps)

lemma fp_pw109: "pw field_p 5 2099761719901261888195 = 4089486592188537897888182229279188374722135639941896660493710202938011815488"
  by (rule pw_mul [where q = 1, OF fp_pw108 fp_pw0]) (simp_all only: cert_simps)

lemma fp_pw110: "pw field_p 5 4199523439802523776390 = 5440854683061015304570531017551938745172586566667789116162776009373991746902"
  by (rule pw_mul [where q = 764058617478439318485083185297263553515444495582288284031054495478456275626, OF fp_pw109 fp_pw109]) (simp_all only: cert_simps)

lemma fp_pw111: "pw field_p 5 8399046879605047552780 = 17339443155246069965162410150767171990934783141609765648454584470736298932052"
  by (rule pw_mul [where q = 1352456652437512051885760985205496932393787708471399210784610805380362183056, OF fp_pw110 fp_pw110]) (simp_all only: cert_simps)

lemma fp_pw112: "pw field_p 5 8399046879605047552781 = 21032487160712524159072833518064034689028822506800725211178309793954069173409"
  by (rule pw_mul [where q = 3, OF fp_pw111 fp_pw0]) (simp_all only: cert_simps)

lemma fp_pw113: "pw field_p 5 16798093759210095105562 = 3536538886078689002098726674896957576591599067051327612642112323210865179500"
  by (rule pw_mul [where q = 20210188581865140687683453561412193687909907149312553367424950842475412558293, OF fp_pw112 fp_pw112]) (simp_all only: cert_simps)

lemma fp_pw114: "pw field_p 5 16798093759210095105563 = 17682694430393445010493633374484787882957995335256638063210561616054325897500"
  by (rule pw_mul [where q = 0, OF fp_pw113 fp_pw0]) (simp_all only: cert_simps)

lemma fp_pw115: "pw field_p 5 33596187518420190211126 = 691960308934657843751455983244382958605124346979110627779468542709223612331"
  by (rule pw_mul [where q = 14285188818009171096757536821654598008156878178376949995346260516184700787557, OF fp_pw114 fp_pw114]) (simp_all only: cert_simps)

lemma fp_pw116: "pw field_p 5 67192375036840380422252 = 6054315595013718136539820845711744479573851724462854593726907564594315445553"
  by (rule pw_mul [where q = 21875171613568296568161567793675251663585920990006174173423882931174479624, OF fp_pw115 fp_pw115]) (simp_all only: cert_simps)

lemma fp_pw117: "pw field_p 5 67192375036840380422253 = 8383335103229315460452698483301447309320894221898238624936333636395768732148"
  by (rule pw_mul [where q = 1, OF fp_pw116 fp_pw0]) (simp_all only: cert_simps)

lemma fp_pw118: "pw field_p 5 134384750073680760844506 = 7572723000329829712869350667379984146637480550055980347229125278589697354267"
  by (rule pw_mul [where q = 3210870231317531211644906975057339878894993648359950923772580376048877971061, OF fp_pw117 fp_pw117]) (simp_all only: cert_simps)

lemma fp_pw119: "pw field_p 5 268769500147361521689012 = 8823358163022813434789234991863893201245690699742930319220423442374060400202"
  by (rule pw_mul [where q = 2619951449529288155278919786154458072724091405146596306375973875469549600911, OF fp_pw118 fp_pw118]) (simp_all only: cert_simps)

lemma fp_pw120: "pw field_p 5 537539000294723043378024 = 10541363980838377065183198078408660447844119158611438585426748682212171528769"
  by (rule pw_mul [where q = 3556779305164911153700079598419821489562516090979804490030116667024510104355, OF fp_pw119 fp_pw119]) (simp_all only: cert_simps)

lemma fp_pw121: "pw field_p 5 1075078000589446086756048 = 9195347821342399936851242252618094045726710693137810216360995162523773125859"
  by (rule pw_mul [where q = 5076714253727541961277461287865308037060262118528121685475590981318339477406, OF fp_pw120 fp_pw120]) (simp_all only: cert_simps)

lemma fp_pw122: "pw field_p 5 2150156001178892173512096 = 9561460925297753535083338849375045975795203127331372433320258087509623819735"
  by (rule pw_mul [where q = 3863006366045557734399386732849025500937967140406897663966274072075747169138, OF fp_pw121 fp_pw121]) (simp_all only: cert_simps)

lemma fp_pw123: "pw field_p 5 2150156001178892173512097 = 4030818882810217230923882756360679701879286835824793479204882064396502107441"
  by (rule pw_mul [where q = 2, OF fp_pw122 fp_pw0]) (simp_all only: cert_simps)

lemma fp_pw124: "pw field_p 5 4300312002357784347024194 = 2295687059543674280993203544864451389909368608079691021183752877880280717201"
  by (rule pw_mul [where q = 742293520825416794638650604166631538951020836961928338086430435470150949840, OF fp_pw123 fp_pw123]) (simp_all only: cert_simps)

lemma fp_pw125: "pw field_p 5 8600624004715568694048388 = 17270343213664126570876703649721830354107437349913914420007088698220454604244"
  by (rule pw_mul [where q = 240776708583434448590732461492314793149130343377132856457932727484220076621, OF fp_pw124 fp_pw124]) (simp_all only: cert_simps)

lemma fp_pw126: "pw field_p 5 17201248009431137388096776 = 18701031405251685753079596901290351320558186550944566177222293471864238753769"
  by (rule pw_mul [where q = 13626710762675820013630901875369699182684498469621510212366442306640529878951, OF fp_pw125 fp_pw125]) (simp_all only: cert_simps)

lemma fp_pw127: "pw field_p 5 17201248009431137388096777 = 5952185538901327876412361525422656248597475153058693511318650613017959786377"
  by (rule pw_mul [where q = 4, OF fp_pw126 fp_pw0]) (simp_all only: cert_simps)

lemma fp_pw128: "pw field_p 5 34402496018862274776193554 = 16917029736928328163819725091615711972886592556426804009774612742079970817749"
  by (rule pw_mul [where q = 1618609264203994234673772987132515593799311407749984538265858339443138646140, OF fp_pw127 fp_pw127]) (simp_all only: cert_simps)

lemma fp_pw129: "pw field_p 5 34402496018862274776193555 = 18920420069123815152359408222306734598787869580885917017778451150672428601894"
  by (rule pw_mul [where q = 3, OF fp_pw128 fp_pw0]) (simp_all only: cert_simps)

lemma fp_pw130: "pw field_p 5 68804992037724549552387110 = 16366732655542076417831914100166822143958449060007298343593227503106419574390"
  by (rule pw_mul [where q = 16355003811323383807016263269573723318503772464757681651667765894664945768238, OF fp_pw129 fp_pw129]) (simp_all only: cert_simps)

lemma fp_pw131: "pw field_p 5 68804992037724549552387111 = 16168934662192556422420353265062285454147152098788388686871524955804672385099"
  by (rule pw_mul [where q = 3, OF fp_pw130 fp_pw0]) (simp_all only: cert_simps)

lemma fp_pw132: "pw field_p 5 137609984075449099104774222 = 12094805207995729389502517438812644512778223561380271591773402642939467937103"
  by (rule pw_mul [where q = 11944058261826272775440876177441330498754845862777300372743533520711911809194, OF fp_pw131 fp_pw131]) (simp_all only: cert_simps)

lemma fp_pw133: "pw field_p 5 275219968150898198209548444 = 13184767445811608321050904040400653249848874804582098548669072710797688540534"
  by (rule pw_mul [where q = 6683236926595209457137143214648410822603845735253294538772549044324384522475, OF fp_pw132 fp_pw132]) (simp_all only: cert_simps)

lemma fp_pw134: "pw field_p 5 550439936301796396419096888 = 10820029755902817401825213589497559475354295684317765444765265633543958949673"
  by (rule pw_mul [where q = 7942076192136381297894256829269709619414793002609163843524954706209304298299, OF fp_pw133 fp_pw133]) (simp_all only: cert_simps)

lemma fp_pw135: "pw field_p 5 1100879872603592792838193776 = 14381368418791101904890320589542819315961783613230406719603759826594516528411"
  by (rule pw_mul [where q = 5348672554672941703623236446660020141107873658559879961975509957475905185654, OF fp_pw134 fp_pw134]) (simp_all only: cert_simps)

lemma fp_pw136: "pw field_p 5 1100879872603592792838193777 = 6242113478437683857712385711942271314163824864903930566924186573245157155204"
  by (rule pw_mul [where q = 3, OF fp_pw135 fp_pw0]) (simp_all only: cert_simps)

lemma fp_pw137: "pw field_p 5 2201759745207185585676387554 = 6532248082432880312601673832160323874115147210173922294227196877588015530808"
  by (rule pw_mul [where q = 1780132873425999535816182361067580608119878809427888942931916596415723768024, OF fp_pw136 fp_pw136]) (simp_all only: cert_simps)

lemma fp_pw138: "pw field_p 5 2201759745207185585676387555 = 10772997540325126340761963415544344282027371650453577127437780201364269158423"
  by (rule pw_mul [where q = 1, OF fp_pw137 fp_pw0]) (simp_all only: cert_simps)

lemma fp_pw139: "pw field_p 5 4403519490414371171352775110 = 19433662558759442002685461304797875202382606585320379956296035355993955500176"
  by (rule pw_mul [where q = 5302274681590230348862535860444991581077894474722203438962202239144813748609, OF fp_pw138 fp_pw138]) (simp_all only: cert_simps)

lemma fp_pw140: "pw field_p 5 8807038980828742342705550220 = 18193094096893734581129264964468760723682535049861075109773540402029495442480"
  by (rule pw_mul [where q = 17254342555455804746893194997343679028796674861298794001120284313143934612688, OF fp_pw139 fp_pw139]) (simp_all only: cert_simps)

lemma fp_pw141: "pw field_p 5 17614077961657484685411100440 = 2422536978869170619574835227909810376222642669923872047490559323556590730799"
  by (rule pw_mul [where q = 15121756221202628694377149643130785122901590662378005594297655723054610860753, OF fp_pw140 fp_pw140]) (simp_all only: cert_simps)

lemma fp_pw142: "pw field_p 5 17614077961657484685411100441 = 12112684894345853097874176139549051881113213349619360237452796617782953653995"
  by (rule pw_mul [where q = 0, OF fp_pw141 fp_pw0]) (simp_all only: cert_simps)

lemma fp_pw143: "pw field_p 5 35228155923314969370822200882 = 4074565494566076657793009808468543527370682087891155784249497661074265509915"
  by (rule pw_mul [where q = 6703011119201160808321113264541100150215191089630930402040168670136474364830, OF fp_pw142 fp_pw142]) (simp_all only: cert_simps)

lemma fp_pw144: "pw field_p 5 70456311846629938741644401764 = 9351054700509686723713052418712677084022253945896724502414676426829662384476"
  by (rule pw_mul [where q = 758493227013129312523840969258913224505946272665071974573227084062005948797, OF fp_pw143 fp_pw143]) (simp_all only: cert_simps)

lemma fp_pw145: "pw field_p 5 70456311846629938741644401765 = 2978787758869883174072450603048835243014540928651553824676973760996694931146"
  by (rule pw_mul [where q = 2, OF fp_pw144 fp_pw0]) (simp_all only: cert_simps)

lemma fp_pw146: "pw field_p 5 140912623693259877483288803530 = 17447729864716141589038807039035452437567979058723870265924759590216815703542"
  by (rule pw_mul [where q = 405385510584269469014519371659184127909233246574195249476879292539969888622, OF fp_pw145 fp_pw145]) (simp_all only: cert_simps)

lemma fp_pw147: "pw field_p 5 140912623693259877483288803531 = 21573920708062882278454817959405436922194802092371248298529185391356653030859"
  by (rule pw_mul [where q = 3, OF fp_pw146 fp_pw0]) (simp_all only: cert_simps)

lemma fp_pw148: "pw field_p 5 281825247386519754966577607062 = 6694619387022585690335300694135766883039358177437849928992441952161870159081"
  by (rule pw_mul [where q = 21264112311025078686268981852038029979940023862745641885926659952644424016400, OF fp_pw147 fp_pw147]) (simp_all only: cert_simps)

lemma fp_pw149: "pw field_p 5 281825247386519754966577607063 = 11584854063273653229430097725421559326648426486773215301264005574233542299788"
  by (rule pw_mul [where q = 1, OF fp_pw148 fp_pw0]) (simp_all only: cert_simps)

lemma fp_pw150: "pw field_p 5 563650494773039509933155214126 = 21312818432551083746794358636085454824476847310275801395190556255133117265108"
  by (rule pw_mul [where q = 6131549455713366106067678793136936018467348652331194409471048791712269899708, OF fp_pw149 fp_pw149]) (simp_all only: cert_simps)

lemma fp_pw151: "pw field_p 5 563650494773039509933155214127 = 19011120675398317844986170199398173768190778949714869601159964529362352343072"
  by (rule pw_mul [where q = 4, OF fp_pw150 fp_pw0]) (simp_all only: cert_simps)

lemma fp_pw152: "pw field_p 5 1127300989546079019866310428254 = 60677712312253259377692831961900946235427048170930069108214310915461875262"
  by (rule pw_mul [where q = 16512184712622705865203691296894249536606634134492960833563340439343339273666, OF fp_pw151 fp_pw151]) (simp_all only: cert_simps)

lemma fp_pw153: "pw field_p 5 1127300989546079019866310428255 = 303388561561266296888464159809504731177135240854650345541071554577309376310"
  by (rule pw_mul [where q = 0, OF fp_pw152 fp_pw0]) (simp_all only: cert_simps)

lemma fp_pw154: "pw field_p 5 2254601979092158039732620856510 = 21694286464192340028391326230911837931948990357806781878023054312439338664246"
  by (rule pw_mul [where q = 4205208240111223432170218177910131249951337490794539367876213522475490862, OF fp_pw153 fp_pw153]) (simp_all only: cert_simps)

lemma fp_pw155: "pw field_p 5 4509203958184316079465241713020 = 2319395942083173750399341266678981092739208482534017568591511129639336758695"
  by (rule pw_mul [where q = 21502048745811033535884875018135491883883557767055225488351578766510754900413, OF fp_pw154 fp_pw154]) (simp_all only: cert_simps)

lemma fp_pw156: "pw field_p 5 9018407916368632158930483426040 = 3329532217276417582644302041107064525142835103643439221642125704274220343084"
  by (rule pw_mul [where q = 245775669049849316844993653497745179497271603189082361518712747265815544773, OF fp_pw155 fp_pw155]) (simp_all only: cert_simps)

lemma fp_pw157: "pw field_p 5 9018407916368632158930483426041 = 16647661086382087913221510205535322625714175518217196108210628521371101715420"
  by (rule pw_mul [where q = 0, OF fp_pw156 fp_pw0]) (simp_all only: cert_simps)

lemma fp_pw158: "pw field_p 5 18036815832737264317860966852082 = 21774735754050509760440028203616656161722171592155391306334522881677332115143"
  by (rule pw_mul [where q = 12661803017710754184693638385391089140780042647456484138759904280715703694921, OF fp_pw157 fp_pw157]) (simp_all only: cert_simps)

lemma fp_pw159: "pw field_p 5 18036815832737264317860966852083 = 21320707282895447913214518037054180454417400359112819156879797662083426593247"
  by (rule pw_mul [where q = 4, OF fp_pw158 fp_pw0]) (simp_all only: cert_simps)

lemma fp_pw160: "pw field_p 5 36073631665474528635721933704166 = 12314543945185373877116368222831688308851479235791243151003251151088688418377"
  by (rule pw_mul [where q = 20767887203396749081349851766438893225681661629776822399373348731044528546296, OF fp_pw159 fp_pw159]) (simp_all only: cert_simps)

lemma fp_pw161: "pw field_p 5 72147263330949057271443867408332 = 817615238539028072312397833083274728996877275044771573860480667499755210518"
  by (rule pw_mul [where q = 6928285356930468349988143678813445821572521656414747637651976237068711332283, OF fp_pw160 fp_pw160]) (simp_all only: cert_simps)

lemma fp_pw162: "pw field_p 5 72147263330949057271443867408333 = 4088076192695140361561989165416373644984386375223857869302403337498776052590"
  by (rule pw_mul [where q = 0, OF fp_pw161 fp_pw0]) (simp_all only: cert_simps)

lemma fp_pw163: "pw field_p 5 144294526661898114542887734816666 = 13297698485466066880822550087428652220471346119071707670300223342215058719682"
  by (rule pw_mul [where q = 763531684801542476654151368266603382495493794009701221439604486890841620354, OF fp_pw162 fp_pw162]) (simp_all only: cert_simps)

lemma fp_pw164: "pw field_p 5 288589053323796229085775469633332 = 13085805283977574470749684761267604172472431361986920436335840307335938821011"
  by (rule pw_mul [where q = 8078710842425313250149273047966649767804167009653728681597596498268251640689, OF fp_pw163 fp_pw163]) (simp_all only: cert_simps)

lemma fp_pw165: "pw field_p 5 288589053323796229085775469633333 = 21652540676209321909255612315823470685265428009102533494282793163528077113821"
  by (rule pw_mul [where q = 2, OF fp_pw164 fp_pw0]) (simp_all only: cert_simps)

lemma fp_pw166: "pw field_p 5 577178106647592458171550939266666 = 19543670601214068239175420329927619903501864860890182612224482951689293127909"
  by (rule pw_mul [where q = 21419376625160003562336816987406549247145731663409022326858294826659663693796, OF fp_pw165 fp_pw165]) (simp_all only: cert_simps)

lemma fp_pw167: "pw field_p 5 1154356213295184916343101878533332 = 14159266671375998333250341661296954700147092835586279970118523469257461178069"
  by (rule pw_mul [where q = 17450238596364006264045379158309118387033856358411076603442921860927962476036, OF fp_pw166 fp_pw166]) (simp_all only: cert_simps)

lemma fp_pw168: "pw field_p 5 2308712426590369832686203757066664 = 15856709335447439531210704394586549445716257925264034765848789244321666924247"
  by (rule pw_mul [where q = 9159475881413789636937615962494616780817896661092951505196867904517372255842, OF fp_pw167 fp_pw167]) (simp_all only: cert_simps)

lemma fp_pw169: "pw field_p 5 2308712426590369832686203757066665 = 13618818061719371989314304737160921962936196425072070798149333661880909134384"
  by (rule pw_mul [where q = 3, OF fp_pw168 fp_pw0]) (simp_all only: cert_simps)

lemma fp_pw170: "pw field_p 5 4617424853180739665372407514133330 = 13095933947112350126419797141196890891887526067314033707693086978883616659703"
  by (rule pw_mul [where q = 8473599570518129510755379326212468440030324750301393751677696506685071257609, OF fp_pw169 fp_pw169]) (simp_all only: cert_simps)

lemma fp_pw171: "pw field_p 5 9234849706361479330744815028266660 = 21688896729177170482689396299075537599420773432576190233333784570230164215938"
  by (rule pw_mul [where q = 7835415887484538505590330439659492467074716863280524940061550105466512205263, OF fp_pw170 fp_pw170]) (simp_all only: cert_simps)

lemma fp_pw172: "pw field_p 5 9234849706361479330744815028266661 = 20891512158528751524461358514348587642910409561216813791876106104847587097222"
  by (rule pw_mul [where q = 4, OF fp_pw171 fp_pw0]) (simp_all only: cert_simps)

lemma fp_pw173: "pw field_p 5 18469699412722958661489630056533322 = 17754110989052515319495892159197527584301738420242611452341936252356322800276"
  by (rule pw_mul [where q = 19940169835719626883953078920965654667545303001557580388468529463636429556624, OF fp_pw172 fp_pw172]) (simp_all only: cert_simps)

lemma fp_pw174: "pw field_p 5 36939398825445917322979260113066644 = 19768405936697972722002787356386491822702941509063948834871587885609854558038"
  by (rule pw_mul [where q = 14400811378839941947042370547284196319666951485960109432958428132952596563514, OF fp_pw173 fp_pw173]) (simp_all only: cert_simps)

lemma fp_pw175: "pw field_p 5 36939398825445917322979260113066645 = 11289058196132762721028313800903358759321249943655606799565122681746038807722"
  by (rule pw_mul [where q = 4, OF fp_pw174 fp_pw0]) (simp_all only: cert_simps)

lemma fp_pw176: "pw field_p 5 73878797650891834645958520226133290 = 1950117123727851251569791165075870184493929775514197104288957351731354932901"
  by (rule pw_mul [where q = 5822433335644143883555224667729786356609459026557563981621316221759545575999, OF fp_pw175 fp_pw175]) (simp_all only: cert_simps)

lemma fp_pw177: "pw field_p 5 147757595301783669291917040452266580 = 18443235269979348893261366314208256761966573764204474186756226152954482043266"
  by (rule pw_mul [where q = 173744270772385850023113733990383429809325425435546803386601628872435440855, OF fp_pw176 fp_pw176]) (simp_all only: cert_simps)

lemma fp_pw178: "pw field_p 5 147757595301783669291917040452266581 = 4663204862539643577321208590012183455639411219358233558988314018469176233862"
  by (rule pw_mul [where q = 4, OF fp_pw177 fp_pw0]) (simp_all only: cert_simps)

lemma fp_pw179: "pw field_p 5 295515190603567338583834080904533162 = 13456355083573158359813548497311393982238843682686599211735734101570399820508"
  by (rule pw_mul [where q = 993477627114163018600800405655372573750102715838197929494727722503187668808, OF fp_pw178 fp_pw178]) (simp_all only: cert_simps)

lemma fp_pw180: "pw field_p 5 295515190603567338583834080904533163 = 1617046802347966132328525250785144645549125212184893027584057948124573615689"
  by (rule pw_mul [where q = 3, OF fp_pw179 fp_pw0]) (simp_all only: cert_simps)

lemma fp_pw181: "pw field_p 5 591030381207134677167668161809066326 = 15784595649058217603172884307166745555508329615962506943378471940208037814817"
  by (rule pw_mul [where q = 119463237697711843510198012600195742734450230022827044722402924972137422512, OF fp_pw180 fp_pw180]) (simp_all only: cert_simps)

lemma fp_pw182: "pw field_p 5 1182060762414269354335336323618132652 = 11378987209537936352837074080223354434281878743439218101752317927890145571368"
  by (rule pw_mul [where q = 11382981323038068900490123986875117810290447355709745035235730498005545932313, OF fp_pw181 fp_pw181]) (simp_all only: cert_simps)

lemma fp_pw183: "pw field_p 5 2364121524828538708670672647236265304 = 9957803211490272995899860428138438219218653586335797175360137961280255457534"
  by (rule pw_mul [where q = 5915566209355917891605581188521685431428596876679833728548429633916939087170, OF fp_pw182 fp_pw182]) (simp_all only: cert_simps)

lemma fp_pw184: "pw field_p 5 2364121524828538708670672647236265305 = 6012530313772814535006490650177640918996539130846917189404281433249660296436"
  by (rule pw_mul [where q = 2, OF fp_pw183 fp_pw0]) (simp_all only: cert_simps)

lemma fp_pw185: "pw field_p 5 4728243049657077417341345294472530610 = 19924644405451951187838851464971526588494344717266980114206935686323259043447"
  by (rule pw_mul [where q = 1651595378656326155273744033356423669970162518508612339120290059339825961497, OF fp_pw184 fp_pw184]) (simp_all only: cert_simps)

lemma fp_pw186: "pw field_p 5 9456486099314154834682690588945061220 = 18475221263917140745526969878006267046163225579483336962005688694111518944957"
  by (rule pw_mul [where q = 18137200734119432471659248317036530671185533203954160335330668385377768311956, OF fp_pw185 fp_pw185]) (simp_all only: cert_simps)

lemma fp_pw187: "pw field_p 5 18912972198628309669365381177890122440 = 5937895785391414180078792975361406345937680769532846734238262850051437759985"
  by (rule pw_mul [where q = 15594390228091145811702093883622521331757480141778184129775716583290278570392, OF fp_pw186 fp_pw186]) (simp_all only: cert_simps)

lemma fp_pw188: "pw field_p 5 18912972198628309669365381177890122441 = 7801236055117795678147559131549756641140039447248199327493110063681380304308"
  by (rule pw_mul [where q = 1, OF fp_pw187 fp_pw0]) (simp_all only: cert_simps)

lemma fp_pw189: "pw field_p 5 37825944397256619338730762355780244882 = 17363905107550199949052802476252863016000647861431124995677288129829014163702"
  by (rule pw_mul [where q = 2780455441033574569831902073776993538516547368351279512596753963961709311386, OF fp_pw188 fp_pw188]) (simp_all only: cert_simps)

lemma fp_pw190: "pw field_p 5 75651888794513238677461524711560489764 = 15869134828372965353822877528080330287246974151131960373832312662095007032584"
  by (rule pw_mul [where q = 13774755806091453233821052163562757466603743342816283115756488755123820365660, OF fp_pw189 fp_pw189]) (simp_all only: cert_simps)

lemma fp_pw191: "pw field_p 5 151303777589026477354923049423120979528 = 16756128851201156792182571150206658601002318710983000433891302050873985832960"
  by (rule pw_mul [where q = 11505237842781601302006895771709400454921521483499197938032894237150002919488, OF fp_pw190 fp_pw190]) (simp_all only: cert_simps)

lemma fp_pw192: "pw field_p 5 151303777589026477354923049423120979529 = 18115915640487958294173638515261467739366500353666899138361897694642503677949"
  by (rule pw_mul [where q = 3, OF fp_pw191 fp_pw0]) (simp_all only: cert_simps)

lemma fp_pw193: "pw field_p 5 302607555178052954709846098846241959058 = 17030648466453247790556207373682204372787981667655044316870414241979964766384"
  by (rule pw_mul [where q = 14993729803478676242859972488063463706179481183548898880773537367627824723801, OF fp_pw192 fp_pw192]) (simp_all only: cert_simps)

lemma fp_pw194: "pw field_p 5 605215110356105909419692197692483918116 = 13091250838747933201447625831299472220755968929619062262439742897312878477829"
  by (rule pw_mul [where q = 13251085931665467065065654394399955149609001920172941820687238132836051105531, OF fp_pw193 fp_pw193]) (simp_all only: cert_simps)

lemma fp_pw195: "pw field_p 5 1210430220712211818839384395384967836232 = 3703414731747117228973166145136899145593715540443724842250631818176181278263"
  by (rule pw_mul [where q = 7829812997164412563213236213216050158624599184753478883156633100125570072034, OF fp_pw194 fp_pw194]) (simp_all only: cert_simps)

lemma fp_pw196: "pw field_p 5 2420860441424423637678768790769935672464 = 1705480276206677810378273875682138827141934434597613300260123586172151284045"
  by (rule pw_mul [where q = 626604920076395029559091711037113533541626699106346508035158353921676951172, OF fp_pw195 fp_pw195]) (simp_all only: cert_simps)

lemma fp_pw197: "pw field_p 5 4841720882848847275357537581539871344928 = 11232513429198273019506116933377716966321699759573006106653881021436025379680"
  by (rule pw_mul [where q = 132887001919747533586607261240709428397698593969942339210615792440261219785, OF fp_pw196 fp_pw196]) (simp_all only: cert_simps)

lemma fp_pw198: "pw field_p 5 9683441765697694550715075163079742689856 = 11832190427634809020005680248983743283507651638221130948379021273312348708803"
  by (rule pw_mul [where q = 5764252465392965553067757422706256277029731549462167193266779244872226554941, OF fp_pw197 fp_pw197]) (simp_all only: cert_simps)

lemma fp_pw199: "pw field_p 5 19366883531395389101430150326159485379712 = 14583398515207176641635015657240694135827769991685288722017458913692604089197"
  by (rule pw_mul [where q = 6396161223883957382815210733108272692437068002906659009999221295493726014236, OF fp_pw198 fp_pw198]) (simp_all only: cert_simps)

lemma fp_pw200: "pw field_p 5 38733767062790778202860300652318970759424 = 16952485837554764446861750252225929774239950236961322694634823923550549102318"
  by (rule pw_mul [where q = 9716426919173512487609045317717037997137770216053549924658976578175083244923, OF fp_pw199 fp_pw199]) (simp_all only: cert_simps)

lemma fp_pw201: "pw field_p 5 77467534125581556405720601304637941518848 = 14882326393716968315511562474162043342236789831365877999958773213277054129736"
  by (rule pw_mul [where q = 13129732603718393936715197619086042943069653379130286183246695785361198976764, OF fp_pw200 fp_pw200]) (simp_all only: cert_simps)

lemma fp_pw202: "pw field_p 5 154935068251163112811441202609275883037696 = 7179781735988843891788250693268008752224679662768191740894742407913409875104"
  by (rule pw_mul [where q = 10118840520272122271662254949479546779823020399973962057414529195892458678176, OF fp_pw201 fp_pw201]) (simp_all only: cert_simps)

lemma fp_pw203: "pw field_p 5 309870136502326225622882405218551766075392 = 3368659358285440510833514387503887514686286141201401476596357478200165237377"
  by (rule pw_mul [where q = 2355112106452393248185051023003324034591163289644541807752115752211717546367, OF fp_pw202 fp_pw202]) (simp_all only: cert_simps)

lemma fp_pw204: "pw field_p 5 619740273004652451245764810437103532150784 = 4113855756290174987195927654052501862028458900512468466601375655852943936365"
  by (rule pw_mul [where q = 518445721687595267899412865148384371452147743002032970406211238685555571092, OF fp_pw203 fp_pw203]) (simp_all only: cert_simps)

lemma fp_pw205: "pw field_p 5 1239480546009304902491529620874207064301568 = 10263806862594935017386893894656144918794169262229850824021324651586068131734"
  by (rule pw_mul [where q = 773191767043824617410322365518389418064001381854675027462511490994102131923, OF fp_pw204 fp_pw204]) (simp_all only: cert_simps)

lemma fp_pw206: "pw field_p 5 2478961092018609804983059241748414128603136 = 17399992661447532490904047166318205008247803644663082846622652526566560158766"
  by (rule pw_mul [where q = 4812891191379523090812679224653804827002018525845433677577179468094772844470, OF fp_pw205 fp_pw205]) (simp_all only: cert_simps)

lemma fp_pw207: "pw field_p 5 4957922184037219609966118483496828257206272 = 477831837272453071755287499694458890762638932256180697850327614226012861827"
  by (rule pw_mul [where q = 13832071692147986399790689089361343740937956987536838011426486226478370374337, OF fp_pw206 fp_pw206]) (simp_all only: cert_simps)

lemma fp_pw208: "pw field_p 5 9915844368074439219932236966993656514412544 = 9587699652846436215278197266806891718212196379141853350325143241912264887756"
  by (rule pw_mul [where q = 10431319957844656549476886296464493046536123777183831228224871252146647869, OF fp_pw207 fp_pw207]) (simp_all only: cert_simps)

lemma fp_pw209: "pw field_p 5 19831688736148878439864473933987313028825088 = 16670543704224033905283136612077285238115911617288315394782976309867245822576"
  by (rule pw_mul [where q = 4199696849647907582886698251872810752550986973429409361938913508316332750880, OF fp_pw208 fp_pw208]) (simp_all only: cert_simps)

lemma fp_pw210: "pw field_p 5 39663377472297756879728947867974626057650176 = 10564220951827832754227093334612416631907748873890235787689794525909313207957"
  by (rule pw_mul [where q = 12696634856514225426125042721234987044672625279139498658692820838937192870507, OF fp_pw209 fp_pw209]) (simp_all only: cert_simps)

lemma fp_pw211: "pw field_p 5 79326754944595513759457895735949252115300352 = 15043801706646800909390071282742596217263474982384722332120439289983625234186"
  by (rule pw_mul [where q = 5098753927964805559100043533519916224602330602276546114693099353818746321839, OF fp_pw210 fp_pw210]) (simp_all only: cert_simps)

lemma fp_pw212: "pw field_p 5 158653509889191027518915791471898504230600704 = 2277649037889813662420968305108815676423571630110128603469614812755979993110"
  by (rule pw_mul [where q = 10339613422330954102272718315603473100558664469163890734651713926752147246158, OF fp_pw211 fp_pw211]) (simp_all only: cert_simps)

lemma fp_pw213: "pw field_p 5 317307019778382055037831582943797008461201408 = 18084263731465196510704234890508995266170757114942564874755725305918354863036"
  by (rule pw_mul [where q = 237007838873841552312694445491410456129878627323249036516825414621721021992, OF fp_pw212 fp_pw212]) (simp_all only: cert_simps)

lemma fp_pw214: "pw field_p 5 634614039556764110075663165887594016922402816 = 1163243446312341279783102237481867500451470221261613730996970373123476044420"
  by (rule pw_mul [where q = 14941381847053043034716756424952521162688679290033476121252626508051194066828, OF fp_pw213 fp_pw213]) (simp_all only: cert_simps)

lemma fp_pw215: "pw field_p 5 1269228079113528220151326331775188033844805632 = 13417987582039061363770346254996395173720247898163634349906093611710814972901"
  by (rule pw_mul [where q = 61820189190677984611126070412995455795119926567245860722576450901802133547, OF fp_pw214 fp_pw214]) (simp_all only: cert_simps)

lemma fp_pw216: "pw field_p 5 2538456158227056440302652663550376067689611264 = 2804285713491400724867113161288306900740711442394586617453357155347193505056"
  by (rule pw_mul [where q = 8225529651052590117526430494281673337482740421136015211423629084125850604985, OF fp_pw215 fp_pw215]) (simp_all only: cert_simps)

lemma fp_pw217: "pw field_p 5 5076912316454112880605305327100752135379222528 = 12726463628199071329779000806665112266146989766940181844436152617701608110788"
  by (rule pw_mul [where q = 359280478060190619235115476923673949002703237962936813537436793125391075644, OF fp_pw216 fp_pw216]) (simp_all only: cert_simps)

lemma fp_pw218: "pw field_p 5 10153824632908225761210610654201504270758445056 = 6549552688127337478869242423523667538026961992052623781814841218658384511102"
  by (rule pw_mul [where q = 7399537616071055788058330924374917694204360083618123609372950286751452161426, OF fp_pw217 fp_pw217]) (simp_all only: cert_simps)

lemma fp_pw219: "pw field_p 5 20307649265816451522421221308403008541516890112 = 9292867719160953705918433856780574734590838648717568564432323853108276252759"
  by (rule pw_mul [where q = 1959802834139121355825773801642130439772949064458301037171713648709849312685, OF fp_pw218 fp_pw218]) (simp_all only: cert_simps)

lemma fp_pw220: "pw field_p 5 40615298531632903044842442616806017083033780224 = 14089754549708708670454359619694860485719990661851315664006248525897607503649"
  by (rule pw_mul [where q = 3945377934239226123871479809862639815418434361597909370731126968911809027696, OF fp_pw219 fp_pw219]) (simp_all only: cert_simps)

lemma fp_pw221: "pw field_p 5 81230597063265806089684885233612034166067560448 = 990923719276744291577377615287885788851058147536848610795918601390700393970"
  by (rule pw_mul [where q = 9069763362615478179035094320820600528669146473963908918902510912245782744143, OF fp_pw220 fp_pw220]) (simp_all only: cert_simps)

lemma fp_pw222: "pw field_p 5 101538246329082257612106106542015042707584450560 = 827937775177680906342724927326820341503262754637051181067466146215299574882"
  by (rule pw_mul [where q = 420706362632021229527161127623834837030686693431762109588290361546852583644, OF fp_pw221 fp_pw219]) (simp_all only: cert_simps)

lemma fp_pw223: "pw field_p 5 203076492658164515224212213084030085415168901120 = 12118506480988142552093059237682539475510573964526533711043568523521066981732"
  by (rule pw_mul [where q = 31317313298276963753805421447532436081200671051651277972976511123989330976, OF fp_pw222 fp_pw222]) (simp_all only: cert_simps)

lemma fp_pw224: "pw field_p 5 223384141923980966746633434392433093956685791232 = 9215444491366456703237052831856487313791717589240123258810356389716497738277"
  by (rule pw_mul [where q = 5145030523510194791293162926232677974257303100250403939389113431008644167383, OF fp_pw223 fp_pw219]) (simp_all only: cert_simps)

lemma fp_pw225: "pw field_p 5 446768283847961933493266868784866187913371582464 = 16594738172207297329844553838869397110601996439778292042156865409667870752973"
  by (rule pw_mul [where q = 3879910218043014120055721307799074736896127037969578520829483960279535331468, OF fp_pw224 fp_pw224]) (simp_all only: cert_simps)

lemma fp_pw226: "pw field_p 5 893536567695923866986533737569732375826743164928 = 14106172651184361071439414804647480364510878254787233534668315110094092247526"
  by (rule pw_mul [where q = 12581427235459640348664321303131976211832807538846640963217782051610305659459, OF fp_pw225 fp_pw225]) (simp_all only: cert_simps)

lemma fp_pw227: "pw field_p 5 1787073135391847733973067475139464751653486329856 = 2249293408017933215751179329173852822636475258690973961033474800769679941564"
  by (rule pw_mul [where q = 9090912780441975029312133433363061775645847083656732582304552630740650965736, OF fp_pw226 fp_pw226]) (simp_all only: cert_simps)

lemma fp_pw228: "pw field_p 5 1807380784657664185495488696447867760195003219968 = 5787573153293938627655089714603216861815760124278752388110984593479725726882"
  by (rule pw_mul [where q = 954959528943446252231603045808871998752873467630625510715147022208187042882, OF fp_pw227 fp_pw219]) (simp_all only: cert_simps)

lemma fp_pw229: "pw field_p 5 3614761569315328370990977392895735520390006439936 = 19063850567291809048967686382329389610371923371211389462906006133942356518622"
  by (rule pw_mul [where q = 1530319413981998887100213844902245810780455896941299859810555198120079568806, OF fp_pw228 fp_pw228]) (simp_all only: cert_simps)

lemma fp_pw230: "pw field_p 5 7229523138630656741981954785791471040780012879872 = 17443773756251600069498193886240134630762862235898675613466989799538586105306"
  by (rule pw_mul [where q = 16603909257586425474746911175693872344895396795456810957955336626141695537834, OF fp_pw229 fp_pw229]) (simp_all only: cert_simps)

lemma fp_pw231: "pw field_p 5 7249830787896473193504376007099874049321529769984 = 16388815544915199167338373726732179060205218163501035489669069577516965758331"
  by (rule pw_mul [where q = 7405924860618835716768270960364639419499220134051600003927668974343050782619, OF fp_pw230 fp_pw219]) (simp_all only: cert_simps)

lemma fp_pw232: "pw field_p 5 14499661575792946387008752014199748098643059539968 = 9860592574110242105729366277903361815820727178695375465704008776722920141482"
  by (rule pw_mul [where q = 12271120918107946230132180138735685853274388119648794029956384780031940466287, OF fp_pw231 fp_pw231]) (simp_all only: cert_simps)

lemma fp_pw233: "pw field_p 5 28999323151585892774017504028399496197286119079936 = 18708783865791477641942149199192190364928413211009990545583228889745123212515"
  by (rule pw_mul [where q = 4442169546541936651776298629124944390808969853859646110075653764675066878977, OF fp_pw232 fp_pw232]) (simp_all only: cert_simps)

lemma fp_pw234: "pw field_p 5 57998646303171785548035008056798992394572238159872 = 20073074694882096113548158575847281653913887916128098927390350433008384193533"
  by (rule pw_mul [where q = 15991169130676195998503792639422150858213875110836086048120260877610923654476, OF fp_pw233 fp_pw233]) (simp_all only: cert_simps)

lemma fp_pw235: "pw field_p 5 58018953952437601999557429278107395403113755049984 = 419150149879955274416281903989240507951375171103089545873159871971071740866"
  by (rule pw_mul [where q = 8522220305603806222721411996032969845309495405599971706424292422626112007993, OF fp_pw234 fp_pw219]) (simp_all only: cert_simps)

lemma fp_pw236: "pw field_p 5 116037907904875203999114858556214790806227510099968 = 9861120588925174354658715835653811196809531457534941287991204393203698113125"
  by (rule pw_mul [where q = 8026539598133852173440131602746932369773757119059996008272499891887350943, OF fp_pw235 fp_pw235]) (simp_all only: cert_simps)

lemma fp_pw237: "pw field_p 5 116058215554141020450637279777523193814769026990080 = 8407876430056478281388959478227872475564737238963562971820868384826123355389"
  by (rule pw_mul [where q = 4186635251268839337760353634640970661775369904712536873862842706773762147158, OF fp_pw236 fp_pw219]) (simp_all only: cert_simps)

lemma fp_pw238: "pw field_p 5 232116431108282040901274559555046387629538053980160 = 6781266301506457704167514972839671174383647020652684717662765251427523115011"
  by (rule pw_mul [where q = 3229696713300356785636007976620531873988685230794103035610982488852703783430, OF fp_pw237 fp_pw237]) (simp_all only: cert_simps)

lemma fp_pw239: "pw field_p 5 464232862216564081802549119110092775259076107960320 = 13085762834148424732141241971196362034529422255819611399488759237771387733314"
  by (rule pw_mul [where q = 2100925730822854812606531252182125385497449670095244669571747477900353424071, OF fp_pw238 fp_pw238]) (simp_all only: cert_simps)

lemma fp_pw240: "pw field_p 5 928465724433128163605098238220185550518152215920640 = 3667128826613865326768309546990419693214483904994011544936023129107715747972"
  by (rule pw_mul [where q = 7823249675828871317564254519730067741556083997702539263512897994644090860672, OF fp_pw239 fp_pw239]) (simp_all only: cert_simps)

lemma fp_pw241: "pw field_p 5 928486032082393980056620659441493953526693732810752 = 15206435150024896458332773821321101235060396601005363026566863819956855662418"
  by (rule pw_mul [where q = 1556915431466106496625955437528872381605502104228986851847763139269708420490, OF fp_pw240 fp_pw219]) (simp_all only: cert_simps)

lemma fp_pw242: "pw field_p 5 1856972064164787960113241318882987907053387465621504 = 9264281326218783023100903033683538414319266228163462723971738262892354698811"
  by (rule pw_mul [where q = 10564377932292282568632367879643210605412326640369684198313664847512696494089, OF fp_pw241 fp_pw241]) (simp_all only: cert_simps)

lemma fp_pw243: "pw field_p 5 3713944128329575920226482637765975814106774931243008 = 883316953005469484849476762601753619616256973548286521986759120450985656441"
  by (rule pw_mul [where q = 3921142002757482830241705255090511320128458776904682749595527218016764567840, OF fp_pw242 fp_pw242]) (simp_all only: cert_simps)

lemma fp_pw244: "pw field_p 5 7427888256659151840452965275531951628213549862486016 = 9534097148343691671170301589034494209664433229059957094051754622535098060912"
  by (rule pw_mul [where q = 35646938131827402202461405236945864391246566745969474635436868557306456257, OF fp_pw243 fp_pw243]) (simp_all only: cert_simps)

lemma fp_pw245: "pw field_p 5 7427908564308417656904487696753260031222091379376128 = 5860894517425933006280434005445406411960897264968203530418193621129019221620"
  by (rule pw_mul [where q = 4047794249175497532738221196960603199943301920923116514554057761650873790364, OF fp_pw244 fp_pw219]) (simp_all only: cert_simps)

lemma fp_pw246: "pw field_p 5 14855817128616835313808975393506520062444182758752256 = 19417364276407169178007719745270025573496600563545359872105504923499346086734"
  by (rule pw_mul [where q = 1569339519189413710963674396699511407334489571947648652642039076868282341698, OF fp_pw245 fp_pw245]) (simp_all only: cert_simps)

lemma fp_pw247: "pw field_p 5 29711634257233670627617950787013040124888365517504512 = 15606141135126099818892601038494240847306091984287123146005957657160417983138"
  by (rule pw_mul [where q = 17225413554222456063948443999925999484461146970742009363939801972725054705954, OF fp_pw246 fp_pw246]) (simp_all only: cert_simps)

lemma fp_pw248: "pw field_p 5 59423268514467341255235901574026080249776731035009024 = 16416567599876908228165866799160738437770503072920059996363734373191491753520"
  by (rule pw_mul [where q = 11127053119591469439273609507131063761485753503019992371744765627645318412372, OF fp_pw247 fp_pw247]) (simp_all only: cert_simps)

lemma fp_pw249: "pw field_p 5 118846537028934682510471803148052160499553462070018048 = 2491285305842787891716654752976234049081391083832637995474939349753075144486"
  by (rule pw_mul [where q = 12312714791193369099314490243820798875097732725630644361557736728820439790042, OF fp_pw248 fp_pw248]) (simp_all only: cert_simps)

lemma fp_pw250: "pw field_p 5 237693074057869365020943606296104320999106924140036096 = 21130626695787095944551449689426264872103810990014615401191177574333625682898"
  by (rule pw_mul [where q = 283554167022391919021709644363279043501699071958456945403850291710019734994, OF fp_pw249 fp_pw249]) (simp_all only: cert_simps)

lemma fp_pw251: "pw field_p 5 237693094365518630837395128717325629402115465656926208 = 7607321004688653907967616312272719149598308192176594544523441945953161954387"
  by (rule pw_mul [where q = 8971214357254619479383740427052338963138282708177522771388548490545358413835, OF fp_pw250 fp_pw219]) (simp_all only: cert_simps)

lemma fp_pw252: "pw field_p 5 475386188731037261674790257434651258804230931313852416 = 17141514152031273765856979482113030017860027595549748101882502820824731756085"
  by (rule pw_mul [where q = 2643946031082861713041850598920656607353754236760354885255172783716137372852, OF fp_pw251 fp_pw251]) (simp_all only: cert_simps)

lemma fp_pw253: "pw field_p 5 475386209038686527491241779855872567207239472830742528 = 6755710425103900008969003163332240464448510028961124523629020361659459862523"
  by (rule pw_mul [where q = 7277597587602360497960308169428709397609880231216711384866178527204190522376, OF fp_pw252 fp_pw219]) (simp_all only: cert_simps)

lemma fp_pw254: "pw field_p 5 950772418077373054982483559711745134414478945661485056 = 11800094892421345288049326649757237086807212957505831641360783906727130942126"
  by (rule pw_mul [where q = 2085120473812725331369979463410686220805619221881789104445848968622340126059, OF fp_pw253 fp_pw253]) (simp_all only: cert_simps)

lemma fp_pw255: "pw field_p 5 950772438385022320798935082132966442817487487178375168 = 16058590646685379531436910505818574630771167958717365621078860338911090207137"
  by (rule pw_mul [where q = 5009845767469039472952856081687622237703927567045619234978615421445572384641, OF fp_pw254 fp_pw219]) (simp_all only: cert_simps)

lemma fp_pw256: "pw field_p 5 1901544876770044641597870164265932885634974974356750336 = 5213246283556156113091635853211030456624511090940105916035684647810627332881"
  by (rule pw_mul [where q = 11781591380712853305262965655867425375168443330451586307483966578170810633264, OF fp_pw255 fp_pw255]) (simp_all only: cert_simps)

lemma fp_pw257: "pw field_p 5 1901544897077693907414321686687154194037983515873640448 = 15877545442698889549445513416580044753034200106422983552366174129357952905271"
  by (rule pw_mul [where q = 2213334728792868298937668488865064629994279461084991033656675481138634375824, OF fp_pw256 fp_pw219]) (simp_all only: cert_simps)

lemma fp_pw258: "pw field_p 5 3803089794155387814828643373374308388075967031747280896 = 13025609975369943549361089288637219010602322192803229525192866469994673712863"
  by (rule pw_mul [where q = 11517436587351999753559834411104203907941066518491646981517235367606327278834, OF fp_pw257 fp_pw257]) (simp_all only: cert_simps)

lemma fp_pw259: "pw field_p 5 3803089814463037080645094895795529696478975573264171008 = 18843287282401740645189522889083285404801706812273157642676033227270082086990"
  by (rule pw_mul [where q = 5530150189361672843659362614471724319965876986290503148002912053343389668731, OF fp_pw258 fp_pw219]) (simp_all only: cert_simps)

lemma fp_pw260: "pw field_p 5 7606179628926074161290189791591059392957951146528342016 = 17281194123522863302399250799724005911050834139369355170748391204080121233507"
  by (rule pw_mul [where q = 16221926889524073894721521853491690975509695733719023720249960964426769676129, OF fp_pw259 fp_pw259]) (simp_all only: cert_simps)

lemma fp_pw261: "pw field_p 5 15212359257852148322580379583182118785915902293056684032 = 4646134121350568867941266561194671422853653273281564942090396030777412122752"
  by (rule pw_mul [where q = 13643839392841421256343146779363345673209986210527916067874558986077855428041, OF fp_pw260 fp_pw260]) (simp_all only: cert_simps)

lemma fp_pw262: "pw field_p 5 30424718515704296645160759166364237571831804586113368064 = 11995678873894325850593696080272480283708808465787106233807701635185196216789"
  by (rule pw_mul [where q = 986217230865553607722918407258195390763908180037958710822846715013664804395, OF fp_pw261 fp_pw261]) (simp_all only: cert_simps)

lemma fp_pw263: "pw field_p 5 30424718536011945910977210688785458880234813127630258176 = 19696681354787932697851615837886690501308362427726553014785887676762374952741"
  by (rule pw_mul [where q = 5092882860873810663642437169605693358093871663100913875546682319034030368830, OF fp_pw262 fp_pw219]) (simp_all only: cert_simps)

lemma fp_pw264: "pw field_p 5 60849437072023891821954421377570917760469626255260516352 = 14029801575510136877977806338702411319524964086913132474664507215834287434135"
  by (rule pw_mul [where q = 17724550054732203642230848292478396471404312174966238990109336965860243161538, OF fp_pw263 fp_pw263]) (simp_all only: cert_simps)

lemma fp_pw265: "pw field_p 5 60849437092331541087770872899992139068872634796777406464 = 14090053675620696633839974532461525600735860995114804763807068974230204563078"
  by (rule pw_mul [where q = 5956489560659558637610252890110896558559284113715636621772927936230929060811, OF fp_pw264 fp_pw219]) (simp_all only: cert_simps)

lemma fp_pw266: "pw field_p 5 121698874184663082175541745799984278137745269593554812928 = 12720837885902136910462693399934153955751473018868077419964634221843052273045"
  by (rule pw_mul [where q = 9070148469400175476804524542776002451689778964060898700848218756694265729167, OF fp_pw265 fp_pw265]) (simp_all only: cert_simps)

lemma fp_pw267: "pw field_p 5 121698874204970731441358197322405499446148278135071703040 = 8237901310801282373093580570665013209502957732423522620899229548733756447647"
  by (rule pw_mul [where q = 5400756216145099919513629978976952194552382790625443788841533377337258181124, OF fp_pw266 fp_pw219]) (simp_all only: cert_simps)

lemma fp_pw268: "pw field_p 5 243397748409941462882716394644810998892296556270143406080 = 20279846634657821843962373504686581437834900093465950271359975389509280391647"
  by (rule pw_mul [where q = 3100432428672102804491187569622854579458836053207007596143828175032967170786, OF fp_pw267 fp_pw267]) (simp_all only: cert_simps)

lemma fp_pw269: "pw field_p 5 243397748430249112148532846167232220200699564811660296192 = 1342857264597410307198294184277037431520701135414474523332246275559808369813"
  by (rule pw_mul [where q = 8610007356196262934755419292401109945242494964946167966455279255470726409780, OF fp_pw268 fp_pw219]) (simp_all only: cert_simps)

lemma fp_pw270: "pw field_p 5 486795496860498224297065692334464440401399129623320592384 = 18132217702084450763590518704812713626814841599509609514872054928835461855895"
  by (rule pw_mul [where q = 82385125368014993969465533654806877600502317187835609317444723158398911522, OF fp_pw269 fp_pw269]) (simp_all only: cert_simps)

lemma fp_pw271: "pw field_p 5 486795496880805873562882143856885661709802138164837482496 = 5480655416103816791969842094207400370290560420846687818860947766830433122278"
  by (rule pw_mul [where q = 7698210475235843879584407109264790438953157176950046665515406436882666938731, OF fp_pw270 fp_pw219]) (simp_all only: cert_simps)

lemma fp_pw272: "pw field_p 5 973590993761611747125764287713771323419604276329674964992 = 15583882156876831051910759638221832217965335158852646833657006002716160806446"
  by (rule pw_mul [where q = 1372315903379960738903837114155735910795501856765311735725525750021736682614, OF fp_pw271 fp_pw271]) (simp_all only: cert_simps)

lemma fp_pw273: "pw field_p 5 973590993781919396391580739236192544728007284871191855104 = 14988856592886093824991737093079605828555903254608921135179780861763381482464"
  by (rule pw_mul [where q = 6616289680391320651254974244671893925700150018635942586904150356240846003650, OF fp_pw272 fp_pw219]) (simp_all only: cert_simps)

lemma fp_pw274: "pw field_p 5 1947181987563838792783161478472385089456014569742383710208 = 5250047354868116024334532835449803356547465974082229623102775000058534936450"
  by (rule pw_mul [where q = 10264223733150955694623233661138923492215195740298049222508240947805492954238, OF fp_pw273 fp_pw273]) (simp_all only: cert_simps)

lemma fp_pw275: "pw field_p 5 3894363975127677585566322956944770178912029139484767420416 = 19471742348147112782889125107125226482570739498698188438026104901030144271650"
  by (rule pw_mul [where q = 1259260388773344023040414355957683925414206602941938316030490687914531150050, OF fp_pw274 fp_pw274]) (simp_all only: cert_simps)

lemma fp_pw276: "pw field_p 5 7788727950255355171132645913889540357824058278969534840832 = 8958668208966701793733180161086800902164908426003463670859141492250851876053"
  by (rule pw_mul [where q = 17322027733913099672353865651497642219035131744785130046289858796919213570991, OF fp_pw275 fp_pw275]) (simp_all only: cert_simps)

lemma fp_pw277: "pw field_p 5 7788727950275662820398462365411961579132461287511051730944 = 16735607347184528893609913258812491295659899187080890817161346075224509949839"
  by (rule pw_mul [where q = 3803490261563626139399641863583561938958410540468521703199787472111544087764, OF fp_pw276 fp_pw219]) (simp_all only: cert_simps)

lemma fp_pw278: "pw field_p 5 15577455900551325640796924730823923158264922575022103461888 = 11959868089076527062627590578644880070956160281905722788965954562524133246032"
  by (rule pw_mul [where q = 12795935924097389035123254267425292731896357160594321739568095412910433443217, OF fp_pw277 fp_pw277]) (simp_all only: cert_simps)

lemma fp_pw279: "pw field_p 5 15577455900571633290062741182346344379573325583563620352000 = 12352250090664776186863821960638293587385654896593255236717095855783887100144"
  by (rule pw_mul [where q = 5077679041719405533268369498842981651429271538205590077434871421311995207232, OF fp_pw278 fp_pw219]) (simp_all only: cert_simps)

lemma fp_pw280: "pw field_p 5 31154911801143266580125482364692688759146651167127240704000 = 17513646384458799627870601820330709249650289149456250366560862412295903955716"
  by (rule pw_mul [where q = 6970778019766499065575406004745016157629167729640781633214898984914952984060, OF fp_pw279 fp_pw279]) (simp_all only: cert_simps)

lemma fp_pw281: "pw field_p 5 62309823602286533160250964729385377518293302334254481408000 = 17417759354908911834067562028221220136284807594167685580167468728454009135646"
  by (rule pw_mul [where q = 14013359202738614348235607792686172565734311018446331634874484940554388780530, OF fp_pw280 fp_pw280]) (simp_all only: cert_simps)

lemma fp_pw282: "pw field_p 5 62309823602306840809516781180907798739601705342795998298112 = 7841309384361970928792415432560065973852152059598131424446616233076651757256"
  by (rule pw_mul [where q = 7394880191940483707574774095527169111141321670801531058627395789869802023274, OF fp_pw281 fp_pw219]) (simp_all only: cert_simps)

lemma fp_pw283: "pw field_p 5 124619647204613681619033562361815597479203410685591996596224 = 8093711031368389953544243240834576442462395636001508425991348895025263023985"
  by (rule pw_mul [where q = 2809094052057930881802731088716519055417995837298661647697737723819116881103, OF fp_pw282 fp_pw282]) (simp_all only: cert_simps)

lemma fp_pw284: "pw field_p 5 249239294409227363238067124723631194958406821371183993192448 = 15285183513916812931823121591557100082104069188211286089524846142376658987067"
  by (rule pw_mul [where q = 2992846828448486491369643173530343265849175789452611423314463528664596977574, OF fp_pw283 fp_pw283]) (simp_all only: cert_simps)

lemma fp_pw285: "pw field_p 5 249239294409247670887332941175153616179715224379725510082560 = 9523161045663410494306729231834924423176759645400930711838889132922782057904"
  by (rule pw_mul [where q = 6489474248327034205983070851184738067315024780598637757958889418870985250397, OF fp_pw284 fp_pw219]) (simp_all only: cert_simps)

lemma fp_pw286: "pw field_p 5 498478588818495341774665882350307232359430448759451020165120 = 3387146613451692595185882284656577084314480727304051262782891265391846398063"
  by (rule pw_mul [where q = 4143347496309111704898318292854587039480696377752754869592624672500214513809, OF fp_pw285 fp_pw285]) (simp_all only: cert_simps)

lemma fp_pw287: "pw field_p 5 498478588818515649423931698801829653580738851767992537055232 = 17059460402332696947600575794780361435130589968187420222316657422271697753371"
  by (rule pw_mul [where q = 1438046242839666382993620676315217923880765619630874442750579246872573307038, OF fp_pw286 fp_pw219]) (simp_all only: cert_simps)

lemma fp_pw288: "pw field_p 5 996957177637031298847863397603659307161477703535985074110464 = 2618464318445989572014331609935134868333191855265859748332573816197523353505"
  by (rule pw_mul [where q = 13295959430036346890889920687259537861376088517232971737296916266249150775608, OF fp_pw287 fp_pw287]) (simp_all only: cert_simps)

lemma fp_pw289: "pw field_p 5 996957177637051606497129214055181728382786106544526591000576 = 4873121526856858505507654589820634932462409508006623704597684105714111345895"
  by (rule pw_mul [where q = 1111694651833731770303133908531547989372200839583222222944544940722111253200, OF fp_pw288 fp_pw219]) (simp_all only: cert_simps)

lemma fp_pw290: "pw field_p 5 1993914355274103212994258428110363456765572213089053182001152 = 11594034389719791739081140685784221144659726296578314309396800021672046927505"
  by (rule pw_mul [where q = 1084934663534287916469488257776085787168466151824882155198631290607938734560, OF fp_pw289 fp_pw289]) (simp_all only: cert_simps)

lemma fp_pw291: "pw field_p 5 1993914355274123520643524244561885877986880616097594698891264 = 1489454976196267969976716208094448393046338404373538744282427642238999708362"
  by (rule pw_mul [where q = 4922360764448857046151394056112125855730762573184428466640100306316548993149, OF fp_pw290 fp_pw219]) (simp_all only: cert_simps)

lemma fp_pw292: "pw field_p 5 3987828710548247041287048489123771755973761232195189397782528 = 7133511158635694516188917053519576075117232312168386997663219713256836677527"
  by (rule pw_mul [where q = 101354692521712045972350369615988873302393147650975012480773029714826954701, OF fp_pw291 fp_pw291]) (simp_all only: cert_simps)

lemma fp_pw293: "pw field_p 5 7975657421096494082574096978247543511947522464390378795565056 = 1419368564348552510442335746154262447043501702753234463378200273588198831936"
  by (rule pw_mul [where q = 2324854569109773470305990803713445043891899521564848201280596611881267147729, OF fp_pw292 fp_pw292]) (simp_all only: cert_simps)

lemma fp_pw294: "pw field_p 5 15951314842192988165148193956495087023895044928780757591130112 = 6645590781079679197802724946986500340297883946388249977786318890165997687080"
  by (rule pw_mul [where q = 92040605235279127909363485788156007581098815523476489836508158480617324248, OF fp_pw293 fp_pw293]) (simp_all only: cert_simps)

lemma fp_pw295: "pw field_p 5 15951314842193008472797459772946609445116353331789299108020224 = 19725513861105592391648302769367018794409150122850727073660360352579623501459"
  by (rule pw_mul [where q = 2821450602766431888733352115078111223233632426646663035713956747914190345733, OF fp_pw294 fp_pw219]) (simp_all only: cert_simps)

lemma fp_pw296: "pw field_p 5 31902629684386016945594919545893218890232706663578598216040448 = 11821134340288259915643615795080109865431334921941893856725879122412318964075"
  by (rule pw_mul [where q = 17776479334723912340800322121236787610598698623598020709030476084042164555518, OF fp_pw295 fp_pw295]) (simp_all only: cert_simps)

lemma fp_pw297: "pw field_p 5 63805259368772033891189839091786437780465413327157196432080896 = 4785094283726733721360680166225092337650333064276710122397022387496704635132"
  by (rule pw_mul [where q = 6384213566586764949801162488009201902207478837024589489445878137566852112829, OF fp_pw296 fp_pw296]) (simp_all only: cert_simps)

lemma fp_pw298: "pw field_p 5 63805259368772054198839104908237960201686721730165737948971008 = 12086410424700123727421236865815729632966628918644277994512808282199633351212"
  by (rule pw_mul [where q = 2031558607182485729880983001112170607882128010616878553225384789660518667128, OF fp_pw297 fp_pw219]) (simp_all only: cert_simps)

lemma fp_pw299: "pw field_p 5 127610518737544108397678209816475920403373443460331475897942016 = 9335548629404076901130858738214979575151778335354409148151954175899499451204"
  by (rule pw_mul [where q = 6673962720974896188366005097250180757066715063959147460053450214467975046220, OF fp_pw298 fp_pw298]) (simp_all only: cert_simps)

lemma fp_pw300: "pw field_p 5 255221037475088216795356419632951840806746886920662951795884032 = 15489995300513399770512397976524811199645305130274882202159580864107695751792"
  by (rule pw_mul [where q = 3981702356021275830995872093550665407470335425894456307252773989149366970272, OF fp_pw299 fp_pw299]) (simp_all only: cert_simps)

lemma fp_pw301: "pw field_p 5 255221037475088237103005685449403363227968195323671493312774144 = 7068139215390060134387138785158891537008471773732052763827461474498695741435"
  by (rule pw_mul [where q = 6576429096704370857256700678063416432169028172738694721562774732713400849429, OF fp_pw300 fp_pw219]) (simp_all only: cert_simps)

lemma fp_pw302: "pw field_p 5 510442074950176474206011370898806726455936390647342986625548288 = 11976046578522203283945472449156517133632174937016187085030238207911630040026"
  by (rule pw_mul [where q = 2282439584605028659162239553962417147326246398251274041713290340602699715647, OF fp_pw301 fp_pw301]) (simp_all only: cert_simps)

lemma fp_pw303: "pw field_p 5 510442074950176494513660636715258248877157699050351528142438400 = 19727361661529789833499471148220175966628833730124838300007227789324972562653"
  by (rule pw_mul [where q = 5084547777743343724021198399599453277331541753259804189675209583311946395193, OF fp_pw302 fp_pw219]) (simp_all only: cert_simps)

lemma fp_pw304: "pw field_p 5 1020884149900352989027321273430516497754315398100703056284876800 = 8280281963316677318679223374484810844602074303434772620036504439543181925213"
  by (rule pw_mul [where q = 17779809937392814864481341323621665927034934427454248944252288481128219431788, OF fp_pw303 fp_pw303]) (simp_all only: cert_simps)

lemma fp_pw305: "pw field_p 5 1020884149900353009334970539246968020175536706503711597801766912 = 13586890296150354035642502342997549613102552193974223392350466112403277482156"
  by (rule pw_mul [where q = 3515474741988291420569698503924212883628779042469652934803079501430768767983, OF fp_pw304 fp_pw219]) (simp_all only: cert_simps)

lemma fp_pw306: "pw field_p 5 2041768299800706018669941078493936040351073413007423195603533824 = 20941142534824823591257873837517290265649664573529838022099543806979450721014"
  by (rule pw_mul [where q = 8433915367282854150371877907107869819579572644099339831920469968866253299866, OF fp_pw305 fp_pw305]) (simp_all only: cert_simps)

lemma fp_pw307: "pw field_p 5 2041768299800706038977590344310387562772294721410431737120423936 = 10756092764595866138390444740580649794694915468118951050139056211587622868334"
  by (rule pw_mul [where q = 8890767002343181854233527205997300699736839451069936923563525480861869407276, OF fp_pw306 fp_pw219]) (simp_all only: cert_simps)

lemma fp_pw308: "pw field_p 5 4083536599601412077955180688620775125544589442820863474240847872 = 20151034398562444225196119495291954789555633786601362393083627908649074517307"
  by (rule pw_mul [where q = 5285647287358968460042948557141893412163064338257858760694578077598835660297, OF fp_pw307 fp_pw307]) (simp_all only: cert_simps)

lemma fp_pw309: "pw field_p 5 8167073199202824155910361377241550251089178885641726948481695744 = 21312945229367405727361413258725355882390234127730225859265589305988506334337"
  by (rule pw_mul [where q = 18551703291563723409445292929607644315005153689284169501216099739479210682136, OF fp_pw308 fp_pw308]) (simp_all only: cert_simps)

lemma fp_pw310: "pw field_p 5 8167073199202824176218010643058001773510400194044735489998585856 = 21813328940658368247908387022001004325059421577675688642199988705437107242088"
  by (rule pw_mul [where q = 9048619474935080131331323572490699003768047754376010027607958430631871636335, OF fp_pw309 fp_pw219]) (simp_all only: cert_simps)

lemma fp_pw311: "pw field_p 5 16334146398405648352436021286116003547020800388089470979997171712 = 9250896101026043616425905408459245126847713924154882461609687417210691688539"
  by (rule pw_mul [where q = 21738671407266805890803122041302321938133997322427933451379621810882639483365, OF fp_pw310 fp_pw310]) (simp_all only: cert_simps)

lemma fp_pw312: "pw field_p 5 32668292796811296704872042572232007094041600776178941959994343424 = 14794970259777932217634190830103343124286438676976159391483808722101023450430"
  by (rule pw_mul [where q = 3909819494103028548007960611467843585226673778863501817471018944492831869723, OF fp_pw311 fp_pw311]) (simp_all only: cert_simps)

lemma fp_pw313: "pw field_p 5 65336585593622593409744085144464014188083201552357883919988686848 = 13558010483155395181592434544921669324727776107472044998269861731100235513634"
  by (rule pw_mul [where q = 10000398216950158067914528497839009164084798931796580704649981628068787862498, OF fp_pw312 fp_pw312]) (simp_all only: cert_simps)

lemma fp_pw314: "pw field_p 5 130673171187245186819488170288928028376166403104715767839977373696 = 7018584712173070384146962745744189704842028009262587017353953888748508778829"
  by (rule pw_mul [where q = 8398099808086841435898849624300268350974916154778700635149189231370522079031, OF fp_pw313 fp_pw313]) (simp_all only: cert_simps)

lemma fp_pw315: "pw field_p 5 261346342374490373638976340577856056752332806209431535679954747392 = 19972542965997159389803840464244440253098424588244542972200112587429637545245"
  by (rule pw_mul [where q = 2250547549676844612971422629545165881162328194117177676921498572835397170188, OF fp_pw314 fp_pw314]) (simp_all only: cert_simps)

lemma fp_pw316: "pw field_p 5 261346342374490373659283989843672508274754027517834544221471637504 = 19986390520345746895461916061238660239333776202108218039075874071842317777581"
  by (rule pw_mul [where q = 8479538576258221441546163138315835522031274294755725086020149497012310309422, OF fp_pw315 fp_pw219]) (simp_all only: cert_simps)

lemma fp_pw317: "pw field_p 5 522692684748980747318567979687345016549508055035669088442943275008 = 7893079981745577580757319952098439523680362147072748122131414019567798010481"
  by (rule pw_mul [where q = 18249788636331955654037344548136263089865792589354133139691836809079031109240, OF fp_pw316 fp_pw316]) (simp_all only: cert_simps)

lemma fp_pw318: "pw field_p 5 522692684748980747338875628953161468071929276344072096984460165120 = 160659317132678825511202485808183322398034745221256924937697873030896071607"
  by (rule pw_mul [where q = 3351084351384275426319024734726697502128472822855588709233571088679746416816, OF fp_pw317 fp_pw219]) (simp_all only: cert_simps)

lemma fp_pw319: "pw field_p 5 1045385369497961494677751257906322936143858552688144193968920330240 = 8635970277675650140863708114952603929713311450231165432700185072392471670314"
  by (rule pw_mul [where q = 1179236557848452245795544147610634450749519379017352752885605002608639655, OF fp_pw318 fp_pw318]) (simp_all only: cert_simps)

lemma fp_pw320: "pw field_p 5 1045385369497961494698058907172139387666279773996547202510437220352 = 20904650965115577826822967040855325846935349645212565030416226556794019465856"
  by (rule pw_mul [where q = 3666485696770863301005212240959991669365683286972817104288464924181228307910, OF fp_pw319 fp_pw219]) (simp_all only: cert_simps)

lemma fp_pw321: "pw field_p 5 2090770738995922989396117814344278775332559547993094405020874440704 = 4710416425455406709807878519988509433428369386716128230953113813752676204884"
  by (rule pw_mul [where q = 19965258725063939031681581118234265308203081525843545599580434238913501494956, OF fp_pw320 fp_pw320]) (simp_all only: cert_simps)

lemma fp_pw322: "pw field_p 5 4181541477991845978792235628688557550665119095986188810041748881408 = 3112078170982881671526043294019386180968414364678049968104667955872845311401"
  by (rule pw_mul [where q = 1013695938550942499406180556244335616722829099178987926083747788207502333415, OF fp_pw321 fp_pw321]) (simp_all only: cert_simps)

lemma fp_pw323: "pw field_p 5 8363082955983691957584471257377115101330238191972377620083497762816 = 8117476752361361096826366808520568019336818185908712215299258500049719613733"
  by (rule pw_mul [where q = 442476383281026808163641316076681378054942594771522147986645078103932829804, OF fp_pw322 fp_pw322]) (simp_all only: cert_simps)

lemma fp_pw324: "pw field_p 5 8363082955983691957604778906642931552852659413280780628625014652928 = 21690948689031513681518712074675696347752360032430379994624671800044667346579"
  by (rule pw_mul [where q = 3446354196394184730877244890363942954514987902003504016977257939784626715904, OF fp_pw323 fp_pw219]) (simp_all only: cert_simps)

lemma fp_pw325: "pw field_p 5 16726165911967383915209557813285863105705318826561561257250029305856 = 5414112465364617018035768586759605601285696508183620578840938617977416488700"
  by (rule pw_mul [where q = 21495432857953386048642370020411477361748295020687050376602609528375261278573, OF fp_pw324 fp_pw324]) (simp_all only: cert_simps)

lemma fp_pw326: "pw field_p 5 33452331823934767830419115626571726211410637653123122514500058611712 = 863641930892501812996852408988057607230271369950164292204580728212061093461"
  by (rule pw_mul [where q = 1339194468886729056352860119903028689621614450052099826019122481661339060667, OF fp_pw325 fp_pw325]) (simp_all only: cert_simps)

lemma fp_pw327: "pw field_p 5 33452331823934767830439423275837542662933058874431525523041575501824 = 11254571599986459823469341449228967751498852523384027578052893716024783058321"
  by (rule pw_mul [where q = 366667633738219875343364940030045547840570430930937523448647647120275818834, OF fp_pw326 fp_pw219]) (simp_all only: cert_simps)

lemma fp_pw328: "pw field_p 5 66904663647869535660878846551675085325866117748863051046083151003648 = 3106849747009719396001580347096132338912369844172589045024422937380524125604"
  by (rule pw_mul [where q = 5786914127409719045195606176890745727217410394335175588179645942248791502461, OF fp_pw327 fp_pw327]) (simp_all only: cert_simps)

lemma fp_pw329: "pw field_p 5 133809327295739071321757693103350170651732235497726102092166302007296 = 4832142308575509952244947448570949714976571689436593591678270015599739326545"
  by (rule pw_mul [where q = 440990873822630140961988748553782020730229123581826370612284256049211523263, OF fp_pw328 fp_pw328]) (simp_all only: cert_simps)

lemma fp_pw330: "pw field_p 5 267618654591478142643515386206700341303464470995452204184332604014592 = 6838831269889881718407263619836502867074152653137828904207897340541246027612"
  by (rule pw_mul [where q = 1066764446421887926899166853279919199184573357220581931040371343707252523589, OF fp_pw329 fp_pw329]) (simp_all only: cert_simps)

lemma fp_pw331: "pw field_p 5 267618654591478142643535693855966157754986892216760607192874120904704 = 18925875988204714430037297550348707520836632445637368548239735047403211242888"
  by (rule pw_mul [where q = 2903492743426776106573676912701030384725333766535842586256463619605733724860, OF fp_pw330 fp_pw219]) (simp_all only: cert_simps)

lemma fp_pw332: "pw field_p 5 535237309182956285287071387711932315509973784433521214385748241809408 = 11186501861889230630299079709012634319653882378951402758214947679464837859911"
  by (rule pw_mul [where q = 16364437475323256571730433546602070604990568646555525755684130863967650336249, OF fp_pw331 fp_pw331]) (simp_all only: cert_simps)

lemma fp_pw333: "pw field_p 5 1070474618365912570574142775423864631019947568867042428771496483618816 = 14751178389279746642001589070048454815917406256045995756338900500294038614919"
  by (rule pw_mul [where q = 5717125154301426886734840663817327850715711046337434456115566311935199652906, OF fp_pw332 fp_pw332]) (simp_all only: cert_simps)

lemma fp_pw334: "pw field_p 5 1070474618365912570574163083073130447471469990088350831780038000508928 = 17687690228225946948229144571244265383825211459322476615729328322718987041115"
  by (rule pw_mul [where q = 6262757146654572734809267520392523656721664869498436308053303835697372182918, OF fp_pw333 fp_pw219]) (simp_all only: cert_simps)

lemma fp_pw335: "pw field_p 5 2140949236731825141148326166146260894942939980176701663560076001017856 = 10935782302376990218524814873437678614254298742048976224692006271230766834978"
  by (rule pw_mul [where q = 14293261795454045461031078956481111406016032678722750559264110951705448366391, OF fp_pw334 fp_pw334]) (simp_all only: cert_simps)

lemma fp_pw336: "pw field_p 5 4281898473463650282296652332292521789885879960353403327120152002035712 = 13195220082052700979347705191389068509320121150393394745588904847367359889720"
  by (rule pw_mul [where q = 5463724761517711154154879372218112081449320773251638248473892831096957622092, OF fp_pw335 fp_pw335]) (simp_all only: cert_simps)

lemma fp_pw337: "pw field_p 5 4281898473463650282296672639941787606337402381574711730128693518925824 = 13994174152093545507350577175770999097181368842662936753832238348383136123804"
  by (rule pw_mul [where q = 5602159820032551658739221696320658283957743141733108817204129298968773189228, OF fp_pw336 fp_pw219]) (simp_all only: cert_simps)

lemma fp_pw338: "pw field_p 5 8563796946927300564593345279883575212674804763149423460257387037851648 = 18327027841929082478340731448945955514347525169647787625369418686263641713396"
  by (rule pw_mul [where q = 8947127978513099920882976759865826192981733721445901751680232015556752940060, OF fp_pw337 fp_pw337]) (simp_all only: cert_simps)

lemma fp_pw339: "pw field_p 5 17127593893854601129186690559767150425349609526298846920514774075703296 = 9540441816416449389034555299985575832334283909183064206968726859290539707914"
  by (rule pw_mul [where q = 15345222158100974839963171664616966598840288700922855459527483634819245353606, OF fp_pw338 fp_pw338]) (simp_all only: cert_simps)

lemma fp_pw340: "pw field_p 5 34255187787709202258373381119534300850699219052597693841029548151406592 = 6673393353906236048324000285872173586010042862148336890151084592093980195750"
  by (rule pw_mul [where q = 4158398213386562326135393918646486945715708687349010464389242743715633896638, OF fp_pw339 fp_pw339]) (simp_all only: cert_simps)

lemma fp_pw341: "pw field_p 5 34255187787709202258373401427183566667150741473819002244038089668296704 = 7144269368278581377616120003550891909320071572297325958454467977097757106188"
  by (rule pw_mul [where q = 2833254457148088845026380632746691960198631223283650518542509624686327285086, OF fp_pw340 fp_pw219]) (simp_all only: cert_simps)

lemma fp_pw342: "pw field_p 5 68510375575418404516746802854367133334301482947638004488076179336593408 = 4957977890376451190273412414258784625293033499466573950866521435969704463566"
  by (rule pw_mul [where q = 2331872188433675100738784030364377977112359336904912844046010292180192490434, OF fp_pw341 fp_pw341]) (simp_all only: cert_simps)

lemma fp_pw343: "pw field_p 5 137020751150836809033493605708734266668602965895276008976152358673186816 = 9238939081540117550496208578969762993866703026131230922005440470366633379958"
  by (rule pw_mul [where q = 1123047880334312615223918674868699763570288094345270755272356163921743785294, OF fp_pw342 fp_pw342]) (simp_all only: cert_simps)

lemma fp_pw344: "pw field_p 5 274041502301673618066987211417468533337205931790552017952304717346373632 = 14004468402854267599095947188527037969319450520119320821351672879866131646036"
  by (rule pw_mul [where q = 3899718942822416444946013762307173257486230005160467990090445839878122016784, OF fp_pw343 fp_pw343]) (simp_all only: cert_simps)

lemma fp_pw345: "pw field_p 5 274041502301673618066987231725117799153657454211773326355313258863263744 = 21662820861238137435876530704777054267435081686709446311027910061988475929551"
  by (rule pw_mul [where q = 5945734114286997606190675101237602983392316056619126475371420487354756948669, OF fp_pw344 fp_pw219]) (simp_all only: cert_simps)

lemma fp_pw346: "pw field_p 5 548083004603347236133974463450235598307314908423546652710626517726527488 = 9041587359592707019256210554546516050069081939979452594078217033443564781906"
  by (rule pw_mul [where q = 21439720420402146789926544050050241151694112360571010830312489150558236344335, OF fp_pw345 fp_pw345]) (simp_all only: cert_simps)

lemma fp_pw347: "pw field_p 5 548083004603347236133974483757884864123766430844767961113635059243417600 = 16571198222373381412399023913839470093109827239483706753451948718599561813665"
  by (rule pw_mul [where q = 3838694398444984613200544772881334738005075635456400380892521347452090643517, OF fp_pw346 fp_pw219]) (simp_all only: cert_simps)

lemma fp_pw348: "pw field_p 5 1096166009206694472267948967515769728247532861689535922227270118486835200 = 21041398147829368855174859930420146254062148297063673092067689860433561431290"
  by (rule pw_mul [where q = 12545758566965115788766099759202824938216822490947142466094765583819498026055, OF fp_pw347 fp_pw347]) (simp_all only: cert_simps)

lemma fp_pw349: "pw field_p 5 1096166009206694472267948987823418994063984384110757230630278660003725312 = 9270143930728761307655406810895672394267336600338003626676189657458191451930"
  by (rule pw_mul [where q = 8933331503989555625604022777819785126681685638444948589776004839062207832540, OF fp_pw348 fp_pw219]) (simp_all only: cert_simps)

lemma fp_pw350: "pw field_p 5 2192332018413388944535897975646837988127968768221514461260557320007450624 = 19142769440848788551565702187148343962209992930110516217811756498370038647366"
  by (rule pw_mul [where q = 3926106311941068993914810802101304442348399044243268181374884457301287543902, OF fp_pw349 fp_pw349]) (simp_all only: cert_simps)

lemma fp_pw351: "pw field_p 5 2192332018413388944535897995954487253944420290642735769663565861524340736 = 20481726348829820223152595511988836616341605015672517210571388695455537849337"
  by (rule pw_mul [where q = 8127250105629709555112599615481582984931558456697470921802198620670182701521, OF fp_pw350 fp_pw219]) (simp_all only: cert_simps)

lemma fp_pw352: "pw field_p 5 4384664036826777889071795991908974507888840581285471539327131723048681472 = 9842510911260232306515916277476936694457451051387112641689984458963423080869"
  by (rule pw_mul [where q = 19165591166208533650571292315191438078301751224271719686103135094473035241100, OF fp_pw351 fp_pw351]) (simp_all only: cert_simps)

lemma fp_pw353: "pw field_p 5 4384664036826777889071796012216623773705292103706692847730140264565571584 = 15980554587308459148236762078752420875837485226165674683097331368792138112396"
  by (rule pw_mul [where q = 4178734330493740199527723354349182633860704607084554571923748522734563856775, OF fp_pw352 fp_pw219]) (simp_all only: cert_simps)

lemma fp_pw354: "pw field_p 5 8769328073653555778143592024433247547410584207413385695460280529131143168 = 4472689486754166898147597209922272046684348097345018493445027555968835436255"
  by (rule pw_mul [where q = 11667365279764274710537370564755547147169281702554111325485816262027380147633, OF fp_pw353 fp_pw353]) (simp_all only: cert_simps)

lemma fp_pw355: "pw field_p 5 8769328073653555778143592044740896813227035729834607003863289070648033280 = 5640988854843392373378299143461629225262382454992627365308717998410603253135"
  by (rule pw_mul [where q = 1898924093297751660552567294657773546733879832845958320835909394451423772730, OF fp_pw354 fp_pw219]) (simp_all only: cert_simps)

lemma fp_pw356: "pw field_p 5 17538656147307111556287184089481793626454071459669214007726578141296066560 = 7753906454811565924466550811402053498066122079369027282138903243989799401111"
  by (rule pw_mul [where q = 1453782994221384031657901325582922900107821898344188959320539624878276173642, OF fp_pw355 fp_pw355]) (simp_all only: cert_simps)

lemma fp_pw357: "pw field_p 5 35077312294614223112574368178963587252908142919338428015453156282592133120 = 15562553369228158309644175190857478528893056469716227106174557068293872143760"
  by (rule pw_mul [where q = 2746820092503675170508713338304600012670358307795003431545236664830976245633, OF fp_pw356 fp_pw356]) (simp_all only: cert_simps)

lemma fp_pw358: "pw field_p 5 70154624589228446225148736357927174505816285838676856030906312565184266240 = 15586548323882819678796145776140067683637110909291271052554328426614607665740"
  by (rule pw_mul [where q = 11064984466234732991091017990870266259979578217968511115904936616259272742580, OF fp_pw357 fp_pw357]) (simp_all only: cert_simps)

lemma fp_pw359: "pw field_p 5 140309249178456892450297472715854349011632571677353712061812625130368532480 = 14167096640933147026767137028614296344587383102807230039369455109590924220924"
  by (rule pw_mul [where q = 11099131624005046400209205452351694419813616955290076729061474282391231278228, OF fp_pw358 fp_pw358]) (simp_all only: cert_simps)

lemma fp_pw360: "pw field_p 5 280618498356913784900594945431708698023265143354707424123625250260737064960 = 8012289992318681419394889278734148672102646249913465985746094380302968972557"
  by (rule pw_mul [where q = 9169608926980707580154107201250697700776502717315735462623017010206430120707, OF fp_pw359 fp_pw359]) (simp_all only: cert_simps)

lemma fp_pw361: "pw field_p 5 280618498356913784900594945452016347289081594877128645432028258802253955072 = 9083830621347194561056719057236576911026874745334261433650140414301695302707"
  by (rule pw_mul [where q = 3401696128014408535673759163572889031672380108734727480253280620005682285368, OF fp_pw360 fp_pw219]) (simp_all only: cert_simps)

lemma fp_pw362: "pw field_p 5 162461194126531612179369770467224068332135120896 = 17745744628470112046996103439460112813339159250148988486065149803148984552885"
  by (rule pw_mul [where q = 44861061857485871674367122287498131078403118045890012840919052338466753295, OF fp_pw221 fp_pw221]) (simp_all only: cert_simps)

lemma fp_pw363: "pw field_p 5 182768843392348063701790991775627076873652011008 = 8976404903291480720563527191161468820182072198397679712341394851304280594789"
  by (rule pw_mul [where q = 7534129549638282963653598227066164364088025127606554378635733130971425480478, OF fp_pw362 fp_pw219]) (simp_all only: cert_simps)

lemma fp_pw364: "pw field_p 5 365537686784696127403581983551254153747304022016 = 12789478827730351135851069759626503750202322356403079834636596193779035355638"
  by (rule pw_mul [where q = 3681238620186441962949231828649798766526522300337327746946364805189505558499, OF fp_pw363 fp_pw363]) (simp_all only: cert_simps)

lemma fp_pw365: "pw field_p 5 385845336050512578926003204859657162288820912128 = 822833491002691790765228629202088758140294097401263872128631268488788676598"
  by (rule pw_mul [where q = 5429898399748557730390397731249103261659377551008987049167946463596130861732, OF fp_pw364 fp_pw219]) (simp_all only: cert_simps)

lemma fp_pw366: "pw field_p 5 771690672101025157852006409719314324577641824256 = 12542853705754012973335482329779459675829115618314756621839234836929391389058"
  by (rule pw_mul [where q = 30932357516315504655187976514052502802880008181788861479388963552384538338, OF fp_pw365 fp_pw365]) (simp_all only: cert_simps)

lemma fp_pw367: "pw field_p 5 791998321366841609374427631027717333119158714368 = 18497692122595933478703933290921908586032367088158849348125669095645400405648"
  by (rule pw_mul [where q = 5325191290632152881752463119021489547267997562573721104159651198257730315422, OF fp_pw366 fp_pw219]) (simp_all only: cert_simps)

lemma fp_pw368: "pw field_p 5 1583996642733683218748855262055434666238317428736 = 7740382856488830440021062471495669005558519249383073335662966997885018076746"
  by (rule pw_mul [where q = 15632347277294052699817869181160096912977379719033779414242538456962278267574, OF fp_pw367 fp_pw367]) (simp_all only: cert_simps)

lemma fp_pw369: "pw field_p 5 561236996713827569801189890904032694578163189754257290864056517604507910144 = 6341310577990807432600905929758526058773553824922923530000360212842548020076"
  by (rule pw_mul [where q = 3769876789127162944455233575011087699797121916056415247125513012522372820669, OF fp_pw361 fp_pw361]) (simp_all only: cert_simps)

lemma fp_pw370: "pw field_p 5 841855495070741354701784836356049041867244784631385936296084776406761865216 = 12928168526977301480875655197787669112458062649389948011246128517638109434968"
  by (rule pw_mul [where q = 2631704680229790622055894450739978482580360051304755800692494763146168642092, OF fp_pw369 fp_pw361]) (simp_all only: cert_simps)

lemma fp_pw371: "pw field_p 5 1683710990141482709403569672712098083734489569262771872592169552813523730432 = 20846111736645777009767703653665533493788639406277865704073555848150445038125"
  by (rule pw_mul [where q = 7635950607847117442761827647016843495784165064730862138489790348979248841747, OF fp_pw370 fp_pw370]) (simp_all only: cert_simps)

lemma fp_pw372: "pw field_p 5 3367421980282965418807139345424196167468979138525543745184339105627047460864 = 2813847780979723574988245613652680993090845345239261844935281625931194923049"
  by (rule pw_mul [where q = 19853597983226534906305262392680048075676871889097969176949310080840560980928, OF fp_pw371 fp_pw371]) (simp_all only: cert_simps)

lemma fp_pw373: "pw field_p 5 3648040478639879203707734290876212514758060733402672390616367364429301415936 = 4407920970296243842393367215006156084916469457145843978462"
  by (rule pw_mul [where q = 1167773803787549512570655131132843651512835130804111334397488042338710428493, OF fp_pw372 fp_pw361]) (simp_all only: cert_simps)

lemma fp_pw374: "pw field_p 5 7296080957279758407415468581752425029516121466805344781232734728858602831872 = 4407920970296243842393367215006156084916469457145843978461"
  by (rule pw_mul [where q = 887680541290735913945002248416506277799, OF fp_pw373 fp_pw373]) (simp_all only: cert_simps)

lemma fp_pw375: "pw field_p 5 10944121435919637611123202872628637544274182200208017171849102093287904247808 = 21888242871839275222246405745257275088548364400416034343698204186575808495616"
  by (rule pw_mul [where q = 887680541290735913945002248416506277798, OF fp_pw374 fp_pw373]) (simp_all only: cert_simps)

lemma fp_pw376: "pw field_p 5 21888242871839275222246405745257275088548364400416034343698204186575808495616 = 1"
  by (rule pw_mul [where q = 21888242871839275222246405745257275088548364400416034343698204186575808495615, OF fp_pw375 fp_pw375]) (simp_all only: cert_simps)

lemma fp_ok_2: "pock_ok field_p 2"
  by (rule pock_okI [where u = 10944121435919637611123202872628637544274182200208017171849102093287904247808 and t = 21888242871839275222246405745257275088548364400416034343698204186575808495615, OF is_prime_2 fp_pw376 fp_pw375])
    (simp_all only: cert_simps)

lemma fp_ok_3: "pock_ok field_p 3"
  by (rule pock_okI [where u = 21888242871839275220777098755158527141083908662080648982059381034193860502796 and t = 21888242871839275225185019725454770983181382363323226428994183075200869055323, OF is_prime_3 fp_pw376 fp_pw374])
    (simp_all only: cert_simps)

lemma fp_ok_13: "pock_ok field_p 13"
  by (rule pock_okI [where u = 767601292432110971628244955977209093010995669291197124394462393000730255371 and t = 1498655968905046371932971242746738475628022552070673750073183492930915893230, OF is_prime_13 fp_pw376 fp_pw371])
    (simp_all only: cert_simps)

lemma fp_ok_13818364434197438864469338081: "pock_ok field_p 13818364434197438864469338081"
  by (rule pock_okI [where u = 2255585147557280690525146673566167207551177805174052351268366332094790400018 and t = 3053232209029059395201196686235559542157560688260873163583450969548526911795, OF is_prime_q95 fp_pw376 fp_pw368])
    (simp_all only: cert_simps)

lemma is_prime_fp: "is_prime field_p"
proof (rule pocklington [where qs = "[(2, 28), (3, 2), (13, 1), (13818364434197438864469338081, 1)]" and r = 50434592529675492451641016474373659843])
  show "list_all (\<lambda>(q, e). pock_ok field_p q) [(2, 28), (3, 2), (13, 1), (13818364434197438864469338081, 1)]"
    by (simp add: fp_ok_2 fp_ok_3 fp_ok_13 fp_ok_13818364434197438864469338081)
qed (simp_all add: field_p_def)


section \<open>Witness generation against the constraints\<close>

lemma Num2Bits_witness_sound:
  "Num2Bits_witness n x = Inr s \<Longrightarrow> Num2Bits_constraints n s \<and> Num2Bits_in s = x"
  by (auto simp: Num2Bits_witness_def Let_def split: if_splits)

lemma LessThan_witness_ok:
  assumes n: "n \<le> 252" and a: "a < 2 ^ n" and b: "b < 2 ^ n"
  shows "LessThan_witness n a b =
     Inr \<lparr>LessThan_in0 = a, LessThan_in1 = b, LessThan_out = (if a < b then 1 else 0),
          LessThan_n2b = \<lparr>Num2Bits_in = a + 2 ^ n - b,
                          Num2Bits_out = Num2Bits_hint (n + 1) (a + 2 ^ n - b)\<rparr>\<rparr>"
proof -
  let ?x = "a + 2 ^ n - b"
  have sh: "LessThan_shifted n a b = ?x" using assms by (rule LessThan_shifted_eq)
  have n1: "n + 1 \<le> 253" using n by simp
  have x: "?x < 2 ^ (n + 1)" using a by simp
  have xp: "?x < field_p" using x pow_lt_field_p [OF n1] by linarith
  have w: "Num2Bits_witness (n + 1) ?x = Inr \<lparr>Num2Bits_in = ?x, Num2Bits_out = Num2Bits_hint (n + 1) ?x\<rparr>"
    using n1 x by (rule Num2Bits_witness_ok)
  have "Num2Bits_hint (n + 1) ?x ! n = ?x div 2 ^ n mod 2"
    using n1 xp by (intro Num2Bits_hint_nth) simp_all
  then have top: "Num2Bits_hint (n + 1) ?x ! n = (if b \<le> a then 1 else 0)"
    using shifted_top_bit [OF a b] by simp
  have "fsub 1 (Num2Bits_hint (n + 1) ?x ! n) = (if a < b then 1 else 0)"
    unfolding top using fsub_self1 fsub_0_1 by (cases "b \<le> a") simp_all
  then show ?thesis
    using n w by (simp add: LessThan_witness_def LessThan_build_def Num2Bits_build_def sh)
qed

lemma field_bool:
  assumes b: "b < field_p"
  shows "fmul b (fsub b 1) = 0 \<longleftrightarrow> b = 0 \<or> b = 1"
proof
  assume z: "fmul b (fsub b 1) = 0"
  have p2: "2 < field_p" by (simp add: field_p_def)
  have "field_p dvd b * ((b + (field_p - 1)) mod field_p)"
    using z p2 by (simp add: fmul_def fsub_def dvd_eq_mod_eq_0)
  then have "field_p dvd b \<or> field_p dvd (b + (field_p - 1)) mod field_p"
    by (rule is_prime_dvd_mult [OF is_prime_fp])
  then show "b = 0 \<or> b = 1"
  proof
    assume "field_p dvd b"
    then have "b = 0" using b by (auto dest: dvd_imp_le)
    then show ?thesis by simp
  next
    assume "field_p dvd (b + (field_p - 1)) mod field_p"
    then have "field_p dvd b + (field_p - 1)" by (simp add: dvd_eq_mod_eq_0)
    then obtain c where c: "b + (field_p - 1) = field_p * c" by (auto simp: dvd_def)
    have "c < 2"
    proof (rule ccontr)
      assume "\<not> c < 2"
      then have "field_p * 2 \<le> field_p * c" by (intro mult_le_mono2) simp
      then show False using c b p2 by linarith
    qed
    moreover have "c \<noteq> 0" using c p2 by (intro notI) simp
    ultimately have "c = 1" by simp
    then have "b = 1" using c p2 by simp
    then show ?thesis by simp
  qed
next
  assume "b = 0 \<or> b = 1"
  then show "fmul b (fsub b 1) = 0" using fmul_bool0 fmul_bool1 by auto
qed

lemma bool_sum_less:
  fixes f :: "nat \<Rightarrow> nat"
  shows "(\<And>j. j < n \<Longrightarrow> f j \<le> 1) \<Longrightarrow> (\<Sum>j = 0..<n. f j * 2 ^ j) < 2 ^ n"
proof (induction n)
  case 0
  show ?case by simp
next
  case (Suc n)
  have "(\<Sum>j = 0..<n. f j * 2 ^ j) < 2 ^ n" using Suc by simp
  moreover have "f n * 2 ^ n \<le> 1 * 2 ^ n" using Suc.prems [of n] by (intro mult_le_mono1) simp
  then have "f n * 2 ^ n \<le> 2 ^ n" by (simp only: mult_1)
  ultimately have "(\<Sum>j = 0..<n. f j * 2 ^ j) + f n * 2 ^ n < 2 ^ n + 2 ^ n" by linarith
  then show ?case by simp
qed

lemma bool_sum_bit:
  fixes f :: "nat \<Rightarrow> nat"
  shows "(\<And>j. j < n \<Longrightarrow> f j \<le> 1) \<Longrightarrow> i < n \<Longrightarrow> (\<Sum>j = 0..<n. f j * 2 ^ j) div 2 ^ i mod 2 = f i"
proof (induction n)
  case 0
  then show ?case by simp
next
  case (Suc n)
  let ?S = "\<Sum>j = 0..<n. f j * 2 ^ j"
  have lt: "?S < 2 ^ n" using Suc.prems(1) by (intro bool_sum_less) simp
  have fn: "f n \<le> 1" using Suc.prems(1) [of n] by simp
  show ?case
  proof (cases "i = n")
    case True
    have "(?S + f n * 2 ^ n) div 2 ^ n = f n + ?S div 2 ^ n" by (rule div_mult_self1) simp
    then have "(?S + f n * 2 ^ n) div 2 ^ n = f n" using lt by simp
    then show ?thesis using True fn by simp
  next
    case False
    then have i: "i < n" using Suc.prems(2) by simp
    define k where "k = f n * 2 ^ (n - i)"
    have "(2::nat) ^ n = 2 ^ (n - i) * 2 ^ i" using i by (simp add: power_add [symmetric])
    then have e: "f n * 2 ^ n = k * 2 ^ i" by (simp add: k_def)
    have "even k" using i by (simp add: k_def)
    then obtain h where h: "k = 2 * h" by (rule evenE)
    have "(?S + k * 2 ^ i) div 2 ^ i = k + ?S div 2 ^ i" by (rule div_mult_self1) simp
    then have "(?S + f n * 2 ^ n) div 2 ^ i mod 2 = (k + ?S div 2 ^ i) mod 2" by (simp only: e)
    also have "\<dots> = ?S div 2 ^ i mod 2" unfolding h by simp
    finally have "(?S + f n * 2 ^ n) div 2 ^ i mod 2 = ?S div 2 ^ i mod 2" .
    moreover have "?S div 2 ^ i mod 2 = f i" using Suc.IH Suc.prems(1) i by simp
    ultimately show ?thesis by simp
  qed
qed

lemma Num2Bits_hint_in_field: "list_all (\<lambda>b. b < field_p) (Num2Bits_hint n x)"
proof -
  have p2: "2 < field_p" by (simp add: field_p_def)
  have "\<And>y. band y 1 < field_p"
  proof -
    fix y :: nat
    have "y mod 2 < 2" by simp
    then show "band y 1 < field_p" unfolding band_one using p2 by linarith
  qed
  then show ?thesis by (simp add: Num2Bits_hint_def list_all_iff del: One_nat_def)
qed

lemma Num2Bits_witness_signals_ok:
  assumes "Num2Bits_witness n x = Inr s" and "x < field_p"
  shows "Num2Bits_signals_ok n s"
proof -
  have "s = \<lparr>Num2Bits_in = x, Num2Bits_out = Num2Bits_hint n x\<rparr>"
    using assms(1) by (simp add: Num2Bits_witness_def Let_def split: if_splits)
  then show ?thesis
    using assms(2) by (simp add: Num2Bits_signals_ok_def Num2Bits_hint_length Num2Bits_hint_in_field)
qed

lemma Num2Bits_complete:
  assumes n: "n \<le> 253" and ok: "Num2Bits_signals_ok n s" and c: "Num2Bits_constraints n s"
  shows "Num2Bits_in s < 2 ^ n \<and> Num2Bits_out s = Num2Bits_hint n (Num2Bits_in s) \<and>
         (\<Sum>j = 0..<n. Num2Bits_out s ! j * 2 ^ j) = Num2Bits_in s \<and>
         Num2Bits_witness n (Num2Bits_in s) = Inr s"
proof -
  let ?f = "\<lambda>j. Num2Bits_out s ! j"
  let ?S = "\<Sum>j = 0..<n. ?f j * 2 ^ j"
  have len: "length (Num2Bits_out s) = n" and inp: "Num2Bits_in s < field_p"
    and fld: "\<And>j. j < n \<Longrightarrow> ?f j < field_p"
    using ok by (simp_all add: Num2Bits_signals_ok_def list_all_length)
  have cb: "\<And>j. j < n \<Longrightarrow> fmul (?f j) (fsub (?f j) 1) = 0"
    and cs: "(\<Sum>j = 0..<n. ?f j * shl 1 j) mod field_p = Num2Bits_in s"
    using c by (simp_all add: Num2Bits_constraints_iff)
  have b01: "\<And>j. j < n \<Longrightarrow> ?f j = 0 \<or> ?f j = 1"
    using cb fld field_bool by blast
  then have b: "\<And>j. j < n \<Longrightarrow> ?f j \<le> 1" by force
  have "(\<Sum>j = 0..<n. ?f j * shl 1 j) = ?S"
  proof (rule sum.cong)
    fix j assume "j \<in> {0..<n}"
    then have "j \<le> 253" using n by simp
    then show "?f j * shl 1 j = ?f j * 2 ^ j" by (simp only: shl_one)
  qed simp
  then have cs': "?S mod field_p = Num2Bits_in s" using cs by simp
  have lt: "?S < 2 ^ n" using b by (rule bool_sum_less)
  then have "?S < field_p" using pow_lt_field_p [OF n] by linarith
  then have S: "?S = Num2Bits_in s" using cs' by simp
  have r: "Num2Bits_in s < 2 ^ n" using lt S by simp
  have o: "Num2Bits_out s = Num2Bits_hint n (Num2Bits_in s)"
  proof (rule nth_equalityI)
    show "length (Num2Bits_out s) = length (Num2Bits_hint n (Num2Bits_in s))"
      using len by (simp add: Num2Bits_hint_length)
  next
    fix i assume "i < length (Num2Bits_out s)"
    then have i: "i < n" using len by simp
    have "?S div 2 ^ i mod 2 = ?f i" using b i by (rule bool_sum_bit)
    moreover have "Num2Bits_hint n (Num2Bits_in s) ! i = Num2Bits_in s div 2 ^ i mod 2"
      using i n inp by (intro Num2Bits_hint_nth) simp_all
    ultimately show "Num2Bits_out s ! i = Num2Bits_hint n (Num2Bits_in s) ! i"
      unfolding S by simp
  qed
  then have e: "s = \<lparr>Num2Bits_in = Num2Bits_in s, Num2Bits_out = Num2Bits_hint n (Num2Bits_in s)\<rparr>"
    by simp
  have "Num2Bits_witness n (Num2Bits_in s) = Inr s"
    using Num2Bits_witness_ok [OF n r] e by simp
  then show ?thesis using r S o by blast
qed

lemma LessThan_witness_sound:
  assumes "LessThan_witness n a b = Inr s"
  shows "LessThan_constraints n s \<and> LessThan_in0 s = a \<and> LessThan_in1 s = b \<and> n \<le> 252"
proof -
  have n: "n \<le> 252" using assms by (simp add: LessThan_witness_def LessThan_build_def split: if_splits)
  then obtain nb where nb: "Num2Bits_witness (n + 1) (LessThan_shifted n a b) = Inr nb"
    and s: "s = \<lparr>LessThan_in0 = a, LessThan_in1 = b,
                  LessThan_out = fsub 1 (Num2Bits_out nb ! n), LessThan_n2b = nb\<rparr>"
    using assms by (auto simp: LessThan_witness_def LessThan_build_def Num2Bits_build_def split: sum.splits)
  show ?thesis using Num2Bits_witness_sound [OF nb] n by (simp add: s LessThan_constraints_def)
qed

lemma fsub_in_field: "fsub a b < field_p"
  using field_p_pos by (simp add: fsub_def)

lemma fmul_in_field: "fmul a b < field_p"
  using field_p_pos by (simp add: fmul_def)

lemma LessThan_witness_signals_ok:
  assumes "LessThan_witness n a b = Inr s" and "a < field_p" and "b < field_p"
  shows "LessThan_signals_ok n s"
proof -
  obtain nb where nb: "Num2Bits_witness (n + 1) (LessThan_shifted n a b) = Inr nb"
    and s: "s = \<lparr>LessThan_in0 = a, LessThan_in1 = b,
                  LessThan_out = fsub 1 (Num2Bits_out nb ! n), LessThan_n2b = nb\<rparr>"
    using assms(1) by (auto simp: LessThan_witness_def split: sum.splits)
  have "LessThan_shifted n a b < field_p" unfolding LessThan_shifted_def by (rule fsub_in_field)
  then have "Num2Bits_signals_ok (n + 1) nb" using nb by (intro Num2Bits_witness_signals_ok)
  then show ?thesis using assms(2,3) by (simp add: s LessThan_signals_ok_def fsub_in_field)
qed

lemma LessThan_complete:
  assumes n: "n \<le> 252" and ok: "LessThan_signals_ok n s" and c: "LessThan_constraints n s"
  shows "LessThan_witness n (LessThan_in0 s) (LessThan_in1 s) = Inr s"
proof -
  have n1: "n + 1 \<le> 253" using n by simp
  have "Num2Bits_signals_ok (n + 1) (LessThan_n2b s)" using ok by (simp add: LessThan_signals_ok_def)
  moreover have "Num2Bits_constraints (n + 1) (LessThan_n2b s)" using c by (simp add: LessThan_constraints_def)
  ultimately have "Num2Bits_witness (n + 1) (Num2Bits_in (LessThan_n2b s)) = Inr (LessThan_n2b s)"
    using Num2Bits_complete [OF n1] by blast
  then have "Num2Bits_witness (n + 1) (LessThan_shifted n (LessThan_in0 s) (LessThan_in1 s)) = Inr (LessThan_n2b s)"
    using c by (simp add: LessThan_constraints_def)
  moreover have "LessThan_out s = fsub 1 (Num2Bits_out (LessThan_n2b s) ! n)"
    using c by (simp add: LessThan_constraints_def)
  ultimately show ?thesis
    using n by (simp add: LessThan_witness_def LessThan_build_def Num2Bits_build_def)
qed

lemma GreaterThan_witness_sound:
  assumes "GreaterThan_witness n a b = Inr s"
  shows "GreaterThan_constraints n s \<and> GreaterThan_in0 s = a \<and> GreaterThan_in1 s = b \<and> n \<le> 252"
proof -
  obtain l where l: "LessThan_witness n b a = Inr l"
    and s: "s = \<lparr>GreaterThan_in0 = a, GreaterThan_in1 = b,
                  GreaterThan_out = LessThan_out l, GreaterThan_lt = l\<rparr>"
    using assms by (auto simp: GreaterThan_witness_def split: sum.splits)
  show ?thesis using LessThan_witness_sound [OF l] by (simp add: s GreaterThan_constraints_def)
qed

lemma GreaterThan_witness_signals_ok:
  assumes "GreaterThan_witness n a b = Inr s" and "a < field_p" and "b < field_p"
  shows "GreaterThan_signals_ok n s"
proof -
  obtain l where l: "LessThan_witness n b a = Inr l"
    and s: "s = \<lparr>GreaterThan_in0 = a, GreaterThan_in1 = b,
                  GreaterThan_out = LessThan_out l, GreaterThan_lt = l\<rparr>"
    using assms(1) by (auto simp: GreaterThan_witness_def split: sum.splits)
  have "LessThan_signals_ok n l" using l assms(3,2) by (rule LessThan_witness_signals_ok)
  then show ?thesis using assms(2,3) by (simp add: s GreaterThan_signals_ok_def LessThan_signals_ok_def)
qed

lemma GreaterThan_complete:
  assumes n: "n \<le> 252" and ok: "GreaterThan_signals_ok n s" and c: "GreaterThan_constraints n s"
  shows "GreaterThan_witness n (GreaterThan_in0 s) (GreaterThan_in1 s) = Inr s"
proof -
  have "LessThan_witness n (LessThan_in0 (GreaterThan_lt s)) (LessThan_in1 (GreaterThan_lt s))
          = Inr (GreaterThan_lt s)"
    using n ok c by (intro LessThan_complete) (simp_all add: GreaterThan_signals_ok_def GreaterThan_constraints_def)
  then have "LessThan_witness n (GreaterThan_in1 s) (GreaterThan_in0 s) = Inr (GreaterThan_lt s)"
    using c by (simp add: GreaterThan_constraints_def)
  then show ?thesis using c by (simp add: GreaterThan_witness_def GreaterThan_constraints_def)
qed

lemma GreaterEqThan_witness_sound:
  assumes "GreaterEqThan_witness n a b = Inr s"
  shows "GreaterEqThan_constraints n s \<and> GreaterEqThan_in0 s = a \<and> GreaterEqThan_in1 s = b \<and> n \<le> 252"
proof -
  obtain l where l: "LessThan_witness n a b = Inr l"
    and s: "s = \<lparr>GreaterEqThan_in0 = a, GreaterEqThan_in1 = b,
                  GreaterEqThan_out = fsub 1 (LessThan_out l), GreaterEqThan_lt = l\<rparr>"
    using assms by (auto simp: GreaterEqThan_witness_def split: sum.splits)
  show ?thesis using LessThan_witness_sound [OF l] by (simp add: s GreaterEqThan_constraints_def)
qed

lemma GreaterEqThan_witness_signals_ok:
  assumes "GreaterEqThan_witness n a b = Inr s" and "a < field_p" and "b < field_p"
  shows "GreaterEqThan_signals_ok n s"
proof -
  obtain l where l: "LessThan_witness n a b = Inr l"
    and s: "s = \<lparr>GreaterEqThan_in0 = a, GreaterEqThan_in1 = b,
                  GreaterEqThan_out = fsub 1 (LessThan_out l), GreaterEqThan_lt = l\<rparr>"
    using assms(1) by (auto simp: GreaterEqThan_witness_def split: sum.splits)
  have "LessThan_signals_ok n l" using l assms(2,3) by (rule LessThan_witness_signals_ok)
  then show ?thesis using assms(2,3) by (simp add: s GreaterEqThan_signals_ok_def fsub_in_field)
qed

lemma GreaterEqThan_complete:
  assumes n: "n \<le> 252" and ok: "GreaterEqThan_signals_ok n s" and c: "GreaterEqThan_constraints n s"
  shows "GreaterEqThan_witness n (GreaterEqThan_in0 s) (GreaterEqThan_in1 s) = Inr s"
proof -
  have "LessThan_witness n (LessThan_in0 (GreaterEqThan_lt s)) (LessThan_in1 (GreaterEqThan_lt s))
          = Inr (GreaterEqThan_lt s)"
    using n ok c by (intro LessThan_complete) (simp_all add: GreaterEqThan_signals_ok_def GreaterEqThan_constraints_def)
  then have "LessThan_witness n (GreaterEqThan_in0 s) (GreaterEqThan_in1 s) = Inr (GreaterEqThan_lt s)"
    using c by (simp add: GreaterEqThan_constraints_def)
  then show ?thesis using c by (simp add: GreaterEqThan_witness_def GreaterEqThan_constraints_def)
qed

lemma LessEqThan_witness_sound:
  assumes "LessEqThan_witness n a b = Inr s"
  shows "LessEqThan_constraints n s \<and> LessEqThan_in0 s = a \<and> LessEqThan_in1 s = b \<and> n \<le> 252"
proof -
  obtain g where g: "GreaterThan_witness n a b = Inr g"
    and s: "s = \<lparr>LessEqThan_in0 = a, LessEqThan_in1 = b,
                  LessEqThan_out = fsub 1 (GreaterThan_out g), LessEqThan_gt = g\<rparr>"
    using assms by (auto simp: LessEqThan_witness_def split: sum.splits)
  show ?thesis using GreaterThan_witness_sound [OF g] by (simp add: s LessEqThan_constraints_def)
qed

lemma LessEqThan_witness_signals_ok:
  assumes "LessEqThan_witness n a b = Inr s" and "a < field_p" and "b < field_p"
  shows "LessEqThan_signals_ok n s"
proof -
  obtain g where g: "GreaterThan_witness n a b = Inr g"
    and s: "s = \<lparr>LessEqThan_in0 = a, LessEqThan_in1 = b,
                  LessEqThan_out = fsub 1 (GreaterThan_out g), LessEqThan_gt = g\<rparr>"
    using assms(1) by (auto simp: LessEqThan_witness_def split: sum.splits)
  have "GreaterThan_signals_ok n g" using g assms(2,3) by (rule GreaterThan_witness_signals_ok)
  then show ?thesis using assms(2,3) by (simp add: s LessEqThan_signals_ok_def fsub_in_field)
qed

lemma LessEqThan_complete:
  assumes n: "n \<le> 252" and ok: "LessEqThan_signals_ok n s" and c: "LessEqThan_constraints n s"
  shows "LessEqThan_witness n (LessEqThan_in0 s) (LessEqThan_in1 s) = Inr s"
proof -
  have "GreaterThan_witness n (GreaterThan_in0 (LessEqThan_gt s)) (GreaterThan_in1 (LessEqThan_gt s))
          = Inr (LessEqThan_gt s)"
    using n ok c by (intro GreaterThan_complete) (simp_all add: LessEqThan_signals_ok_def LessEqThan_constraints_def)
  then have "GreaterThan_witness n (LessEqThan_in0 s) (LessEqThan_in1 s) = Inr (LessEqThan_gt s)"
    using c by (simp add: LessEqThan_constraints_def)
  then show ?thesis using c by (simp add: LessEqThan_witness_def LessEqThan_constraints_def)
qed

lemma RangeProof_witness_sound:
  assumes "RangeProof_witness n v lo hi = Inr s"
  shows "RangeProof_constraints n s \<and> RangeProof_value s = v \<and> RangeProof_minValue s = lo \<and>
         RangeProof_maxValue s = hi \<and> n \<le> 252"
proof -
  obtain g l where g: "GreaterEqThan_witness n v lo = Inr g" and l: "LessEqThan_witness n v hi = Inr l"
    and v: "fmul (GreaterEqThan_out g) (LessEqThan_out l) = 1"
    and s: "s = \<lparr>RangeProof_value = v, RangeProof_minValue = lo, RangeProof_maxValue = hi,
                  RangeProof_valid = fmul (GreaterEqThan_out g) (LessEqThan_out l),
                  RangeProof_aboveMin = GreaterEqThan_out g, RangeProof_belowMax = LessEqThan_out l,
                  RangeProof_gtMin = g, RangeProof_ltMax = l\<rparr>"
    using assms by (auto simp: RangeProof_witness_def Let_def split: sum.splits if_splits)
  show ?thesis
    using GreaterEqThan_witness_sound [OF g] LessEqThan_witness_sound [OF l] v
    by (simp add: s RangeProof_constraints_def)
qed

lemma RangeProof_witness_signals_ok:
  assumes "RangeProof_witness n v lo hi = Inr s" and "v < field_p" and "lo < field_p" and "hi < field_p"
  shows "RangeProof_signals_ok n s"
proof -
  obtain g l where g: "GreaterEqThan_witness n v lo = Inr g" and l: "LessEqThan_witness n v hi = Inr l"
    and s: "s = \<lparr>RangeProof_value = v, RangeProof_minValue = lo, RangeProof_maxValue = hi,
                  RangeProof_valid = fmul (GreaterEqThan_out g) (LessEqThan_out l),
                  RangeProof_aboveMin = GreaterEqThan_out g, RangeProof_belowMax = LessEqThan_out l,
                  RangeProof_gtMin = g, RangeProof_ltMax = l\<rparr>"
    using assms(1) by (auto simp: RangeProof_witness_def Let_def split: sum.splits if_splits)
  have gk: "GreaterEqThan_signals_ok n g" using g assms(2,3) by (rule GreaterEqThan_witness_signals_ok)
  have lk: "LessEqThan_signals_ok n l" using l assms(2,4) by (rule LessEqThan_witness_signals_ok)
  have "GreaterEqThan_out g < field_p" using gk by (simp add: GreaterEqThan_signals_ok_def)
  moreover have "LessEqThan_out l < field_p" using lk by (simp add: LessEqThan_signals_ok_def)
  ultimately show ?thesis
    using assms(2,3,4) gk lk by (simp add: s RangeProof_signals_ok_def fmul_in_field)
qed

lemma RangeProof_complete:
  assumes n: "n \<le> 252" and ok: "RangeProof_signals_ok n s" and c: "RangeProof_constraints n s"
  shows "RangeProof_witness n (RangeProof_value s) (RangeProof_minValue s) (RangeProof_maxValue s) = Inr s"
proof -
  let ?g = "RangeProof_gtMin s" and ?l = "RangeProof_ltMax s"
  have "GreaterEqThan_witness n (GreaterEqThan_in0 ?g) (GreaterEqThan_in1 ?g) = Inr ?g"
    using n ok c by (intro GreaterEqThan_complete) (simp_all add: RangeProof_signals_ok_def RangeProof_constraints_def)
  then have g: "GreaterEqThan_witness n (RangeProof_value s) (RangeProof_minValue s) = Inr ?g"
    using c by (simp add: RangeProof_constraints_def)
  have "LessEqThan_witness n (LessEqThan_in0 ?l) (LessEqThan_in1 ?l) = Inr ?l"
    using n ok c by (intro LessEqThan_complete) (simp_all add: RangeProof_signals_ok_def RangeProof_constraints_def)
  then have l: "LessEqThan_witness n (RangeProof_value s) (RangeProof_maxValue s) = Inr ?l"
    using c by (simp add: RangeProof_constraints_def)
  have a: "RangeProof_aboveMin s = GreaterEqThan_out ?g" and b: "RangeProof_belowMax s = LessEqThan_out ?l"
    and v1: "RangeProof_valid s = 1"
    and v2: "RangeProof_valid s = fmul (RangeProof_aboveMin s) (RangeProof_belowMax s)"
    using c unfolding RangeProof_constraints_def by blast+
  have v: "fmul (GreaterEqThan_out ?g) (LessEqThan_out ?l) = 1" using v1 v2 a b by simp
  show ?thesis
    unfolding RangeProof_witness_def g l using a b v v1 by (simp add: Let_def)
qed

lemma fmul_1_1: "fmul 1 1 = 1"
  by (simp add: fmul_def field_p_def)

lemma GreaterThan_witness_ok:
  assumes "n \<le> 252" and "a < 2 ^ n" and "b < 2 ^ n"
  shows "\<exists>s. GreaterThan_witness n a b = Inr s \<and> GreaterThan_out s = (if b < a then 1 else 0)"
  using LessThan_witness_ok [OF assms(1) assms(3) assms(2)] by (simp add: GreaterThan_witness_def)

lemma GreaterEqThan_witness_ok:
  assumes "n \<le> 252" and "a < 2 ^ n" and "b < 2 ^ n"
  shows "\<exists>s. GreaterEqThan_witness n a b = Inr s \<and> GreaterEqThan_out s = (if b \<le> a then 1 else 0)"
  using LessThan_witness_ok [OF assms] fsub_self1 fsub_0_1
  by (cases "a < b") (simp_all add: GreaterEqThan_witness_def)

lemma LessEqThan_witness_ok:
  assumes "n \<le> 252" and "a < 2 ^ n" and "b < 2 ^ n"
  shows "\<exists>s. LessEqThan_witness n a b = Inr s \<and> LessEqThan_out s = (if a \<le> b then 1 else 0)"
proof -
  obtain g where g: "GreaterThan_witness n a b = Inr g" "GreaterThan_out g = (if b < a then 1 else 0)"
    using GreaterThan_witness_ok [OF assms] by blast
  show ?thesis using g fsub_self1 fsub_0_1
    by (cases "b < a") (simp_all add: LessEqThan_witness_def)
qed

lemma RangeProof_witness_ok:
  assumes n: "n \<le> 252" and v: "v < 2 ^ n" and lo: "lo < 2 ^ n" and hi: "hi < 2 ^ n"
  shows "(lo \<le> v \<and> v \<le> hi \<longrightarrow> (\<exists>s. RangeProof_witness n v lo hi = Inr s \<and> RangeProof_valid s = 1)) \<and>
         (\<not> (lo \<le> v \<and> v \<le> hi) \<longrightarrow> RangeProof_witness n v lo hi = Inl ConstraintFailed)"
proof -
  obtain g where g: "GreaterEqThan_witness n v lo = Inr g" "GreaterEqThan_out g = (if lo \<le> v then 1 else 0)"
    using GreaterEqThan_witness_ok [OF n v lo] by blast
  obtain l where l: "LessEqThan_witness n v hi = Inr l" "LessEqThan_out l = (if v \<le> hi then 1 else 0)"
    using LessEqThan_witness_ok [OF n v hi] by blast
  have f: "fmul (GreaterEqThan_out g) (LessEqThan_out l) = (if lo \<le> v \<and> v \<le> hi then 1 else 0)"
    using g(2) l(2) fmul_1_1 by (simp add: fmul_def)
  show ?thesis
    unfolding RangeProof_witness_def g(1) l(1) using f by (simp add: Let_def)
qed

lemma pow32_field: "x < 2 ^ 32 \<Longrightarrow> x < field_p"
proof -
  assume "x < 2 ^ 32"
  moreover have "(2::nat) ^ 32 < field_p" by (rule pow_lt_field_p) simp
  ultimately show ?thesis by linarith
qed

lemma pow_less_field_p_253: "2 ^ n < field_p \<Longrightarrow> n \<le> 253"
proof -
  assume "2 ^ n < field_p"
  then have "(2::nat) ^ n < 2 ^ 254" using field_p_lt by linarith
  then have "n < 254" by (simp only: power_strict_increasing_iff rel_simps)
  then show ?thesis by simp
qed

lemma bits_sum_foldr:
  "(\<Sum>j = 0..<length L. L ! j * 2 ^ j) = foldr (\<lambda>b acc. b + 2 * acc) L (0::nat)"
proof (induction L)
  case Nil
  show ?case by simp
next
  case (Cons b L)
  have "(\<Sum>j = 0..<length (b # L). (b # L) ! j * 2 ^ j)
      = b + (\<Sum>j = 0..<length L. (b # L) ! Suc j * 2 ^ Suc j)"
    by (simp add: sum.atLeast0_lessThan_Suc_shift del: sum.op_ivl_Suc)
  also have "\<dots> = b + 2 * (\<Sum>j = 0..<length L. L ! j * 2 ^ j)"
    by (simp add: sum_distrib_left mult.assoc mult.left_commute)
  finally show ?case using Cons by simp
qed

lemma modulus_bits_length: "length modulus_bits = 254"
  by (simp add: modulus_bits_def)

lemma modulus_bits_bool: "list_all (\<lambda>b. b = 0 \<or> b = 1) modulus_bits"
  by (simp add: modulus_bits_def)

lemma modulus_bits_sum: "(\<Sum>j = 0..<254. modulus_bits ! j * 2 ^ j) = field_p"
proof -
  have "(\<Sum>j = 0..<length modulus_bits. modulus_bits ! j * 2 ^ j) = field_p"
    unfolding bits_sum_foldr by (simp add: modulus_bits_def field_p_def)
  then show ?thesis by (simp only: modulus_bits_length)
qed

lemma modulus_bits_sat:
  "Num2Bits_signals_ok 254 \<lparr>Num2Bits_in = 0, Num2Bits_out = modulus_bits\<rparr> \<and>
   Num2Bits_constraints 254 \<lparr>Num2Bits_in = 0, Num2Bits_out = modulus_bits\<rparr>"
proof -
  have p2: "2 < field_p" by (simp add: field_p_def)
  have nth: "\<And>j. j < 254 \<Longrightarrow> modulus_bits ! j = 0 \<or> modulus_bits ! j = 1"
    using modulus_bits_bool by (simp add: list_all_length modulus_bits_length)
  have fld: "list_all (\<lambda>b. b < field_p) modulus_bits"
    unfolding list_all_length
  proof (intro allI impI)
    fix j assume "j < length modulus_bits"
    then have "modulus_bits ! j = 0 \<or> modulus_bits ! j = 1" using nth by (simp add: modulus_bits_length)
    then show "modulus_bits ! j < field_p" using p2 by auto
  qed
  have ok: "Num2Bits_signals_ok 254 \<lparr>Num2Bits_in = 0, Num2Bits_out = modulus_bits\<rparr>"
    using fld field_p_pos by (simp add: Num2Bits_signals_ok_def modulus_bits_length)
  have b: "\<forall>j < 254. fmul (modulus_bits ! j) (fsub (modulus_bits ! j) 1) = 0"
  proof (intro allI impI)
    fix j :: nat assume "j < 254"
    then have "modulus_bits ! j = 0 \<or> modulus_bits ! j = 1" by (rule nth)
    then show "fmul (modulus_bits ! j) (fsub (modulus_bits ! j) 1) = 0"
      using fmul_bool0 fmul_bool1 by (elim disjE) (simp_all only:)
  qed
  have "(\<Sum>j = 0..<254. modulus_bits ! j * shl 1 j) = (\<Sum>j = 0..<254. modulus_bits ! j * 2 ^ j)"
  proof (rule sum.cong)
    fix j :: nat assume "j \<in> {0..<254}"
    then have "j \<le> 253" by simp
    then show "modulus_bits ! j * shl 1 j = modulus_bits ! j * 2 ^ j" by (simp only: shl_one)
  qed simp
  then have "(\<Sum>j = 0..<254. modulus_bits ! j * shl 1 j) mod field_p = 0"
    by (simp only: modulus_bits_sum mod_self)
  then have "Num2Bits_constraints 254 \<lparr>Num2Bits_in = 0, Num2Bits_out = modulus_bits\<rparr>"
    using b by (simp add: Num2Bits_constraints_iff)
  then show ?thesis using ok by simp
qed

section \<open>Construction\<close>

text \<open>
  C6: the assertion \<^verbatim>\<open>n <= 252\<close> of LessThan decides the construction of every comparator
  and of RangeProof: construction succeeds for every \<open>n \<le> 252\<close> and stops with the failed
  assertion for \<open>n = 253\<close> and above, so that no witness is ever generated there.
\<close>

theorem build_bound:
  "LessThan_build n = (if n \<le> 252 then Inr () else Inl AssertFailed) \<and>
   GreaterThan_build n = (if n \<le> 252 then Inr () else Inl AssertFailed) \<and>
   GreaterEqThan_build n = (if n \<le> 252 then Inr () else Inl AssertFailed) \<and>
   LessEqThan_build n = (if n \<le> 252 then Inr () else Inl AssertFailed) \<and>
   RangeProof_build n = (if n \<le> 252 then Inr () else Inl AssertFailed) \<and>
   (\<forall>a b. 252 < n \<longrightarrow> LessThan_witness n a b = Inl AssertFailed)"
  by (simp add: LessThan_build_def GreaterThan_build_def GreaterEqThan_build_def
      LessEqThan_build_def RangeProof_build_def Num2Bits_build_def LessThan_witness_def)

theorem build_bound_witness:
  "LessThan_build 253 = Inl AssertFailed \<and> GreaterThan_build 253 = Inl AssertFailed \<and>
   GreaterEqThan_build 253 = Inl AssertFailed \<and> LessEqThan_build 253 = Inl AssertFailed \<and>
   RangeProof_build 253 = Inl AssertFailed \<and> LessThan_witness 253 1 2 = Inl AssertFailed \<and>
   LessThan_build 252 = Inr () \<and> GreaterThan_build 252 = Inr () \<and>
   GreaterEqThan_build 252 = Inr () \<and> LessEqThan_build 252 = Inr () \<and>
   RangeProof_build 252 = Inr ()"
  using build_bound [of 253] build_bound [of 252] by simp

section \<open>The bit decomposition\<close>

text \<open>
  C4, as stated for every \<open>n\<close>, fails at \<open>n = 254\<close>: \<open>2^254\<close> is above the modulus, and for
  the input \<open>0\<close> the bits of the modulus satisfy every constraint of Num2Bits(254), although
  their weighted sum is the modulus and not \<open>0\<close> and their lowest bit is \<open>1\<close>.
\<close>

theorem Num2Bits_254_alias_counterexample:
  "Num2Bits_signals_ok 254 \<lparr>Num2Bits_in = 0, Num2Bits_out = modulus_bits\<rparr> \<and>
   Num2Bits_constraints 254 \<lparr>Num2Bits_in = 0, Num2Bits_out = modulus_bits\<rparr> \<and>
   (0::nat) < 2 ^ 254 \<and>
   (\<Sum>j = 0..<254. modulus_bits ! j * 2 ^ j) = field_p \<and>
   (\<Sum>j = 0..<254. modulus_bits ! j * 2 ^ j) \<noteq> 0 \<and>
   modulus_bits ! 0 = 1 \<and> modulus_bits ! 0 \<noteq> 0 div 2 ^ 0 mod 2 \<and>
   Num2Bits_witness 254 0 \<noteq> Inr \<lparr>Num2Bits_in = 0, Num2Bits_out = modulus_bits\<rparr>"
proof -
  have z: "modulus_bits ! 0 = 1" by (simp add: modulus_bits_def)
  have "Num2Bits_hint 254 0 ! 0 = 0 div 2 ^ 0 mod 2"
    using field_p_pos by (intro Num2Bits_hint_nth) simp_all
  then have "Num2Bits_hint 254 0 \<noteq> modulus_bits" using z by auto
  then have w: "Num2Bits_witness 254 0 \<noteq> Inr \<lparr>Num2Bits_in = 0, Num2Bits_out = modulus_bits\<rparr>"
    by (simp add: Num2Bits_witness_def Let_def)
  have "field_p \<noteq> 0" using field_p_pos by simp
  then show ?thesis using modulus_bits_sat modulus_bits_sum z w by simp
qed

text \<open>
  C4, amended: when \<open>2^n\<close> is below the field modulus, that is for \<open>n \<le> 253\<close>, and the input \<open>x\<close>
  is below \<open>2^n\<close>, witness generation succeeds, and every satisfying assignment with input
  \<open>x\<close> is the generated one: each \<open>out[i]\<close> is \<open>0\<close> or \<open>1\<close> and is bit \<open>i\<close> of \<open>x\<close>, and the
  weighted sum of the outputs is \<open>x\<close>. For every \<open>n\<close>, an assignment of field elements with
  an output that is neither \<open>0\<close> nor \<open>1\<close> violates the boolean constraint of that output and
  is not satisfying.
\<close>

theorem Num2Bits_round_trip:
  assumes "2 ^ n < field_p" and "x < 2 ^ n"
  shows "(\<exists>s. Num2Bits_witness n x = Inr s \<and> Num2Bits_signals_ok n s \<and> Num2Bits_constraints n s) \<and>
         (\<forall>s. Num2Bits_signals_ok n s \<and> Num2Bits_constraints n s \<and> Num2Bits_in s = x \<longrightarrow>
              Num2Bits_witness n x = Inr s \<and>
              (\<forall>i < n. (Num2Bits_out s ! i = 0 \<or> Num2Bits_out s ! i = 1) \<and>
                        Num2Bits_out s ! i = x div 2 ^ i mod 2) \<and>
              (\<Sum>i = 0..<n. Num2Bits_out s ! i * 2 ^ i) = x) \<and>
         (\<forall>m s i. Num2Bits_signals_ok m s \<and> i < m \<and>
              Num2Bits_out s ! i \<noteq> 0 \<and> Num2Bits_out s ! i \<noteq> 1 \<longrightarrow>
              fmul (Num2Bits_out s ! i) (fsub (Num2Bits_out s ! i) 1) \<noteq> 0 \<and>
              \<not> Num2Bits_constraints m s)"
proof -
  have n: "n \<le> 253" using assms(1) by (rule pow_less_field_p_253)
  have xp: "x < field_p" using assms by linarith
  have w: "Num2Bits_witness n x = Inr \<lparr>Num2Bits_in = x, Num2Bits_out = Num2Bits_hint n x\<rparr>"
    using n assms(2) by (rule Num2Bits_witness_ok)
  have first: "\<exists>s. Num2Bits_witness n x = Inr s \<and> Num2Bits_signals_ok n s \<and> Num2Bits_constraints n s"
    using w Num2Bits_witness_signals_ok [OF w xp] Num2Bits_witness_sound [OF w] by blast
  have second: "\<forall>s. Num2Bits_signals_ok n s \<and> Num2Bits_constraints n s \<and> Num2Bits_in s = x \<longrightarrow>
              Num2Bits_witness n x = Inr s \<and>
              (\<forall>i < n. (Num2Bits_out s ! i = 0 \<or> Num2Bits_out s ! i = 1) \<and>
                        Num2Bits_out s ! i = x div 2 ^ i mod 2) \<and>
              (\<Sum>i = 0..<n. Num2Bits_out s ! i * 2 ^ i) = x"
  proof (intro allI impI, elim conjE)
    fix s assume s: "Num2Bits_signals_ok n s" "Num2Bits_constraints n s" "Num2Bits_in s = x"
    note c = Num2Bits_complete [OF n s(1) s(2)]
    have o: "Num2Bits_out s = Num2Bits_hint n x" using c s(3) by simp
    have bits: "\<forall>i < n. (Num2Bits_out s ! i = 0 \<or> Num2Bits_out s ! i = 1) \<and>
                        Num2Bits_out s ! i = x div 2 ^ i mod 2"
    proof (intro allI impI)
      fix i assume i: "i < n"
      have e: "Num2Bits_out s ! i = x div 2 ^ i mod 2"
        unfolding o using i n xp by (intro Num2Bits_hint_nth) simp_all
      have "x div 2 ^ i mod 2 = 0 \<or> x div 2 ^ i mod 2 = 1" by linarith
      then show "(Num2Bits_out s ! i = 0 \<or> Num2Bits_out s ! i = 1) \<and>
                        Num2Bits_out s ! i = x div 2 ^ i mod 2"
        using e by simp
    qed
    show "Num2Bits_witness n x = Inr s \<and>
              (\<forall>i < n. (Num2Bits_out s ! i = 0 \<or> Num2Bits_out s ! i = 1) \<and>
                        Num2Bits_out s ! i = x div 2 ^ i mod 2) \<and>
              (\<Sum>i = 0..<n. Num2Bits_out s ! i * 2 ^ i) = x"
      using c s(3) bits by blast
  qed
  have third: "\<forall>m s i. Num2Bits_signals_ok m s \<and> i < m \<and>
              Num2Bits_out s ! i \<noteq> 0 \<and> Num2Bits_out s ! i \<noteq> 1 \<longrightarrow>
              fmul (Num2Bits_out s ! i) (fsub (Num2Bits_out s ! i) 1) \<noteq> 0 \<and>
              \<not> Num2Bits_constraints m s"
  proof (intro allI impI, elim conjE)
    fix m s i
    assume ok: "Num2Bits_signals_ok m s" and i: "i < m"
      and nb: "Num2Bits_out s ! i \<noteq> 0" "Num2Bits_out s ! i \<noteq> 1"
    have "Num2Bits_out s ! i < field_p"
      using ok i by (simp add: Num2Bits_signals_ok_def list_all_length)
    then have "fmul (Num2Bits_out s ! i) (fsub (Num2Bits_out s ! i) 1) = 0 \<longleftrightarrow>
        Num2Bits_out s ! i = 0 \<or> Num2Bits_out s ! i = 1"
      by (rule field_bool)
    then have v: "fmul (Num2Bits_out s ! i) (fsub (Num2Bits_out s ! i) 1) \<noteq> 0"
      using nb by blast
    then have "\<not> Num2Bits_constraints m s" using i by (auto simp: Num2Bits_constraints_iff)
    then show "fmul (Num2Bits_out s ! i) (fsub (Num2Bits_out s ! i) 1) \<noteq> 0 \<and>
              \<not> Num2Bits_constraints m s"
      using v by simp
  qed
  show ?thesis using first second third by blast
qed

theorem Num2Bits_round_trip_witness:
  "(\<exists>s. Num2Bits_witness 8 173 = Inr s \<and> Num2Bits_signals_ok 8 s \<and> Num2Bits_constraints 8 s \<and>
        Num2Bits_out s ! 0 = 1 \<and> Num2Bits_out s ! 1 = 0 \<and> Num2Bits_out s ! 7 = 1 \<and>
        (\<Sum>i = 0..<8. Num2Bits_out s ! i * 2 ^ i) = 173) \<and>
   \<not> Num2Bits_constraints 8 \<lparr>Num2Bits_in = 173, Num2Bits_out = [1, 0, 1, 1, 0, 2, 0, 1]\<rparr>"
proof -
  have h: "(2::nat) ^ 8 < field_p" "(173::nat) < 2 ^ 8" by (simp_all add: field_p_def)
  note r = Num2Bits_round_trip [OF h]
  obtain s where s: "Num2Bits_witness 8 173 = Inr s" "Num2Bits_signals_ok 8 s" "Num2Bits_constraints 8 s"
    using r by blast
  have i: "Num2Bits_in s = 173" using Num2Bits_witness_sound [OF s(1)] by simp
  have b: "\<forall>i < 8. (Num2Bits_out s ! i = 0 \<or> Num2Bits_out s ! i = 1) \<and>
                        Num2Bits_out s ! i = 173 div 2 ^ i mod 2"
    and sm: "(\<Sum>i = 0..<8. Num2Bits_out s ! i * 2 ^ i) = 173"
    using r s(2,3) i by blast+
  have "Num2Bits_out s ! 0 = 173 div 2 ^ 0 mod 2" "Num2Bits_out s ! 1 = 173 div 2 ^ 1 mod 2"
    "Num2Bits_out s ! 7 = 173 div 2 ^ 7 mod 2" using b by simp_all
  then have v: "Num2Bits_out s ! 0 = 1" "Num2Bits_out s ! 1 = 0" "Num2Bits_out s ! 7 = 1"
    by simp_all
  let ?t = "\<lparr>Num2Bits_in = 173, Num2Bits_out = [1, 0, 1, 1, 0, 2, 0, 1]\<rparr>"
  have "Num2Bits_signals_ok 8 ?t \<and> (5::nat) < 8 \<and> Num2Bits_out ?t ! 5 \<noteq> 0 \<and> Num2Bits_out ?t ! 5 \<noteq> 1"
    by (simp add: Num2Bits_signals_ok_def field_p_def)
  then have "\<not> Num2Bits_constraints 8 ?t" using r by blast
  then show ?thesis using s v sm by blast
qed

text \<open>
  C5: when \<open>2^n\<close> is below the field modulus and the input is a field element that is not
  below \<open>2^n\<close>, the constraints of Num2Bits have no satisfying assignment with this input,
  and witness generation fails on them.
\<close>

theorem Num2Bits_out_of_range_unsat:
  assumes "2 ^ n < field_p" and "x < field_p" and "2 ^ n \<le> x"
  shows "\<not> (\<exists>s. Num2Bits_signals_ok n s \<and> Num2Bits_constraints n s \<and> Num2Bits_in s = x) \<and>
         Num2Bits_witness n x = Inl ConstraintFailed"
proof -
  have n: "n \<le> 253" using assms(1) by (rule pow_less_field_p_253)
  have u: "\<not> (\<exists>s. Num2Bits_signals_ok n s \<and> Num2Bits_constraints n s \<and> Num2Bits_in s = x)"
  proof
    assume "\<exists>s. Num2Bits_signals_ok n s \<and> Num2Bits_constraints n s \<and> Num2Bits_in s = x"
    then obtain s where s: "Num2Bits_signals_ok n s" "Num2Bits_constraints n s" "Num2Bits_in s = x"
      by blast
    have "Num2Bits_in s < 2 ^ n" using Num2Bits_complete [OF n s(1) s(2)] by blast
    then show False using s(3) assms(3) by simp
  qed
  have "Num2Bits_witness n x = Inl ConstraintFailed"
  proof (cases "Num2Bits_witness n x")
    case (Inl e)
    then show ?thesis by (cases e) (simp_all add: Num2Bits_witness_def Let_def split: if_splits)
  next
    case (Inr s)
    then have "Num2Bits_signals_ok n s" using assms(2) by (rule Num2Bits_witness_signals_ok)
    moreover have "Num2Bits_constraints n s \<and> Num2Bits_in s = x"
      using Inr by (rule Num2Bits_witness_sound)
    ultimately show ?thesis using u by blast
  qed
  then show ?thesis using u by simp
qed

theorem Num2Bits_out_of_range_unsat_witness:
  "Num2Bits_witness 3 8 = Inl ConstraintFailed \<and>
   \<not> (\<exists>s. Num2Bits_signals_ok 3 s \<and> Num2Bits_constraints 3 s \<and> Num2Bits_in s = 8) \<and>
   Num2Bits_witness 33 8589934592 = Inl ConstraintFailed \<and>
   \<not> (\<exists>s. Num2Bits_signals_ok 33 s \<and> Num2Bits_constraints 33 s \<and> Num2Bits_in s = 8589934592)"
proof -
  have a: "(2::nat) ^ 3 < field_p" "(8::nat) < field_p" "(2::nat) ^ 3 \<le> 8"
    by (simp_all add: field_p_def)
  have b: "(2::nat) ^ 33 < field_p" "(8589934592::nat) < field_p" "(2::nat) ^ 33 \<le> 8589934592"
    by (simp_all add: field_p_def)
  show ?thesis
    using Num2Bits_out_of_range_unsat [OF a] Num2Bits_out_of_range_unsat [OF b] by blast
qed

section \<open>The shifted difference of LessThan\<close>

text \<open>
  C9: for \<open>n \<le> 252\<close> and inputs below \<open>2^n\<close>, the field expression
  \<^verbatim>\<open>in[0] + (1<<n) - in[1]\<close> is the integer \<open>in[0] + 2^n - in[1]\<close>, which lies between
  \<open>1\<close> and \<open>2^(n+1) - 1\<close>, below the field modulus; its decomposition into \<open>n + 1\<close>
  bits exists, reconstructs it exactly, and has top bit \<open>1\<close> exactly when \<open>in[0] \<ge> in[1]\<close>.
\<close>

theorem LessThan_no_wraparound:
  assumes "n \<le> 252" and "a < 2 ^ n" and "b < 2 ^ n"
  shows "int (LessThan_shifted n a b) = int a + 2 ^ n - int b \<and>
         1 \<le> LessThan_shifted n a b \<and> LessThan_shifted n a b \<le> 2 ^ (n + 1) - 1 \<and>
         LessThan_shifted n a b < 2 ^ (n + 1) \<and> LessThan_shifted n a b < field_p \<and>
         Num2Bits_witness (n + 1) (LessThan_shifted n a b) =
           Inr \<lparr>Num2Bits_in = LessThan_shifted n a b,
                Num2Bits_out = Num2Bits_hint (n + 1) (LessThan_shifted n a b)\<rparr> \<and>
         (\<Sum>j = 0..<n + 1. Num2Bits_hint (n + 1) (LessThan_shifted n a b) ! j * 2 ^ j) =
           LessThan_shifted n a b \<and>
         Num2Bits_hint (n + 1) (LessThan_shifted n a b) ! n = (if a \<ge> b then 1 else 0)"
proof -
  let ?x = "a + 2 ^ n - b"
  have sh: "LessThan_shifted n a b = ?x" using assms by (rule LessThan_shifted_eq)
  have n1: "n + 1 \<le> 253" using assms(1) by simp
  have x: "?x < 2 ^ (n + 1)" using assms(2) by simp
  have xp: "?x < field_p" using x pow_lt_field_p [OF n1] by linarith
  have i: "int ?x = int a + 2 ^ n - int b" using assms(3) by (simp add: of_nat_diff)
  have l: "1 \<le> ?x" using assms(3) by simp
  have u: "?x \<le> 2 ^ (n + 1) - 1" using x by simp
  have w: "Num2Bits_witness (n + 1) ?x = Inr \<lparr>Num2Bits_in = ?x, Num2Bits_out = Num2Bits_hint (n + 1) ?x\<rparr>"
    using n1 x by (rule Num2Bits_witness_ok)
  have nth: "\<And>j. j < n + 1 \<Longrightarrow> Num2Bits_hint (n + 1) ?x ! j = ?x div 2 ^ j mod 2"
    using n1 xp by (intro Num2Bits_hint_nth) simp_all
  have "(\<Sum>j = 0..<n + 1. Num2Bits_hint (n + 1) ?x ! j * 2 ^ j) = (\<Sum>j = 0..<n + 1. (?x div 2 ^ j mod 2) * 2 ^ j)"
  proof (rule sum.cong)
    fix j assume "j \<in> {0..<n + 1}"
    then have "j < n + 1" by simp
    then show "Num2Bits_hint (n + 1) ?x ! j * 2 ^ j = ?x div 2 ^ j mod 2 * 2 ^ j"
      by (simp only: nth)
  qed simp
  then have r: "(\<Sum>j = 0..<n + 1. Num2Bits_hint (n + 1) ?x ! j * 2 ^ j) = ?x"
    using x by (simp only: bits_sum mod_less)
  have top: "Num2Bits_hint (n + 1) ?x ! n = (if a \<ge> b then 1 else 0)"
    using nth [of n] shifted_top_bit [OF assms(2) assms(3)] by simp
  show ?thesis unfolding sh using i l u x xp w r top by blast
qed

theorem LessThan_no_wraparound_witness:
  "int (LessThan_shifted 32 100 200) = 100 + 2 ^ 32 - 200 \<and>
   LessThan_shifted 32 100 200 < 2 ^ 33 \<and> LessThan_shifted 32 100 200 < field_p \<and>
   Num2Bits_hint 33 (LessThan_shifted 32 100 200) ! 32 = 0 \<and>
   Num2Bits_hint 33 (LessThan_shifted 32 200 100) ! 32 = 1"
proof -
  have h: "(32::nat) \<le> 252" "(100::nat) < 2 ^ 32" "(200::nat) < 2 ^ 32" by simp_all
  from LessThan_no_wraparound [OF h(1) h(2) h(3)] LessThan_no_wraparound [OF h(1) h(3) h(2)]
  show ?thesis by auto
qed

section \<open>The comparators\<close>

text \<open>
  C3: for \<open>n \<le> 252\<close> and inputs below \<open>2^n\<close>, LessThan outputs \<open>1\<close> when \<open>in[0] < in[1]\<close>
  and \<open>0\<close> otherwise, as one minus bit \<open>n\<close> of the decomposition of \<open>in[0] + 2^n - in[1]\<close>
  into \<open>n + 1\<close> bits. This is the output of witness generation and of every satisfying
  assignment with these inputs.
\<close>

theorem LessThan_correct:
  assumes n: "n \<le> 252" and a: "a < 2 ^ n" and b: "b < 2 ^ n"
  shows "(\<exists>s. LessThan_witness n a b = Inr s \<and>
              LessThan_out s = (if a < b then 1 else 0) \<and>
              Num2Bits_in (LessThan_n2b s) = a + 2 ^ n - b \<and>
              Num2Bits_out (LessThan_n2b s) = Num2Bits_hint (n + 1) (a + 2 ^ n - b) \<and>
              LessThan_out s = 1 - Num2Bits_out (LessThan_n2b s) ! n \<and>
              Num2Bits_out (LessThan_n2b s) ! n = (a + 2 ^ n - b) div 2 ^ n mod 2) \<and>
         (\<forall>s. LessThan_signals_ok n s \<and> LessThan_constraints n s \<and>
              LessThan_in0 s = a \<and> LessThan_in1 s = b \<longrightarrow>
              LessThan_witness n a b = Inr s \<and> LessThan_out s = (if a < b then 1 else 0))"
proof -
  let ?x = "a + 2 ^ n - b"
  let ?s = "\<lparr>LessThan_in0 = a, LessThan_in1 = b, LessThan_out = (if a < b then 1 else 0),
          LessThan_n2b = \<lparr>Num2Bits_in = ?x, Num2Bits_out = Num2Bits_hint (n + 1) ?x\<rparr>\<rparr>"
  have w: "LessThan_witness n a b = Inr ?s" using n a b by (rule LessThan_witness_ok)
  have n1: "n + 1 \<le> 254" using n by simp
  have "?x < 2 ^ (n + 1)" using a by simp
  moreover have "(2::nat) ^ (n + 1) < field_p" using n by (intro pow_lt_field_p) simp
  ultimately have xp: "?x < field_p" by linarith
  have "Num2Bits_hint (n + 1) ?x ! n = ?x div 2 ^ n mod 2"
    using n1 xp by (intro Num2Bits_hint_nth) simp_all
  then have top: "Num2Bits_hint (n + 1) ?x ! n = ?x div 2 ^ n mod 2"
      "Num2Bits_hint (n + 1) ?x ! n = (if b \<le> a then 1 else 0)"
    using shifted_top_bit [OF a b] by simp_all
  have o: "(if a < b then 1 else 0) = 1 - Num2Bits_hint (n + 1) ?x ! n"
    unfolding top(2) by simp
  have first: "\<exists>s. LessThan_witness n a b = Inr s \<and>
              LessThan_out s = (if a < b then 1 else 0) \<and>
              Num2Bits_in (LessThan_n2b s) = a + 2 ^ n - b \<and>
              Num2Bits_out (LessThan_n2b s) = Num2Bits_hint (n + 1) (a + 2 ^ n - b) \<and>
              LessThan_out s = 1 - Num2Bits_out (LessThan_n2b s) ! n \<and>
              Num2Bits_out (LessThan_n2b s) ! n = (a + 2 ^ n - b) div 2 ^ n mod 2"
    using w o top(1) by (intro exI [of _ ?s]) simp
  have second: "\<forall>s. LessThan_signals_ok n s \<and> LessThan_constraints n s \<and>
              LessThan_in0 s = a \<and> LessThan_in1 s = b \<longrightarrow>
              LessThan_witness n a b = Inr s \<and> LessThan_out s = (if a < b then 1 else 0)"
  proof (intro allI impI, elim conjE)
    fix s assume s: "LessThan_signals_ok n s" "LessThan_constraints n s"
      "LessThan_in0 s = a" "LessThan_in1 s = b"
    have e: "LessThan_witness n a b = Inr s" using LessThan_complete [OF n s(1) s(2)] s(3,4) by simp
    then have "s = ?s" using w by simp
    then have "LessThan_out s = (if a < b then 1 else 0)" by (cases "a < b") simp_all
    then show "LessThan_witness n a b = Inr s \<and> LessThan_out s = (if a < b then 1 else 0)"
      using e by simp
  qed
  show ?thesis using first second by blast
qed

theorem LessThan_correct_witness:
  "(\<exists>s. LessThan_witness 32 3 5 = Inr s \<and> LessThan_out s = 1) \<and>
   (\<exists>s. LessThan_witness 32 5 3 = Inr s \<and> LessThan_out s = 0) \<and>
   (\<exists>s. LessThan_witness 32 4 4 = Inr s \<and> LessThan_out s = 0)"
proof -
  have h: "(32::nat) \<le> 252" "(3::nat) < 2 ^ 32" "(5::nat) < 2 ^ 32" "(4::nat) < 2 ^ 32" by simp_all
  show ?thesis
    using LessThan_correct [OF h(1) h(2) h(3)] LessThan_correct [OF h(1) h(3) h(2)]
      LessThan_correct [OF h(1) h(4) h(4)]
    by auto
qed

text \<open>
  C8: GreaterThan is LessThan with the operands swapped and the output passed on unchanged,
  for every \<open>n\<close> and every pair of inputs, in witness generation (failures included) and in
  the constraints. So for \<open>n \<le> 252\<close> and inputs below \<open>2^n\<close> it outputs \<open>1\<close> exactly when
  \<open>in[0] > in[1]\<close>.
\<close>

theorem GreaterThan_swap:
  "(case GreaterThan_witness n a b of Inl e \<Rightarrow> Inl e | Inr s \<Rightarrow> Inr (GreaterThan_out s)) =
     (case LessThan_witness n b a of Inl e \<Rightarrow> Inl e | Inr l \<Rightarrow> Inr (LessThan_out l)) \<and>
   (GreaterThan_constraints n s \<longrightarrow>
      LessThan_constraints n (GreaterThan_lt s) \<and>
      LessThan_in0 (GreaterThan_lt s) = GreaterThan_in1 s \<and>
      LessThan_in1 (GreaterThan_lt s) = GreaterThan_in0 s \<and>
      GreaterThan_out s = LessThan_out (GreaterThan_lt s)) \<and>
   (n \<le> 252 \<and> a < 2 ^ n \<and> b < 2 ^ n \<longrightarrow>
      (\<exists>t. GreaterThan_witness n a b = Inr t \<and> GreaterThan_out t = (if a > b then 1 else 0)) \<and>
      (\<forall>t. GreaterThan_signals_ok n t \<and> GreaterThan_constraints n t \<and>
           GreaterThan_in0 t = a \<and> GreaterThan_in1 t = b \<longrightarrow>
           GreaterThan_out t = (if a > b then 1 else 0)))"
proof -
  have p1: "(case GreaterThan_witness n a b of Inl e \<Rightarrow> Inl e | Inr s \<Rightarrow> Inr (GreaterThan_out s)) =
     (case LessThan_witness n b a of Inl e \<Rightarrow> Inl e | Inr l \<Rightarrow> Inr (LessThan_out l))"
    by (simp add: GreaterThan_witness_def split: sum.splits)
  have p2: "GreaterThan_constraints n s \<longrightarrow>
      LessThan_constraints n (GreaterThan_lt s) \<and>
      LessThan_in0 (GreaterThan_lt s) = GreaterThan_in1 s \<and>
      LessThan_in1 (GreaterThan_lt s) = GreaterThan_in0 s \<and>
      GreaterThan_out s = LessThan_out (GreaterThan_lt s)"
    unfolding GreaterThan_constraints_def by blast
  have p3: "n \<le> 252 \<and> a < 2 ^ n \<and> b < 2 ^ n \<longrightarrow>
      (\<exists>t. GreaterThan_witness n a b = Inr t \<and> GreaterThan_out t = (if a > b then 1 else 0)) \<and>
      (\<forall>t. GreaterThan_signals_ok n t \<and> GreaterThan_constraints n t \<and>
           GreaterThan_in0 t = a \<and> GreaterThan_in1 t = b \<longrightarrow>
           GreaterThan_out t = (if a > b then 1 else 0))"
  proof (intro impI, elim conjE)
    assume n: "n \<le> 252" and a: "a < 2 ^ n" and b: "b < 2 ^ n"
    obtain g where g: "GreaterThan_witness n a b = Inr g" "GreaterThan_out g = (if b < a then 1 else 0)"
      using GreaterThan_witness_ok [OF n a b] by blast
    have "\<forall>t. GreaterThan_signals_ok n t \<and> GreaterThan_constraints n t \<and>
           GreaterThan_in0 t = a \<and> GreaterThan_in1 t = b \<longrightarrow>
           GreaterThan_out t = (if a > b then 1 else 0)"
    proof (intro allI impI, elim conjE)
      fix t assume t: "GreaterThan_signals_ok n t" "GreaterThan_constraints n t"
        "GreaterThan_in0 t = a" "GreaterThan_in1 t = b"
      have "GreaterThan_witness n a b = Inr t" using GreaterThan_complete [OF n t(1) t(2)] t(3,4) by simp
      then have "t = g" using g(1) by simp
      then show "GreaterThan_out t = (if a > b then 1 else 0)" using g(2) by simp
    qed
    then show "(\<exists>t. GreaterThan_witness n a b = Inr t \<and> GreaterThan_out t = (if a > b then 1 else 0)) \<and>
      (\<forall>t. GreaterThan_signals_ok n t \<and> GreaterThan_constraints n t \<and>
           GreaterThan_in0 t = a \<and> GreaterThan_in1 t = b \<longrightarrow>
           GreaterThan_out t = (if a > b then 1 else 0))"
      using g by blast
  qed
  show ?thesis using p1 p2 p3 by blast
qed

theorem GreaterThan_swap_witness:
  "(\<exists>t. GreaterThan_witness 32 7 3 = Inr t \<and> GreaterThan_out t = 1) \<and>
   (\<exists>t. GreaterThan_witness 32 3 7 = Inr t \<and> GreaterThan_out t = 0) \<and>
   (\<exists>t. GreaterThan_witness 32 7 7 = Inr t \<and> GreaterThan_constraints 32 t \<and>
        GreaterThan_out t = 0 \<and> GreaterThan_out t = LessThan_out (GreaterThan_lt t))"
proof -
  have h: "(32::nat) \<le> 252 \<and> (7::nat) < 2 ^ 32 \<and> (3::nat) < 2 ^ 32"
    "(32::nat) \<le> 252 \<and> (3::nat) < 2 ^ 32 \<and> (7::nat) < 2 ^ 32"
    "(32::nat) \<le> 252 \<and> (7::nat) < 2 ^ 32 \<and> (7::nat) < 2 ^ 32" by simp_all
  have a: "\<exists>t. GreaterThan_witness 32 7 3 = Inr t \<and> GreaterThan_out t = 1"
    using GreaterThan_swap [of 32 7 3] h(1) by auto
  have b: "\<exists>t. GreaterThan_witness 32 3 7 = Inr t \<and> GreaterThan_out t = 0"
    using GreaterThan_swap [of 32 3 7] h(2) by auto
  obtain t where t: "GreaterThan_witness 32 7 7 = Inr t" "GreaterThan_out t = 0"
    using GreaterThan_swap [of 32 7 7] h(3) by auto
  have c: "GreaterThan_constraints 32 t" using GreaterThan_witness_sound [OF t(1)] by simp
  then have "GreaterThan_out t = LessThan_out (GreaterThan_lt t)"
    using GreaterThan_swap [of 32 7 7 t] by blast
  then show ?thesis using a b t c by blast
qed

text \<open>
  C7: for \<open>n \<le> 252\<close> and inputs below \<open>2^n\<close>, GreaterEqThan is one minus LessThan and
  LessEqThan is one minus GreaterThan, on the same inputs; GreaterEqThan outputs \<open>1\<close> exactly
  when \<open>in[0] \<ge> in[1]\<close> and LessEqThan exactly when \<open>in[0] \<le> in[1]\<close>. The outputs of the
  strict comparators are \<open>0\<close> or \<open>1\<close> in every satisfying assignment, so that the field
  subtraction from one is the negation.
\<close>

theorem comparator_complement:
  assumes n: "n \<le> 252" and a: "a < 2 ^ n" and b: "b < 2 ^ n"
  shows "(\<exists>l g ge le.
            LessThan_witness n a b = Inr l \<and> GreaterThan_witness n a b = Inr g \<and>
            GreaterEqThan_witness n a b = Inr ge \<and> LessEqThan_witness n a b = Inr le \<and>
            (LessThan_out l = 0 \<or> LessThan_out l = 1) \<and>
            (GreaterThan_out g = 0 \<or> GreaterThan_out g = 1) \<and>
            GreaterEqThan_out ge = 1 - LessThan_out l \<and>
            LessEqThan_out le = 1 - GreaterThan_out g \<and>
            GreaterEqThan_out ge = (if a \<ge> b then 1 else 0) \<and>
            LessEqThan_out le = (if a \<le> b then 1 else 0)) \<and>
         (\<forall>s. GreaterEqThan_signals_ok n s \<and> GreaterEqThan_constraints n s \<and>
              GreaterEqThan_in0 s = a \<and> GreaterEqThan_in1 s = b \<longrightarrow>
              (LessThan_out (GreaterEqThan_lt s) = 0 \<or> LessThan_out (GreaterEqThan_lt s) = 1) \<and>
              LessThan_witness n a b = Inr (GreaterEqThan_lt s) \<and>
              GreaterEqThan_out s = 1 - LessThan_out (GreaterEqThan_lt s) \<and>
              GreaterEqThan_out s = (if a \<ge> b then 1 else 0)) \<and>
         (\<forall>s. LessEqThan_signals_ok n s \<and> LessEqThan_constraints n s \<and>
              LessEqThan_in0 s = a \<and> LessEqThan_in1 s = b \<longrightarrow>
              (GreaterThan_out (LessEqThan_gt s) = 0 \<or> GreaterThan_out (LessEqThan_gt s) = 1) \<and>
              GreaterThan_witness n a b = Inr (LessEqThan_gt s) \<and>
              LessEqThan_out s = 1 - GreaterThan_out (LessEqThan_gt s) \<and>
              LessEqThan_out s = (if a \<le> b then 1 else 0))"
proof -
  obtain l where l: "LessThan_witness n a b = Inr l" "LessThan_out l = (if a < b then 1 else 0)"
    using LessThan_witness_ok [OF n a b] by simp
  obtain g where g: "GreaterThan_witness n a b = Inr g" "GreaterThan_out g = (if b < a then 1 else 0)"
    using GreaterThan_witness_ok [OF n a b] by blast
  obtain ge where ge: "GreaterEqThan_witness n a b = Inr ge"
      "GreaterEqThan_out ge = (if b \<le> a then 1 else 0)"
    using GreaterEqThan_witness_ok [OF n a b] by blast
  obtain le where le: "LessEqThan_witness n a b = Inr le"
      "LessEqThan_out le = (if a \<le> b then 1 else 0)"
    using LessEqThan_witness_ok [OF n a b] by blast
  have gl: "GreaterEqThan_lt ge = l" "GreaterEqThan_out ge = fsub 1 (LessThan_out l)"
    using ge(1) l(1) by (auto simp: GreaterEqThan_witness_def)
  have lg: "LessEqThan_gt le = g" "LessEqThan_out le = fsub 1 (GreaterThan_out g)"
    using le(1) g(1) by (auto simp: LessEqThan_witness_def)
  have first: "\<exists>l g ge le.
            LessThan_witness n a b = Inr l \<and> GreaterThan_witness n a b = Inr g \<and>
            GreaterEqThan_witness n a b = Inr ge \<and> LessEqThan_witness n a b = Inr le \<and>
            (LessThan_out l = 0 \<or> LessThan_out l = 1) \<and>
            (GreaterThan_out g = 0 \<or> GreaterThan_out g = 1) \<and>
            GreaterEqThan_out ge = 1 - LessThan_out l \<and>
            LessEqThan_out le = 1 - GreaterThan_out g \<and>
            GreaterEqThan_out ge = (if a \<ge> b then 1 else 0) \<and>
            LessEqThan_out le = (if a \<le> b then 1 else 0)"
    using l g ge le by (intro exI [of _ l] exI [of _ g] exI [of _ ge] exI [of _ le]) auto
  have second: "\<forall>s. GreaterEqThan_signals_ok n s \<and> GreaterEqThan_constraints n s \<and>
              GreaterEqThan_in0 s = a \<and> GreaterEqThan_in1 s = b \<longrightarrow>
              (LessThan_out (GreaterEqThan_lt s) = 0 \<or> LessThan_out (GreaterEqThan_lt s) = 1) \<and>
              LessThan_witness n a b = Inr (GreaterEqThan_lt s) \<and>
              GreaterEqThan_out s = 1 - LessThan_out (GreaterEqThan_lt s) \<and>
              GreaterEqThan_out s = (if a \<ge> b then 1 else 0)"
  proof (intro allI impI, elim conjE)
    fix s assume s: "GreaterEqThan_signals_ok n s" "GreaterEqThan_constraints n s"
      "GreaterEqThan_in0 s = a" "GreaterEqThan_in1 s = b"
    have "GreaterEqThan_witness n a b = Inr s" using GreaterEqThan_complete [OF n s(1) s(2)] s(3,4) by simp
    then have e: "s = ge" using ge(1) by simp
    show "(LessThan_out (GreaterEqThan_lt s) = 0 \<or> LessThan_out (GreaterEqThan_lt s) = 1) \<and>
              LessThan_witness n a b = Inr (GreaterEqThan_lt s) \<and>
              GreaterEqThan_out s = 1 - LessThan_out (GreaterEqThan_lt s) \<and>
              GreaterEqThan_out s = (if a \<ge> b then 1 else 0)"
      unfolding e gl(1) using l ge(2) by auto
  qed
  have third: "\<forall>s. LessEqThan_signals_ok n s \<and> LessEqThan_constraints n s \<and>
              LessEqThan_in0 s = a \<and> LessEqThan_in1 s = b \<longrightarrow>
              (GreaterThan_out (LessEqThan_gt s) = 0 \<or> GreaterThan_out (LessEqThan_gt s) = 1) \<and>
              GreaterThan_witness n a b = Inr (LessEqThan_gt s) \<and>
              LessEqThan_out s = 1 - GreaterThan_out (LessEqThan_gt s) \<and>
              LessEqThan_out s = (if a \<le> b then 1 else 0)"
  proof (intro allI impI, elim conjE)
    fix s assume s: "LessEqThan_signals_ok n s" "LessEqThan_constraints n s"
      "LessEqThan_in0 s = a" "LessEqThan_in1 s = b"
    have "LessEqThan_witness n a b = Inr s" using LessEqThan_complete [OF n s(1) s(2)] s(3,4) by simp
    then have e: "s = le" using le(1) by simp
    show "(GreaterThan_out (LessEqThan_gt s) = 0 \<or> GreaterThan_out (LessEqThan_gt s) = 1) \<and>
              GreaterThan_witness n a b = Inr (LessEqThan_gt s) \<and>
              LessEqThan_out s = 1 - GreaterThan_out (LessEqThan_gt s) \<and>
              LessEqThan_out s = (if a \<le> b then 1 else 0)"
      unfolding e lg(1) using g le(2) by auto
  qed
  show ?thesis using first second third by blast
qed

theorem comparator_complement_witness:
  "(\<exists>ge le. GreaterEqThan_witness 32 5 3 = Inr ge \<and> LessEqThan_witness 32 5 3 = Inr le \<and>
       GreaterEqThan_out ge = 1 \<and> LessEqThan_out le = 0) \<and>
   (\<exists>ge le. GreaterEqThan_witness 32 3 5 = Inr ge \<and> LessEqThan_witness 32 3 5 = Inr le \<and>
       GreaterEqThan_out ge = 0 \<and> LessEqThan_out le = 1) \<and>
   (\<exists>ge le. GreaterEqThan_witness 32 4 4 = Inr ge \<and> LessEqThan_witness 32 4 4 = Inr le \<and>
       GreaterEqThan_out ge = 1 \<and> LessEqThan_out le = 1)"
proof -
  have h: "(32::nat) \<le> 252" "(3::nat) < 2 ^ 32" "(5::nat) < 2 ^ 32" "(4::nat) < 2 ^ 32" by simp_all
  have a: "\<exists>ge le. GreaterEqThan_witness 32 5 3 = Inr ge \<and> LessEqThan_witness 32 5 3 = Inr le \<and>
       GreaterEqThan_out ge = 1 \<and> LessEqThan_out le = 0"
    using comparator_complement [OF h(1) h(3) h(2)] by auto
  have b: "\<exists>ge le. GreaterEqThan_witness 32 3 5 = Inr ge \<and> LessEqThan_witness 32 3 5 = Inr le \<and>
       GreaterEqThan_out ge = 0 \<and> LessEqThan_out le = 1"
    using comparator_complement [OF h(1) h(2) h(3)] by auto
  have c: "\<exists>ge le. GreaterEqThan_witness 32 4 4 = Inr ge \<and> LessEqThan_witness 32 4 4 = Inr le \<and>
       GreaterEqThan_out ge = 1 \<and> LessEqThan_out le = 1"
    using comparator_complement [OF h(1) h(4) h(4)] by auto
  show ?thesis using a b c by blast
qed

section \<open>The range proof\<close>

text \<open>
  C1: for the main component RangeProof(32) and inputs \<open>value\<close>, \<open>minValue\<close>, \<open>maxValue\<close>
  below \<open>2^32\<close>, the constraint system has a satisfying assignment with these inputs exactly
  when \<open>minValue \<le> value \<le> maxValue\<close>, bounds included; witness generation then succeeds
  with \<open>valid = 1\<close>, and otherwise it fails on a constraint.
\<close>

theorem RangeProof_32_sat_iff:
  assumes v: "v < 2 ^ 32" and lo: "lo < 2 ^ 32" and hi: "hi < 2 ^ 32"
  shows "((\<exists>s. main_signals_ok s \<and> main_constraints s \<and> RangeProof_value s = v \<and>
               RangeProof_minValue s = lo \<and> RangeProof_maxValue s = hi) \<longleftrightarrow> lo \<le> v \<and> v \<le> hi) \<and>
         ((\<exists>s. main_witness v lo hi = Inr s \<and> RangeProof_valid s = 1) \<longleftrightarrow> lo \<le> v \<and> v \<le> hi) \<and>
         (\<not> (lo \<le> v \<and> v \<le> hi) \<longrightarrow> main_witness v lo hi = Inl ConstraintFailed)"
proof -
  have n: "(32::nat) \<le> 252" by simp
  note w = RangeProof_witness_ok [OF n v lo hi]
  have a: "(\<exists>s. main_witness v lo hi = Inr s \<and> RangeProof_valid s = 1) \<longleftrightarrow> lo \<le> v \<and> v \<le> hi"
    using w by (auto simp: main_witness_def)
  have b: "\<not> (lo \<le> v \<and> v \<le> hi) \<longrightarrow> main_witness v lo hi = Inl ConstraintFailed"
    using w by (simp add: main_witness_def)
  have c: "(\<exists>s. main_signals_ok s \<and> main_constraints s \<and> RangeProof_value s = v \<and>
               RangeProof_minValue s = lo \<and> RangeProof_maxValue s = hi) \<longleftrightarrow> lo \<le> v \<and> v \<le> hi"
  proof
    assume "\<exists>s. main_signals_ok s \<and> main_constraints s \<and> RangeProof_value s = v \<and>
               RangeProof_minValue s = lo \<and> RangeProof_maxValue s = hi"
    then obtain s where s: "RangeProof_signals_ok 32 s" "RangeProof_constraints 32 s"
        "RangeProof_value s = v" "RangeProof_minValue s = lo" "RangeProof_maxValue s = hi"
      by (auto simp: main_signals_ok_def main_constraints_def)
    have "RangeProof_witness 32 v lo hi = Inr s"
      using RangeProof_complete [OF n s(1) s(2)] s(3,4,5) by simp
    then show "lo \<le> v \<and> v \<le> hi" using w by auto
  next
    assume "lo \<le> v \<and> v \<le> hi"
    then obtain s where s: "RangeProof_witness 32 v lo hi = Inr s" using w by blast
    have "RangeProof_signals_ok 32 s"
      using s pow32_field [OF v] pow32_field [OF lo] pow32_field [OF hi]
      by (rule RangeProof_witness_signals_ok)
    then show "\<exists>s. main_signals_ok s \<and> main_constraints s \<and> RangeProof_value s = v \<and>
               RangeProof_minValue s = lo \<and> RangeProof_maxValue s = hi"
      using RangeProof_witness_sound [OF s] by (auto simp: main_signals_ok_def main_constraints_def)
  qed
  show ?thesis using a b c by blast
qed

theorem RangeProof_32_sat_iff_witness:
  "(\<exists>s. main_witness 150 100 200 = Inr s \<and> RangeProof_valid s = 1) \<and>
   (\<exists>s. main_witness 100 100 200 = Inr s \<and> RangeProof_valid s = 1) \<and>
   (\<exists>s. main_witness 200 100 200 = Inr s \<and> RangeProof_valid s = 1) \<and>
   (\<exists>s. main_signals_ok s \<and> main_constraints s \<and> RangeProof_value s = 200 \<and>
        RangeProof_minValue s = 100 \<and> RangeProof_maxValue s = 200) \<and>
   main_witness 50 100 200 = Inl ConstraintFailed \<and>
   main_witness 201 100 200 = Inl ConstraintFailed \<and>
   \<not> (\<exists>s. main_signals_ok s \<and> main_constraints s \<and> RangeProof_value s = 50 \<and>
          RangeProof_minValue s = 100 \<and> RangeProof_maxValue s = 200)"
proof -
  have h: "(150::nat) < 2 ^ 32" "(100::nat) < 2 ^ 32" "(200::nat) < 2 ^ 32" "(50::nat) < 2 ^ 32"
    "(201::nat) < 2 ^ 32" by simp_all
  show ?thesis
    using RangeProof_32_sat_iff [OF h(1) h(2) h(3)] RangeProof_32_sat_iff [OF h(2) h(2) h(3)]
      RangeProof_32_sat_iff [OF h(3) h(2) h(3)] RangeProof_32_sat_iff [OF h(4) h(2) h(3)]
      RangeProof_32_sat_iff [OF h(5) h(2) h(3)]
    by simp
qed

text \<open>
  C2: the constraint \<^verbatim>\<open>valid === 1\<close> holds in every satisfying assignment of RangeProof, and
  the generated witness never carries another value: for the main component, a value out
  of the range leaves no satisfying assignment and makes witness generation fail, instead
  of giving a witness with \<open>valid = 0\<close>.
\<close>

theorem valid_forced:
  "(RangeProof_constraints n s \<longrightarrow> RangeProof_valid s = 1 \<and> RangeProof_valid s \<noteq> 0) \<and>
   (RangeProof_witness n v lo hi = Inr s \<longrightarrow> RangeProof_valid s = 1) \<and>
   (v < 2 ^ 32 \<and> lo < 2 ^ 32 \<and> hi < 2 ^ 32 \<and> (v < lo \<or> hi < v) \<longrightarrow>
      main_witness v lo hi = Inl ConstraintFailed \<and>
      \<not> (\<exists>t. main_signals_ok t \<and> main_constraints t \<and> RangeProof_value t = v \<and>
             RangeProof_minValue t = lo \<and> RangeProof_maxValue t = hi))"
proof -
  have a: "RangeProof_constraints n s \<longrightarrow> RangeProof_valid s = 1 \<and> RangeProof_valid s \<noteq> 0"
    unfolding RangeProof_constraints_def by auto
  have b: "RangeProof_witness n v lo hi = Inr s \<longrightarrow> RangeProof_valid s = 1"
    using RangeProof_witness_sound [of n v lo hi s] a by blast
  have c: "v < 2 ^ 32 \<and> lo < 2 ^ 32 \<and> hi < 2 ^ 32 \<and> (v < lo \<or> hi < v) \<longrightarrow>
      main_witness v lo hi = Inl ConstraintFailed \<and>
      \<not> (\<exists>t. main_signals_ok t \<and> main_constraints t \<and> RangeProof_value t = v \<and>
             RangeProof_minValue t = lo \<and> RangeProof_maxValue t = hi)"
  proof (intro impI, elim conjE)
    assume h: "v < 2 ^ 32" "lo < 2 ^ 32" "hi < 2 ^ 32" and o: "v < lo \<or> hi < v"
    have n: "(32::nat) \<le> 252" by simp
    have w: "main_witness v lo hi = Inl ConstraintFailed"
      using RangeProof_witness_ok [OF n h] o by (auto simp: main_witness_def)
    have "\<not> (\<exists>t. main_signals_ok t \<and> main_constraints t \<and> RangeProof_value t = v \<and>
             RangeProof_minValue t = lo \<and> RangeProof_maxValue t = hi)"
    proof
      assume "\<exists>t. main_signals_ok t \<and> main_constraints t \<and> RangeProof_value t = v \<and>
             RangeProof_minValue t = lo \<and> RangeProof_maxValue t = hi"
      then obtain t where t: "RangeProof_signals_ok 32 t" "RangeProof_constraints 32 t"
          "RangeProof_value t = v" "RangeProof_minValue t = lo" "RangeProof_maxValue t = hi"
        by (auto simp: main_signals_ok_def main_constraints_def)
      have "RangeProof_witness 32 v lo hi = Inr t"
        using RangeProof_complete [OF n t(1) t(2)] t(3,4,5) by simp
      then show False using w by (simp add: main_witness_def)
    qed
    then show "main_witness v lo hi = Inl ConstraintFailed \<and>
      \<not> (\<exists>t. main_signals_ok t \<and> main_constraints t \<and> RangeProof_value t = v \<and>
             RangeProof_minValue t = lo \<and> RangeProof_maxValue t = hi)"
      using w by simp
  qed
  show ?thesis using a b c by blast
qed

theorem valid_forced_witness:
  "(\<exists>s. main_witness 150 100 200 = Inr s \<and> RangeProof_constraints 32 s \<and> RangeProof_valid s = 1) \<and>
   main_witness 50 100 200 = Inl ConstraintFailed \<and>
   \<not> (\<exists>t. main_signals_ok t \<and> main_constraints t \<and> RangeProof_value t = 50 \<and>
          RangeProof_minValue t = 100 \<and> RangeProof_maxValue t = 200)"
proof -
  have n: "(32::nat) \<le> 252" and h: "(150::nat) < 2 ^ 32" "(100::nat) < 2 ^ 32" "(200::nat) < 2 ^ 32"
    by simp_all
  obtain s where s: "main_witness 150 100 200 = Inr s"
    using RangeProof_witness_ok [OF n h] by (auto simp: main_witness_def)
  then have c: "RangeProof_constraints 32 s"
    using RangeProof_witness_sound [of 32 150 100 200 s] unfolding main_witness_def by blast
  have "RangeProof_valid s = 1" using valid_forced [of 32 s 150 100 200] c by blast
  then have a: "\<exists>s. main_witness 150 100 200 = Inr s \<and> RangeProof_constraints 32 s \<and> RangeProof_valid s = 1"
    using s c by blast
  have "(50::nat) < 2 ^ 32 \<and> (100::nat) < 2 ^ 32 \<and> (200::nat) < 2 ^ 32 \<and> ((50::nat) < 100 \<or> (200::nat) < 50)"
    by simp
  then have "main_witness 50 100 200 = Inl ConstraintFailed \<and>
      \<not> (\<exists>t. main_signals_ok t \<and> main_constraints t \<and> RangeProof_value t = 50 \<and>
             RangeProof_minValue t = 100 \<and> RangeProof_maxValue t = 200)"
    using valid_forced [of 32 s 50 100 200] by blast
  then show ?thesis using a by blast
qed

text \<open>
  C10: a satisfying assignment of the main component is determined by its three inputs:
  two satisfying assignments with the same \<open>value\<close>, \<open>minValue\<close> and \<open>maxValue\<close> agree on
  every signal, the decomposition bits, \<open>aboveMin\<close>, \<open>belowMax\<close> and \<open>valid\<close> included. Both
  are the witness that witness generation computes from the inputs.
\<close>

theorem witness_unique:
  assumes "main_signals_ok s" and "main_constraints s"
    and "main_signals_ok t" and "main_constraints t"
    and "RangeProof_value s < 2 ^ 32" and "RangeProof_minValue s < 2 ^ 32"
    and "RangeProof_maxValue s < 2 ^ 32"
    and "RangeProof_value t = RangeProof_value s"
    and "RangeProof_minValue t = RangeProof_minValue s"
    and "RangeProof_maxValue t = RangeProof_maxValue s"
  shows "s = t \<and>
         main_witness (RangeProof_value s) (RangeProof_minValue s) (RangeProof_maxValue s) = Inr s"
proof -
  have n: "(32::nat) \<le> 252" by simp
  have "RangeProof_witness 32 (RangeProof_value s) (RangeProof_minValue s) (RangeProof_maxValue s) = Inr s"
    using assms(1,2) unfolding main_signals_ok_def main_constraints_def
    by (rule RangeProof_complete [OF n])
  moreover have "RangeProof_witness 32 (RangeProof_value t) (RangeProof_minValue t) (RangeProof_maxValue t) = Inr t"
    using assms(3,4) unfolding main_signals_ok_def main_constraints_def
    by (rule RangeProof_complete [OF n])
  ultimately show ?thesis using assms(8,9,10) by (simp add: main_witness_def)
qed

theorem witness_unique_witness:
  "\<exists>s. main_witness 150 100 200 = Inr s \<and> main_signals_ok s \<and> main_constraints s \<and>
       (\<forall>t. main_signals_ok t \<and> main_constraints t \<and> RangeProof_value t = 150 \<and>
            RangeProof_minValue t = 100 \<and> RangeProof_maxValue t = 200 \<longrightarrow> s = t)"
proof -
  have n: "(32::nat) \<le> 252" and h: "(150::nat) < 2 ^ 32" "(100::nat) < 2 ^ 32" "(200::nat) < 2 ^ 32"
    by simp_all
  obtain s where s: "RangeProof_witness 32 150 100 200 = Inr s"
    using RangeProof_witness_ok [OF n h] by auto
  have i: "RangeProof_value s = 150" "RangeProof_minValue s = 100" "RangeProof_maxValue s = 200"
    and c: "main_constraints s"
    using RangeProof_witness_sound [OF s] by (simp_all add: main_constraints_def)
  have k: "main_signals_ok s"
    unfolding main_signals_ok_def
    using s pow32_field [OF h(1)] pow32_field [OF h(2)] pow32_field [OF h(3)]
    by (rule RangeProof_witness_signals_ok)
  have "\<forall>t. main_signals_ok t \<and> main_constraints t \<and> RangeProof_value t = 150 \<and>
            RangeProof_minValue t = 100 \<and> RangeProof_maxValue t = 200 \<longrightarrow> s = t"
  proof (intro allI impI, elim conjE)
    fix t assume t: "main_signals_ok t" "main_constraints t" "RangeProof_value t = 150"
      "RangeProof_minValue t = 100" "RangeProof_maxValue t = 200"
    show "s = t"
      using witness_unique [OF k c t(1) t(2)] i t(3,4,5) by simp
  qed
  then show ?thesis using s k c by (auto simp: main_witness_def)
qed

end
